theory Spec2Isabelle
  imports Complex_Main
begin

section \<open>Breakout: entities, collision resolver and game state machine\<close>

text \<open>
  The C++ sources (Ball.cpp, Paddle.cpp, Brick.cpp, Game.cpp, constants.hpp,
  GameState.hpp) are embedded as HOL functions over records.

  Numbers. A C++ \<open>float\<close> is modelled as a \<open>real\<close>: every arithmetic
  operation, \<open>std::sqrt\<close>, \<open>std::sin\<close> and \<open>std::cos\<close> is taken to be exact, so the
  theorems below describe the algorithms and their comparisons, guards and
  branches, and say nothing about rounding error. A C++ \<open>int\<close> is modelled
  as an \<open>int\<close>: the counters of the game (hit points, score, lives, level,
  bricks remaining) stay far inside the 32-bit range.

  Effects. Every member function that mutates its object takes the object
  and returns the updated one. Keyboard state, window events, the frame clock
  and \<open>std::rand\<close> are inputs of the functions that read them.
\<close>

subsection \<open>SFML value types\<close>

record Vector2f =
  vec_x :: real
  vec_y :: real

record FloatRect =
  rect_left :: real
  rect_top :: real
  rect_width :: real
  rect_height :: real

record Color =
  col_r :: nat
  col_g :: nat
  col_b :: nat

text \<open>
  \<open>sf::RectangleShape\<close> as far as the game uses it: position of the top-left
  corner, size, fill colour and outline thickness. \<open>getGlobalBounds\<close> of
  an untransformed shape is the rectangle of the shape grown by the outline
  thickness on every side.
\<close>

record RectangleShape =
  shape_x :: real
  shape_y :: real
  shape_w :: real
  shape_h :: real
  fillColor :: Color
  outlineThickness :: real

definition getGlobalBounds :: "RectangleShape \<Rightarrow> FloatRect" where
  "getGlobalBounds s =
     \<lparr> rect_left = shape_x s - outlineThickness s,
       rect_top = shape_y s - outlineThickness s,
       rect_width = shape_w s + 2 * outlineThickness s,
       rect_height = shape_h s + 2 * outlineThickness s \<rparr>"

text \<open>\<open>sf::FloatRect::contains\<close>: left and top edges inclusive, right and bottom exclusive.\<close>

definition contains :: "FloatRect \<Rightarrow> Vector2f \<Rightarrow> bool" where
  "contains rect p =
     (let minX = min (rect_left rect) (rect_left rect + rect_width rect);
          maxX = max (rect_left rect) (rect_left rect + rect_width rect);
          minY = min (rect_top rect) (rect_top rect + rect_height rect);
          maxY = max (rect_top rect) (rect_top rect + rect_height rect)
      in vec_x p \<ge> minX \<and> vec_x p < maxX \<and> vec_y p \<ge> minY \<and> vec_y p < maxY)"

text \<open>What a render call leaves in the window: the list of shapes drawn so far.\<close>

datatype Drawable = DrawRect RectangleShape | DrawCircle Vector2f real

type_synonym RenderWindow = "Drawable list"

subsection \<open>constants.hpp\<close>

definition WINDOW_WIDTH :: real where "WINDOW_WIDTH = 800"
definition WINDOW_HEIGHT :: real where "WINDOW_HEIGHT = 600"
definition PADDLE_WIDTH :: real where "PADDLE_WIDTH = 120"
definition PADDLE_HEIGHT :: real where "PADDLE_HEIGHT = 14"
definition PADDLE_SPEED :: real where "PADDLE_SPEED = 500"
definition PADDLE_Y_OFFSET :: real where "PADDLE_Y_OFFSET = 45"
definition BALL_RADIUS :: real where "BALL_RADIUS = 8"
definition BALL_INITIAL_SPEED :: real where "BALL_INITIAL_SPEED = 320"
definition BALL_SPEED_STEP :: real where "BALL_SPEED_STEP = 35"
definition BALL_MAX_SPEED :: real where "BALL_MAX_SPEED = 600"
definition BRICK_ROWS :: nat where "BRICK_ROWS = 6"
definition BRICK_COLS :: nat where "BRICK_COLS = 10"
definition BRICK_WIDTH :: real where "BRICK_WIDTH = 68"
definition BRICK_HEIGHT :: real where "BRICK_HEIGHT = 22"
definition BRICK_PADDING :: real where "BRICK_PADDING = 4"
definition BRICK_TOP_OFFSET :: real where "BRICK_TOP_OFFSET = 60"
definition INITIAL_LIVES :: int where "INITIAL_LIVES = 3"
definition MAX_LEVELS :: int where "MAX_LEVELS = 5"
definition LEVEL_COMPLETE_DELAY :: real where "LEVEL_COMPLETE_DELAY = 2"

subsection \<open>Brick.cpp\<close>

record Brick =
  brick_shape :: RectangleShape
  baseColor :: Color
  hitPoints :: int
  maxHitPoints :: int
  points :: int
  destroyed :: bool

text \<open>
  \<open>Brick::updateColor\<close>: each channel of the base colour is scaled by
  \<open>0.4 + 0.6 * hitPoints / maxHitPoints\<close> and truncated to a byte.
\<close>

definition updateColor :: "Brick \<Rightarrow> Brick" where
  "updateColor b =
     (let healthFraction = real_of_int (hitPoints b) / real_of_int (maxHitPoints b);
          brightnessScale = 0.4 + 0.6 * healthFraction;
          r = nat \<lfloor>real (col_r (baseColor b)) * brightnessScale\<rfloor>;
          g = nat \<lfloor>real (col_g (baseColor b)) * brightnessScale\<rfloor>;
          bl = nat \<lfloor>real (col_b (baseColor b)) * brightnessScale\<rfloor>
      in b\<lparr>brick_shape := (brick_shape b)\<lparr>fillColor := \<lparr>col_r = r, col_g = g, col_b = bl\<rparr>\<rparr>\<rparr>)"

text \<open>The constructor \<open>Brick::Brick(x, y, width, height, color, hitPoints, points)\<close>.\<close>

definition Brick_new :: "real \<Rightarrow> real \<Rightarrow> real \<Rightarrow> real \<Rightarrow> Color \<Rightarrow> int \<Rightarrow> int \<Rightarrow> Brick" where
  "Brick_new x y w h color hp pts =
     updateColor
       \<lparr> brick_shape = \<lparr> shape_x = x, shape_y = y, shape_w = w, shape_h = h,
                         fillColor = \<lparr>col_r = 255, col_g = 255, col_b = 255\<rparr>,
                         outlineThickness = 1.5 \<rparr>,
         baseColor = color, hitPoints = hp, maxHitPoints = hp, points = pts,
         destroyed = False \<rparr>"

text \<open>\<open>Brick::hit\<close>.\<close>

definition hit :: "Brick \<Rightarrow> Brick" where
  "hit b =
     (if destroyed b then b
      else let b1 = b\<lparr>hitPoints := hitPoints b - 1\<rparr>
           in if hitPoints b1 \<le> 0 then b1\<lparr>hitPoints := 0, destroyed := True\<rparr>
              else updateColor b1)"

definition isDestroyed :: "Brick \<Rightarrow> bool" where
  "isDestroyed b = destroyed b"

definition Brick_getBounds :: "Brick \<Rightarrow> FloatRect" where
  "Brick_getBounds b = getGlobalBounds (brick_shape b)"

definition getPoints :: "Brick \<Rightarrow> int" where
  "getPoints b = points b"

definition getHitPoints :: "Brick \<Rightarrow> int" where
  "getHitPoints b = hitPoints b"

text \<open>\<open>Brick::draw\<close>: a destroyed brick draws nothing.\<close>

definition Brick_draw :: "Brick \<Rightarrow> RenderWindow \<Rightarrow> RenderWindow" where
  "Brick_draw b window = (if destroyed b then window else window @ [DrawRect (brick_shape b)])"

subsection \<open>Paddle.cpp\<close>

record Paddle =
  paddle_shape :: RectangleShape
  paddle_speed :: real
  paddle_width :: real
  paddle_height :: real

definition Paddle_new :: "real \<Rightarrow> real \<Rightarrow> real \<Rightarrow> real \<Rightarrow> real \<Rightarrow> Paddle" where
  "Paddle_new startX startY w h sp =
     \<lparr> paddle_shape = \<lparr> shape_x = startX, shape_y = startY, shape_w = w, shape_h = h,
                          fillColor = \<lparr>col_r = 100, col_g = 180, col_b = 255\<rparr>,
                          outlineThickness = 1.5 \<rparr>,
       paddle_speed = sp, paddle_width = w, paddle_height = h \<rparr>"

text \<open>The keys \<open>Paddle::update\<close> polls with \<open>sf::Keyboard::isKeyPressed\<close>.\<close>

record Keyboard =
  key_Left :: bool
  key_A :: bool
  key_Right :: bool
  key_D :: bool

definition horizontalInput :: "Keyboard \<Rightarrow> real" where
  "horizontalInput k =
     (let h0 = 0;
          h1 = (if key_Left k \<or> key_A k then h0 - 1 else h0);
          h2 = (if key_Right k \<or> key_D k then h1 + 1 else h1)
      in h2)"

definition Paddle_update :: "Keyboard \<Rightarrow> real \<Rightarrow> real \<Rightarrow> Paddle \<Rightarrow> Paddle" where
  "Paddle_update k deltaTime windowWidth p =
     (let newX = shape_x (paddle_shape p) + horizontalInput k * paddle_speed p * deltaTime;
          newX' = max 0 (min newX (windowWidth - paddle_width p))
      in p\<lparr>paddle_shape := (paddle_shape p)\<lparr>shape_x := newX'\<rparr>\<rparr>)"

definition setPositionX :: "real \<Rightarrow> Paddle \<Rightarrow> Paddle" where
  "setPositionX x p = p\<lparr>paddle_shape := (paddle_shape p)\<lparr>shape_x := x\<rparr>\<rparr>"

definition Paddle_getBounds :: "Paddle \<Rightarrow> FloatRect" where
  "Paddle_getBounds p = getGlobalBounds (paddle_shape p)"

definition getCentreX :: "Paddle \<Rightarrow> real" where
  "getCentreX p = shape_x (paddle_shape p) + paddle_width p * 0.5"

definition getTopY :: "Paddle \<Rightarrow> real" where
  "getTopY p = shape_y (paddle_shape p)"

definition getWidth :: "Paddle \<Rightarrow> real" where
  "getWidth p = paddle_width p"

definition Paddle_draw :: "Paddle \<Rightarrow> RenderWindow \<Rightarrow> RenderWindow" where
  "Paddle_draw p window = window @ [DrawRect (paddle_shape p)]"

subsection \<open>Ball.cpp\<close>

text \<open>
  The circle shape has its origin at its centre, so its position is the
  centre of the ball.
\<close>

record Ball =
  ball_pos :: Vector2f
  velocity :: Vector2f
  radius :: real
  moving :: bool

definition Ball_new :: "real \<Rightarrow> real \<Rightarrow> real \<Rightarrow> Ball" where
  "Ball_new startX startY r =
     \<lparr> ball_pos = \<lparr>vec_x = startX, vec_y = startY\<rparr>,
       velocity = \<lparr>vec_x = 0, vec_y = 0\<rparr>, radius = r, moving = False \<rparr>"

text \<open>The constant \<open>PI\<close> of Ball.cpp and \<open>toRadians\<close>.\<close>

definition PI :: real where
  "PI = 3.14159265358979323846"

definition toRadians :: "real \<Rightarrow> real" where
  "toRadians degrees = degrees * (PI / 180)"

definition Ball_update :: "real \<Rightarrow> Ball \<Rightarrow> Ball" where
  "Ball_update deltaTime b =
     (if \<not> moving b then b
      else b\<lparr>ball_pos := \<lparr>vec_x = vec_x (ball_pos b) + vec_x (velocity b) * deltaTime,
                          vec_y = vec_y (ball_pos b) + vec_y (velocity b) * deltaTime\<rparr>\<rparr>)"

text \<open>\<open>Ball::launch\<close>; \<open>rnd\<close> is the value \<open>std::rand()\<close> returns.\<close>

definition launch :: "nat \<Rightarrow> real \<Rightarrow> Ball \<Rightarrow> Ball" where
  "launch rnd speed b =
     (if moving b then b
      else let angleOffsetDeg = real (rnd mod 91) - 45;
               angleRad = toRadians (- 90 + angleOffsetDeg)
           in b\<lparr>velocity := \<lparr>vec_x = speed * cos angleRad, vec_y = speed * sin angleRad\<rparr>,
                 moving := True\<rparr>)"

definition reset :: "real \<Rightarrow> real \<Rightarrow> Ball \<Rightarrow> Ball" where
  "reset x y b = b\<lparr>ball_pos := \<lparr>vec_x = x, vec_y = y\<rparr>,
                   velocity := \<lparr>vec_x = 0, vec_y = 0\<rparr>, moving := False\<rparr>"

definition setPosition :: "real \<Rightarrow> real \<Rightarrow> Ball \<Rightarrow> Ball" where
  "setPosition x y b = b\<lparr>ball_pos := \<lparr>vec_x = x, vec_y = y\<rparr>\<rparr>"

definition setVelocityX :: "real \<Rightarrow> Ball \<Rightarrow> Ball" where
  "setVelocityX v b = b\<lparr>velocity := (velocity b)\<lparr>vec_x := v\<rparr>\<rparr>"

definition setVelocityY :: "real \<Rightarrow> Ball \<Rightarrow> Ball" where
  "setVelocityY v b = b\<lparr>velocity := (velocity b)\<lparr>vec_y := v\<rparr>\<rparr>"

definition getSpeed :: "Ball \<Rightarrow> real" where
  "getSpeed b = sqrt (vec_x (velocity b) * vec_x (velocity b) + vec_y (velocity b) * vec_y (velocity b))"

text \<open>\<open>Ball::normaliseSpeed\<close>: below the threshold the velocity is left alone.\<close>

definition normaliseSpeed :: "real \<Rightarrow> Ball \<Rightarrow> Ball" where
  "normaliseSpeed speed b =
     (let currentSpeed = getSpeed b
      in if currentSpeed < 0.0001 then b
         else b\<lparr>velocity := \<lparr>vec_x = vec_x (velocity b) / currentSpeed * speed,
                               vec_y = vec_y (velocity b) / currentSpeed * speed\<rparr>\<rparr>)"

definition Ball_draw :: "Ball \<Rightarrow> RenderWindow \<Rightarrow> RenderWindow" where
  "Ball_draw b window = window @ [DrawCircle (ball_pos b) (radius b)]"

subsection \<open>GameState.hpp and the Game object\<close>

datatype GameState =
  MainMenu | BallOnPaddle | Playing | Paused | LevelComplete | GameOver | Victory | Controls

record Game =
  window_open :: bool
  ball :: Ball
  paddle :: Paddle
  bricks :: "Brick list"
  state :: GameState
  score :: int
  lives :: int
  level :: int
  ballSpeed :: real
  levelCompleteTimer :: real
  bricksRemaining :: int
  previousState :: GameState

text \<open>The per-row tables at the top of Game.cpp, top row first.\<close>

definition ROW_COLORS :: "Color list" where
  "ROW_COLORS =
     [ \<lparr>col_r = 220, col_g = 45, col_b = 45\<rparr>,
       \<lparr>col_r = 230, col_g = 120, col_b = 20\<rparr>,
       \<lparr>col_r = 210, col_g = 200, col_b = 20\<rparr>,
       \<lparr>col_r = 45, col_g = 185, col_b = 45\<rparr>,
       \<lparr>col_r = 45, col_g = 110, col_b = 225\<rparr>,
       \<lparr>col_r = 135, col_g = 45, col_b = 205\<rparr> ]"

definition ROW_POINTS :: "int list" where
  "ROW_POINTS = [60, 50, 40, 30, 20, 10]"

definition ROW_BASE_HIT_POINTS :: "int list" where
  "ROW_BASE_HIT_POINTS = [1, 1, 1, 1, 1, 1]"

subsection \<open>Game.cpp: initialisation helpers\<close>

text \<open>
  The brick \<open>createBricks\<close> places at \<open>(row, col)\<close> when the extra hit
  points are \<open>extraHitPoints\<close> and the grid starts at \<open>gridStartX\<close>: the body
  of the inner loop.
\<close>

definition brickAt :: "int \<Rightarrow> real \<Rightarrow> nat \<Rightarrow> nat \<Rightarrow> Brick" where
  "brickAt extraHitPoints gridStartX row col =
     (let x = gridStartX + real col * (BRICK_WIDTH + BRICK_PADDING);
          y = BRICK_TOP_OFFSET + real row * (BRICK_HEIGHT + BRICK_PADDING);
          hp = ROW_BASE_HIT_POINTS ! row + extraHitPoints;
          pts = ROW_POINTS ! row * hp
      in Brick_new x y BRICK_WIDTH BRICK_HEIGHT (ROW_COLORS ! row) hp pts)"

text \<open>
  \<open>Game::createBricks\<close>. The vector it builds depends on the level only:
  the two nested loops fill it row by row, and the rows stay below 6, the
  length of the three tables.
\<close>

definition brickGrid :: "int \<Rightarrow> Brick list" where
  "brickGrid lvl =
     (let extraHitPoints = max 0 (lvl - 1);
          totalGridWidth = real BRICK_COLS * BRICK_WIDTH + real (BRICK_COLS - 1) * BRICK_PADDING;
          gridStartX = (WINDOW_WIDTH - totalGridWidth) * 0.5
      in concat (map (\<lambda>row. map (\<lambda>col. brickAt extraHitPoints gridStartX row col)
                                   [0..<BRICK_COLS])
                     [0..<BRICK_ROWS]))"

definition createBricks :: "Game \<Rightarrow> Game" where
  "createBricks g =
     (let bs = brickGrid (level g)
      in g\<lparr>bricks := bs, bricksRemaining := int (length bs)\<rparr>)"

definition resetBallOnPaddle :: "Game \<Rightarrow> Game" where
  "resetBallOnPaddle g =
     (let ballX = getCentreX (paddle g);
          ballY = getTopY (paddle g) - BALL_RADIUS - 1
      in g\<lparr>ball := reset ballX ballY (ball g), state := BallOnPaddle\<rparr>)"

definition restartGame :: "Game \<Rightarrow> Game" where
  "restartGame g =
     (let g1 = g\<lparr>score := 0, lives := INITIAL_LIVES, level := 1, ballSpeed := BALL_INITIAL_SPEED\<rparr>;
          g2 = g1\<lparr>paddle := setPositionX ((WINDOW_WIDTH - PADDLE_WIDTH) * 0.5) (paddle g1)\<rparr>
      in resetBallOnPaddle (createBricks g2))"

definition advanceLevel :: "Game \<Rightarrow> Game" where
  "advanceLevel g =
     (let g1 = g\<lparr>level := level g + 1\<rparr>;
          g2 = g1\<lparr>ballSpeed := min (ballSpeed g1 + BALL_SPEED_STEP) BALL_MAX_SPEED\<rparr>;
          g3 = g2\<lparr>paddle := setPositionX ((WINDOW_WIDTH - PADDLE_WIDTH) * 0.5) (paddle g2)\<rparr>
      in resetBallOnPaddle (createBricks g3))"

text \<open>
  The constructor \<open>Game::Game(fontPath)\<close>; \<open>fontLoaded\<close> is the result of
  \<open>font.loadFromFile\<close>. Without the font the window is closed and the
  constructor returns before it builds the bricks.
\<close>

definition Game_new :: "bool \<Rightarrow> Game" where
  "Game_new fontLoaded =
     (let g = \<lparr> window_open = True,
                 ball = Ball_new (WINDOW_WIDTH * 0.5) (WINDOW_HEIGHT * 0.5) BALL_RADIUS,
                 paddle = Paddle_new ((WINDOW_WIDTH - PADDLE_WIDTH) * 0.5)
                            (WINDOW_HEIGHT - PADDLE_Y_OFFSET) PADDLE_WIDTH PADDLE_HEIGHT PADDLE_SPEED,
                 bricks = [], state = MainMenu, score = 0, lives = INITIAL_LIVES, level = 1,
                 ballSpeed = BALL_INITIAL_SPEED, levelCompleteTimer = 0, bricksRemaining = 0,
                 previousState = MainMenu \<rparr>
      in if \<not> fontLoaded then g\<lparr>window_open := False\<rparr>
         else resetBallOnPaddle (createBricks g))"

subsection \<open>Game.cpp: collision helpers\<close>

definition handleWallCollisions :: "Game \<Rightarrow> Game" where
  "handleWallCollisions g =
     (let pos = ball_pos (ball g);
          r = radius (ball g);
          winW = WINDOW_WIDTH;
          winH = WINDOW_HEIGHT;
          g1 = (if vec_x pos - r < 0
                then g\<lparr>ball := setPosition r (vec_y pos)
                                  (setVelocityX \<bar>vec_x (velocity (ball g))\<bar> (ball g))\<rparr>
                else g);
          g2 = (if vec_x pos + r > winW
                then g1\<lparr>ball := setPosition (winW - r) (vec_y pos)
                                   (setVelocityX (- \<bar>vec_x (velocity (ball g1))\<bar>) (ball g1))\<rparr>
                else g1);
          g3 = (if vec_y pos - r < 0
                then g2\<lparr>ball := setPosition (vec_x pos) r
                                   (setVelocityY \<bar>vec_y (velocity (ball g2))\<bar> (ball g2))\<rparr>
                else g2)
      in if vec_y pos - r > winH
         then (let g4 = g3\<lparr>lives := lives g3 - 1\<rparr>
               in if lives g4 \<le> 0 then g4\<lparr>lives := 0, state := GameOver\<rparr>
                  else resetBallOnPaddle g4)
         else g3)"

text \<open>The constant \<open>MAX_ANGLE_RAD\<close> of \<open>handlePaddleCollision\<close>.\<close>

definition MAX_ANGLE_RAD :: real where
  "MAX_ANGLE_RAD = 75 * (3.14159265 / 180)"

text \<open>
  The clamped horizontal hit position \<open>handlePaddleCollision\<close> computes
  for a ball centre at \<open>ballX\<close>.
\<close>

definition hitOffsetOf :: "Paddle \<Rightarrow> real \<Rightarrow> real" where
  "hitOffsetOf p ballX =
     (let hitOffset = (ballX - getCentreX p) / (getWidth p * 0.5)
      in max (- 1) (min 1 hitOffset))"

text \<open>The paddle rectangle grown by the ball radius on every side.\<close>

definition expandedBounds :: "Paddle \<Rightarrow> real \<Rightarrow> FloatRect" where
  "expandedBounds p r =
     (let paddleBounds = Paddle_getBounds p
      in \<lparr> rect_left = rect_left paddleBounds - r,
            rect_top = rect_top paddleBounds - r,
            rect_width = rect_width paddleBounds + 2 * r,
            rect_height = rect_height paddleBounds + 2 * r \<rparr>)"

definition handlePaddleCollision :: "Game \<Rightarrow> Game" where
  "handlePaddleCollision g =
     (if vec_y (velocity (ball g)) \<le> 0 then g
      else let paddleBounds = Paddle_getBounds (paddle g);
               ballPos = ball_pos (ball g);
               r = radius (ball g)
           in if \<not> contains (expandedBounds (paddle g) r) ballPos then g
              else let b1 = setPosition (vec_x ballPos) (rect_top paddleBounds - r - 0.5) (ball g);
                       hitOffset = hitOffsetOf (paddle g) (vec_x ballPos);
                       angle = hitOffset * MAX_ANGLE_RAD;
                       speed = getSpeed b1;
                       b2 = setVelocityX (speed * sin angle) b1;
                       b3 = setVelocityY (- speed * cos angle) b2
                   in g\<lparr>ball := normaliseSpeed (ballSpeed g) b3\<rparr>)"

definition reflectBall :: "Vector2f \<Rightarrow> Game \<Rightarrow> Game" where
  "reflectBall normal g =
     (let vel = velocity (ball g);
          dot = vec_x vel * vec_x normal + vec_y vel * vec_y normal;
          b1 = setVelocityX (vec_x vel - 2 * dot * vec_x normal) (ball g);
          b2 = setVelocityY (vec_y vel - 2 * dot * vec_y normal) b1
      in g\<lparr>ball := b2\<rparr>)"

text \<open>
  The nearest point of a rectangle to the ball centre, the squared distance
  to it, and the intersection test, as the loop of \<open>handleBrickCollisions\<close>
  computes them.
\<close>

definition closest :: "FloatRect \<Rightarrow> Vector2f \<Rightarrow> Vector2f" where
  "closest rect ballCenter =
     \<lparr> vec_x = max (rect_left rect) (min (vec_x ballCenter) (rect_left rect + rect_width rect)),
       vec_y = max (rect_top rect) (min (vec_y ballCenter) (rect_top rect + rect_height rect)) \<rparr>"

definition distSqTo :: "FloatRect \<Rightarrow> Vector2f \<Rightarrow> real" where
  "distSqTo rect ballCenter =
     (let dx = vec_x ballCenter - vec_x (closest rect ballCenter);
          dy = vec_y ballCenter - vec_y (closest rect ballCenter)
      in dx * dx + dy * dy)"

definition intersects :: "Vector2f \<Rightarrow> real \<Rightarrow> Brick \<Rightarrow> bool" where
  "intersects ballCenter r brick = (\<not> distSqTo (Brick_getBounds brick) ballCenter \<ge> r * r)"

text \<open>The collision normal of the first hit.\<close>

definition normalOf :: "FloatRect \<Rightarrow> Vector2f \<Rightarrow> Vector2f" where
  "normalOf rect ballCenter =
     (let dx = vec_x ballCenter - vec_x (closest rect ballCenter);
          dy = vec_y ballCenter - vec_y (closest rect ballCenter);
          dist = sqrt (distSqTo rect ballCenter)
      in if dist > 0.0001 then \<lparr>vec_x = dx / dist, vec_y = dy / dist\<rparr>
         else \<lparr>vec_x = 0, vec_y = - 1\<rparr>)"

text \<open>
  The reflection, push-out and speed normalisation done for the first brick
  hit in a frame; \<open>ballCenter\<close> and \<open>r\<close> are the centre and radius read
  before the loop.
\<close>

definition resolveHit :: "Vector2f \<Rightarrow> real \<Rightarrow> FloatRect \<Rightarrow> Game \<Rightarrow> Game" where
  "resolveHit ballCenter r rect g =
     (let dist = sqrt (distSqTo rect ballCenter);
          normal = normalOf rect ballCenter;
          g1 = reflectBall normal g;
          penetrationDepth = r - dist;
          g2 = g1\<lparr>ball := setPosition (vec_x ballCenter + vec_x normal * (penetrationDepth + 0.5))
                                      (vec_y ballCenter + vec_y normal * (penetrationDepth + 0.5))
                                      (ball g1)\<rparr>
      in g2\<lparr>ball := normaliseSpeed (ballSpeed g2) (ball g2)\<rparr>)"

text \<open>
  One iteration of the loop over the bricks: the brick, the rest of the game
  and the flag \<open>collisionResolvedThisFrame\<close> go in and come out.
\<close>

definition brickBody :: "Vector2f \<Rightarrow> real \<Rightarrow> Brick \<Rightarrow> Game \<Rightarrow> bool \<Rightarrow> Brick \<times> Game \<times> bool" where
  "brickBody ballCenter r brick g resolved =
     (if isDestroyed brick then (brick, g, resolved)
      else if \<not> intersects ballCenter r brick then (brick, g, resolved)
      else let brick1 = hit brick;
               g1 = (if isDestroyed brick1
                     then g\<lparr>score := score g + getPoints brick1,
                            bricksRemaining := bricksRemaining g - 1\<rparr>
                     else g)
           in if \<not> resolved
              then (brick1, resolveHit ballCenter r (Brick_getBounds brick) g1, True)
              else (brick1, g1, resolved))"

fun brickLoop :: "Vector2f \<Rightarrow> real \<Rightarrow> Brick list \<Rightarrow> Game \<Rightarrow> bool \<Rightarrow> Brick list \<times> Game \<times> bool" where
  "brickLoop ballCenter r [] g resolved = ([], g, resolved)"
| "brickLoop ballCenter r (brick # rest) g resolved =
     (case brickBody ballCenter r brick g resolved of
        (brick1, g1, resolved1) \<Rightarrow>
          (case brickLoop ballCenter r rest g1 resolved1 of
             (rest1, g2, resolved2) \<Rightarrow> (brick1 # rest1, g2, resolved2)))"

definition handleBrickCollisions :: "Game \<Rightarrow> Game" where
  "handleBrickCollisions g =
     (case brickLoop (ball_pos (ball g)) (radius (ball g)) (bricks g) g False of
        (bs, g1, resolved) \<Rightarrow> g1\<lparr>bricks := bs\<rparr>)"

subsection \<open>Game.cpp: the main loop\<close>

text \<open>\<open>Game::update\<close>, called while the state is \<open>Playing\<close> or \<open>BallOnPaddle\<close>.\<close>

definition update :: "Keyboard \<Rightarrow> real \<Rightarrow> Game \<Rightarrow> Game" where
  "update k deltaTime g =
     (let g1 = g\<lparr>paddle := Paddle_update k deltaTime WINDOW_WIDTH (paddle g)\<rparr>
      in if state g1 = BallOnPaddle
         then (let ballX = getCentreX (paddle g1);
                   ballY = getTopY (paddle g1) - BALL_RADIUS - 1
               in g1\<lparr>ball := reset ballX ballY (ball g1)\<rparr>)
         else let g2 = g1\<lparr>ball := Ball_update deltaTime (ball g1)\<rparr>;
                  g3 = handleWallCollisions g2;
                  g4 = handlePaddleCollision g3;
                  g5 = handleBrickCollisions g4
              in if bricksRemaining g5 \<le> 0
                 then (if level g5 \<ge> MAX_LEVELS then g5\<lparr>state := Victory\<rparr>
                       else g5\<lparr>state := LevelComplete,
                               levelCompleteTimer := LEVEL_COMPLETE_DELAY\<rparr>)
                 else g5)"

text \<open>The window events \<open>processEvents\<close> reacts to.\<close>

datatype Key = Escape | Space | KeyP | KeyH | OtherKey

datatype Event = Closed | KeyPressed Key | OtherEvent

definition keyPressed :: "nat \<Rightarrow> Key \<Rightarrow> Game \<Rightarrow> Game" where
  "keyPressed rnd key g =
     (case key of
        Escape \<Rightarrow>
          (if state g = Controls then g\<lparr>state := previousState g\<rparr>
           else g\<lparr>window_open := False\<rparr>)
      | Space \<Rightarrow>
          (if state g = MainMenu then restartGame g
           else if state g = BallOnPaddle
           then g\<lparr>ball := launch rnd (ballSpeed g) (ball g), state := Playing\<rparr>
           else if state g = GameOver \<or> state g = Victory then restartGame g
           else g)
      | KeyP \<Rightarrow>
          (if state g = Playing then g\<lparr>state := Paused\<rparr>
           else if state g = Paused then g\<lparr>state := Playing\<rparr>
           else g)
      | KeyH \<Rightarrow>
          (if state g = MainMenu \<or> state g = Paused
           then g\<lparr>previousState := state g, state := Controls\<rparr>
           else if state g = Controls then g\<lparr>state := previousState g\<rparr>
           else g)
      | OtherKey \<Rightarrow> g)"

text \<open>
  \<open>Game::processEvents\<close> over the events pending in this frame. A
  \<open>Closed\<close> event closes the window and returns; a closed window delivers no
  further events. \<open>rnd\<close> is what \<open>std::rand\<close> returns to a launch in this
  frame (a launch leaves the state \<open>Playing\<close>, from which no key leads back to
  \<open>BallOnPaddle\<close>, so one frame launches at most once).
\<close>

fun processEvents :: "nat \<Rightarrow> Event list \<Rightarrow> Game \<Rightarrow> Game" where
  "processEvents rnd [] g = g"
| "processEvents rnd (Closed # evs) g = g\<lparr>window_open := False\<rparr>"
| "processEvents rnd (KeyPressed key # evs) g =
     (let g1 = keyPressed rnd key g
      in if window_open g1 then processEvents rnd evs g1 else g1)"
| "processEvents rnd (OtherEvent # evs) g = processEvents rnd evs g"

text \<open>What one iteration of the loop in \<open>Game::run\<close> reads from outside.\<close>

record FrameInput =
  elapsed :: real
  events :: "Event list"
  keyboard :: Keyboard
  randValue :: nat

text \<open>One iteration of the loop in \<open>Game::run\<close> (rendering reads the state only).\<close>

definition runStep :: "FrameInput \<Rightarrow> Game \<Rightarrow> Game" where
  "runStep inp g =
     (let deltaTime = min (elapsed inp) 0.05;
          g1 = processEvents (randValue inp) (events inp) g
      in case state g1 of
           Playing \<Rightarrow> update (keyboard inp) deltaTime g1
         | BallOnPaddle \<Rightarrow> update (keyboard inp) deltaTime g1
         | LevelComplete \<Rightarrow>
             (let g2 = g1\<lparr>levelCompleteTimer := levelCompleteTimer g1 - deltaTime\<rparr>
              in if levelCompleteTimer g2 \<le> 0 then advanceLevel g2 else g2)
         | _ \<Rightarrow> g1)"

text \<open>
  The states \<open>Game::run\<close> passes through: the constructed game, and the
  result of an iteration taken while the window is open.
\<close>

inductive reachable :: "Game \<Rightarrow> bool" where
  init: "reachable (Game_new fontLoaded)"
| step: "reachable g \<Longrightarrow> window_open g \<Longrightarrow> reachable (runStep inp g)"

subsection \<open>Notions used in the statements\<close>

text \<open>
  The bricks the loop of \<open>handleBrickCollisions\<close> damages: those that
  pass both of its \<open>continue\<close> tests.
\<close>

definition struck :: "Vector2f \<Rightarrow> real \<Rightarrow> Brick \<Rightarrow> bool" where
  "struck ballCenter r brick = (\<not> isDestroyed brick \<and> intersects ballCenter r brick)"

text \<open>
  Row by row, for the grid of level \<open>lvl\<close>: the hit points a brick starts
  with (row base plus the extra of the level), and row base value times
  these hit points.
\<close>

definition gridHitPoints :: "int \<Rightarrow> int list" where
  "gridHitPoints lvl =
     concat (map (\<lambda>row. map (\<lambda>col. ROW_BASE_HIT_POINTS ! row + max 0 (lvl - 1)) [0..<BRICK_COLS])
                 [0..<BRICK_ROWS])"

definition gridPoints :: "int \<Rightarrow> int list" where
  "gridPoints lvl =
     concat (map (\<lambda>row. map (\<lambda>col. ROW_POINTS ! row * (ROW_BASE_HIT_POINTS ! row + max 0 (lvl - 1)))
                              [0..<BRICK_COLS])
                 [0..<BRICK_ROWS])"

text \<open>The sum of row base value times maximal hit points over the grid of a level.\<close>

definition levelTotal :: "int \<Rightarrow> int" where
  "levelTotal lvl = sum_list (gridPoints lvl)"

text \<open>The points of the destroyed bricks, and the number of bricks not destroyed.\<close>

definition destroyedPoints :: "Brick list \<Rightarrow> int" where
  "destroyedPoints bs = sum_list (map (\<lambda>b. if destroyed b then points b else 0) bs)"

definition intact :: "Brick list \<Rightarrow> nat" where
  "intact bs = length (filter (\<lambda>b. \<not> destroyed b) bs)"

text \<open>
  What holds of the score, the level and the bricks in every state of a
  session whose font was loaded.
\<close>

definition session_inv :: "Game \<Rightarrow> bool" where
  "session_inv g =
     (bricksRemaining g = int (intact (bricks g))
      \<and> 1 \<le> level g
      \<and> score g = sum_list (map levelTotal [1..level g - 1]) + destroyedPoints (bricks g)
      \<and> (state g = LevelComplete \<longrightarrow> bricksRemaining g \<le> 0)
      \<and> (previousState g = MainMenu \<or> previousState g = Paused)
      \<and> map points (bricks g) = gridPoints (level g)
      \<and> map maxHitPoints (bricks g) = gridHitPoints (level g))"

text \<open>
  A frame of level 1 used to evaluate the collision code: the first two
  bricks of the top row (the grid starts at x = 42), and the ball moving up
  under the gap between them, overlapping both.
\<close>

definition pairGame :: Game where
  "pairGame =
     \<lparr> window_open = True,
       ball = \<lparr> ball_pos = \<lparr>vec_x = 110, vec_y = 88.5\<rparr>,
                velocity = \<lparr>vec_x = 192, vec_y = - 256\<rparr>, radius = 8, moving = True \<rparr>,
       paddle = Paddle_new 340 555 120 14 500,
       bricks = [brickAt 0 42 0 0, brickAt 0 42 0 (Suc 0)],
       state = Playing, score = 0, lives = 3, level = 1, ballSpeed = 320,
       levelCompleteTimer = 0, bricksRemaining = 2, previousState = MainMenu \<rparr>"

text \<open>The sample frame with the ball at a given position and velocity.\<close>

definition frameWith :: "Vector2f \<Rightarrow> Vector2f \<Rightarrow> Game" where
  "frameWith pos vel = pairGame\<lparr>ball := \<lparr>ball_pos = pos, velocity = vel, radius = 8, moving = True\<rparr>\<rparr>"

text \<open>
  No key held; the sample frame after the paddle and the ball have moved for
  a 100th of a second; the level-complete state that frame leads to, with the
  countdown run down to 0.03 s; and a frame input with no events.
\<close>

definition noKeys :: Keyboard where
  "noKeys = \<lparr>key_Left = False, key_A = False, key_Right = False, key_D = False\<rparr>"

definition movedPair :: Game where
  "movedPair = pairGame\<lparr>paddle := Paddle_update noKeys (1 / 100) WINDOW_WIDTH (paddle pairGame),
                         ball := Ball_update (1 / 100) (ball pairGame)\<rparr>"

definition expiringGame :: Game where
  "expiringGame = (update noKeys (1 / 100) pairGame)\<lparr>levelCompleteTimer := 0.03\<rparr>"

definition fullFrame :: FrameInput where
  "fullFrame = \<lparr>elapsed = 0.06, events = [], keyboard = noKeys, randValue = 0\<rparr>"

text \<open>
  What holds of the ball speed in every state of a session: a moving ball
  has the speed of the level, which lies between the initial and the maximal
  speed.
\<close>

definition speed_inv :: "Game \<Rightarrow> bool" where
  "speed_inv g =
     ((moving (ball g) \<longrightarrow> getSpeed (ball g) = ballSpeed g)
      \<and> BALL_INITIAL_SPEED \<le> ballSpeed g \<and> ballSpeed g \<le> BALL_MAX_SPEED)"

text \<open>
  The reflection as the specification words it, to compare with the code:
  the normal is straight up if the ball centre is inside the rectangle (it is
  its own nearest point), and the unit vector from the nearest point to the
  centre otherwise; the velocity is reflected as \<open>r = v - 2 (v . n) n\<close>.
\<close>

definition specNormal :: "FloatRect \<Rightarrow> Vector2f \<Rightarrow> Vector2f" where
  "specNormal rect ballCenter =
     (let nearest = closest rect ballCenter;
          dx = vec_x ballCenter - vec_x nearest;
          dy = vec_y ballCenter - vec_y nearest;
          len = sqrt (dx * dx + dy * dy)
      in if nearest = ballCenter then \<lparr>vec_x = 0, vec_y = - 1\<rparr>
         else \<lparr>vec_x = dx / len, vec_y = dy / len\<rparr>)"

definition specReflect :: "Vector2f \<Rightarrow> Vector2f \<Rightarrow> Vector2f" where
  "specReflect v n =
     (let dot = vec_x v * vec_x n + vec_y v * vec_y n
      in \<lparr>vec_x = vec_x v - 2 * dot * vec_x n, vec_y = vec_y v - 2 * dot * vec_y n\<rparr>)"

text \<open>
  A frame in which the ball centre is \<open>2^-14\<close> (about 0.00006) to the right
  of the right edge of the bounds of the first brick, level with the brick.
\<close>

definition grazeGame :: Game where
  "grazeGame =
     \<lparr> window_open = True,
       ball = \<lparr> ball_pos = \<lparr>vec_x = 111.50006103515625, vec_y = 70\<rparr>,
                velocity = \<lparr>vec_x = - 192, vec_y = - 256\<rparr>, radius = 8, moving = True \<rparr>,
       paddle = Paddle_new 340 555 120 14 500,
       bricks = [brickAt 0 42 0 0],
       state = Playing, score = 0, lives = 3, level = 1, ballSpeed = 320,
       levelCompleteTimer = 0, bricksRemaining = 1, previousState = MainMenu \<rparr>"

text \<open>
  What holds of the paddle and of the bricks in every state of a session:
  the paddle keeps its width and stays inside the window, and a brick that is
  not destroyed has at least one hit point.
\<close>

definition entity_inv :: "Game \<Rightarrow> bool" where
  "entity_inv g =
     (paddle_width (paddle g) = PADDLE_WIDTH
      \<and> 0 \<le> shape_x (paddle_shape (paddle g))
      \<and> shape_x (paddle_shape (paddle g)) \<le> WINDOW_WIDTH - PADDLE_WIDTH
      \<and> (\<forall>b\<in>set (bricks g). destroyed b \<or> 1 \<le> hitPoints b))"

section \<open>Properties\<close>

lemmas constants_defs =
  WINDOW_WIDTH_def WINDOW_HEIGHT_def PADDLE_WIDTH_def PADDLE_HEIGHT_def PADDLE_SPEED_def
  PADDLE_Y_OFFSET_def BALL_RADIUS_def BALL_INITIAL_SPEED_def BALL_SPEED_STEP_def
  BALL_MAX_SPEED_def BRICK_ROWS_def BRICK_COLS_def BRICK_WIDTH_def BRICK_HEIGHT_def
  BRICK_PADDING_def BRICK_TOP_OFFSET_def INITIAL_LIVES_def MAX_LEVELS_def
  LEVEL_COMPLETE_DELAY_def

lemmas tables_defs = ROW_COLORS_def ROW_POINTS_def ROW_BASE_HIT_POINTS_def

subsection \<open>Bricks\<close>

lemma hit_funpow_destroyed: "destroyed b \<Longrightarrow> (hit ^^ m) b = b"
  by (induction m) (simp_all add: hit_def)

lemma hit_keeps_positive:
  "destroyed b \<or> 1 \<le> hitPoints b \<Longrightarrow> destroyed (hit b) \<or> 1 \<le> hitPoints (hit b)"
  by (auto simp: hit_def updateColor_def Let_def)

lemma hit_funpow_positive:
  "destroyed b \<or> 1 \<le> hitPoints b \<Longrightarrow>
     destroyed ((hit ^^ n) b) \<or> 1 \<le> hitPoints ((hit ^^ n) b)"
  by (induction n) (simp_all add: hit_keeps_positive)

lemma hit_once:
  "destroyed b \<or> 1 \<le> hitPoints b \<Longrightarrow>
     hitPoints (hit b) \<le> hitPoints b \<and>
     (\<not> destroyed b \<longrightarrow>
        hitPoints (hit b) = hitPoints b - 1 \<and> (destroyed (hit b) \<longleftrightarrow> hitPoints (hit b) = 0))"
  by (auto simp: hit_def updateColor_def Let_def)

lemma brickBody_destroyed: "destroyed b \<Longrightarrow> brickBody c r b g res = (b, g, res)"
  by (simp add: brickBody_def isDestroyed_def)

lemma brickAt_fresh:
  "\<not> destroyed (brickAt e gx row col) \<and>
   hitPoints (brickAt e gx row col) = ROW_BASE_HIT_POINTS ! row + e \<and>
   maxHitPoints (brickAt e gx row col) = ROW_BASE_HIT_POINTS ! row + e \<and>
   points (brickAt e gx row col) = ROW_POINTS ! row * (ROW_BASE_HIT_POINTS ! row + e)"
  by (simp add: brickAt_def Brick_new_def updateColor_def Let_def)

lemma ROW_BASE_HIT_POINTS_nth: "row < BRICK_ROWS \<Longrightarrow> ROW_BASE_HIT_POINTS ! row = 1"
  by (auto simp: BRICK_ROWS_def ROW_BASE_HIT_POINTS_def nth_Cons' less_Suc_eq numeral_eq_Suc)

lemma set_brickGrid:
  "set (brickGrid lvl) =
     (\<Union>row \<in> {0..<BRICK_ROWS}. \<Union>col \<in> {0..<BRICK_COLS}.
        {brickAt (max 0 (lvl - 1))
           ((WINDOW_WIDTH - (real BRICK_COLS * BRICK_WIDTH + real (BRICK_COLS - 1) * BRICK_PADDING)) * 0.5)
           row col})"
  by (auto simp: brickGrid_def Let_def)

lemma brickGrid_positive:
  assumes "b \<in> set (brickGrid lvl)"
  shows "\<not> destroyed b \<and> 1 \<le> hitPoints b"
proof -
  from assms obtain row col e gx where b: "b = brickAt e gx row col"
    and row: "row < BRICK_ROWS" and e: "e = max 0 (lvl - 1)"
    by (auto simp: set_brickGrid)
  show ?thesis using row e
    by (simp add: b brickAt_fresh ROW_BASE_HIT_POINTS_nth)
qed

lemma createBricks_positive:
  "b \<in> set (bricks (createBricks g)) \<Longrightarrow> \<not> destroyed b \<and> 1 \<le> hitPoints b"
  by (simp add: createBricks_def Let_def brickGrid_positive)

subsection \<open>Paddle\<close>

lemma horizontalInput_cases:
  "horizontalInput k =
     (if (key_Left k \<or> key_A k) \<and> (key_Right k \<or> key_D k) then 0
      else if key_Left k \<or> key_A k then - 1
      else if key_Right k \<or> key_D k then 1 else 0)"
  by (simp add: horizontalInput_def Let_def)

subsection \<open>The brick loop in closed form\<close>

lemma hit_points [simp]: "points (hit b) = points b"
  by (simp add: hit_def updateColor_def Let_def)

lemma hit_maxHitPoints [simp]: "maxHitPoints (hit b) = maxHitPoints b"
  by (simp add: hit_def updateColor_def Let_def)

lemma hit_bounds [simp]: "Brick_getBounds (hit b) = Brick_getBounds b"
  by (simp add: hit_def updateColor_def Let_def Brick_getBounds_def getGlobalBounds_def)

lemma resolveHit_upd: "resolveHit c r rect g = g\<lparr>ball := ball (resolveHit c r rect g)\<rparr>"
  by (simp add: resolveHit_def reflectBall_def Let_def)

lemma resolveHit_ball_cong:
  "ball g = ball g' \<Longrightarrow> ballSpeed g = ballSpeed g' \<Longrightarrow>
     ball (resolveHit c r rect g) = ball (resolveHit c r rect g')"
  by (simp add: resolveHit_def reflectBall_def Let_def)

lemma brickBody_eq:
  "brickBody c r b g res =
     (if struck c r b then hit b else b,
      g\<lparr>ball := (if struck c r b \<and> \<not> res then ball (resolveHit c r (Brick_getBounds b) g)
                 else ball g),
        score := score g + (if struck c r b \<and> destroyed (hit b) then points b else 0),
        bricksRemaining := bricksRemaining g - (if struck c r b \<and> destroyed (hit b) then 1 else 0)\<rparr>,
      res \<or> struck c r b)"
proof -
  have cong: "\<And>s n. ball (resolveHit c r (Brick_getBounds b) (g\<lparr>score := s, bricksRemaining := n\<rparr>))
      = ball (resolveHit c r (Brick_getBounds b) g)"
    by (rule resolveHit_ball_cong) simp_all
  show ?thesis
    apply (simp add: brickBody_def struck_def isDestroyed_def getPoints_def Let_def)
    apply (intro conjI impI)
    apply (subst resolveHit_upd, simp add: cong)+
    done
qed

lemma brickLoop_eq:
  "brickLoop c r bs g res =
     (map (\<lambda>b. if struck c r b then hit b else b) bs,
      g\<lparr>ball := (if res then ball g
                 else case find (struck c r) bs of
                        None \<Rightarrow> ball g
                      | Some b \<Rightarrow> ball (resolveHit c r (Brick_getBounds b) g)),
        score := score g
           + sum_list (map (\<lambda>b. if struck c r b \<and> destroyed (hit b) then points b else 0) bs),
        bricksRemaining := bricksRemaining g
           - int (length (filter (\<lambda>b. struck c r b \<and> destroyed (hit b)) bs))\<rparr>,
      res \<or> (\<exists>b\<in>set bs. struck c r b))"
proof (induction bs arbitrary: g res)
  case Nil
  show ?case by simp
next
  case (Cons b bs)
  have cong: "\<And>b' s n.
      ball (resolveHit c r (Brick_getBounds b') (g\<lparr>ball := ball g, score := s, bricksRemaining := n\<rparr>))
      = ball (resolveHit c r (Brick_getBounds b') g)"
    by (rule resolveHit_ball_cong) simp_all
  show ?case
  proof (cases "struck c r b")
    case True
    then show ?thesis
      by (simp add: brickBody_eq Cons.IH)
  next
    case False
    then show ?thesis
      by (cases res) (simp_all add: brickBody_eq Cons.IH cong split: option.splits)
  qed
qed

lemma handleBrickCollisions_eq:
  "handleBrickCollisions g =
     g\<lparr>ball := (case find (struck (ball_pos (ball g)) (radius (ball g))) (bricks g) of
                   None \<Rightarrow> ball g
                 | Some b \<Rightarrow> ball (resolveHit (ball_pos (ball g)) (radius (ball g))
                                       (Brick_getBounds b) g)),
       bricks := map (\<lambda>b. if struck (ball_pos (ball g)) (radius (ball g)) b then hit b else b)
                     (bricks g),
       score := score g
          + sum_list (map (\<lambda>b. if struck (ball_pos (ball g)) (radius (ball g)) b \<and> destroyed (hit b)
                                then points b else 0) (bricks g)),
       bricksRemaining := bricksRemaining g
          - int (length (filter (\<lambda>b. struck (ball_pos (ball g)) (radius (ball g)) b \<and> destroyed (hit b))
                                (bricks g)))\<rparr>"
  by (simp add: handleBrickCollisions_def brickLoop_eq)

subsection \<open>Score, level and bricks along a session\<close>

lemma destroyedPoints_none: "(\<forall>b\<in>set bs. \<not> destroyed b) \<Longrightarrow> destroyedPoints bs = 0"
  by (induction bs) (simp_all add: destroyedPoints_def)

lemma destroyedPoints_all:
  "(\<forall>b\<in>set bs. destroyed b) \<Longrightarrow> destroyedPoints bs = sum_list (map points bs)"
  by (induction bs) (simp_all add: destroyedPoints_def)

lemma intact_none: "(\<forall>b\<in>set bs. \<not> destroyed b) \<Longrightarrow> intact bs = length bs"
  by (induction bs) (simp_all add: intact_def)

lemma intact_zero: "intact bs = 0 \<longleftrightarrow> (\<forall>b\<in>set bs. destroyed b)"
  by (induction bs) (simp_all add: intact_def)

lemma brickGrid_points: "map points (brickGrid lvl) = gridPoints lvl"
  by (simp add: brickGrid_def gridPoints_def Let_def map_concat comp_def brickAt_fresh)

lemma brickGrid_maxHitPoints: "map maxHitPoints (brickGrid lvl) = gridHitPoints lvl"
  by (simp add: brickGrid_def gridHitPoints_def Let_def map_concat comp_def brickAt_fresh)

lemma brickGrid_hitPoints: "map hitPoints (brickGrid lvl) = gridHitPoints lvl"
  by (simp add: brickGrid_def gridHitPoints_def Let_def map_concat comp_def brickAt_fresh)

lemma length_brickGrid: "length (brickGrid lvl) = BRICK_ROWS * BRICK_COLS"
  by (simp add: brickGrid_def Let_def length_concat comp_def sum_list_triv)

lemma restartGame_upd:
  "restartGame g =
     g\<lparr>score := 0, lives := INITIAL_LIVES, level := 1, ballSpeed := BALL_INITIAL_SPEED,
       paddle := setPositionX ((WINDOW_WIDTH - PADDLE_WIDTH) * 0.5) (paddle g),
       bricks := brickGrid 1,
       bricksRemaining := int (length (brickGrid 1)),
       ball := reset (getCentreX (setPositionX ((WINDOW_WIDTH - PADDLE_WIDTH) * 0.5) (paddle g)))
                 (getTopY (setPositionX ((WINDOW_WIDTH - PADDLE_WIDTH) * 0.5) (paddle g))
                    - BALL_RADIUS - 1) (ball g),
       state := BallOnPaddle\<rparr>"
  by (simp add: restartGame_def Let_def resetBallOnPaddle_def createBricks_def)

lemma advanceLevel_upd:
  "advanceLevel g =
     g\<lparr>level := level g + 1,
       ballSpeed := min (ballSpeed g + BALL_SPEED_STEP) BALL_MAX_SPEED,
       paddle := setPositionX ((WINDOW_WIDTH - PADDLE_WIDTH) * 0.5) (paddle g),
       bricks := brickGrid (level g + 1),
       bricksRemaining := int (length (brickGrid (level g + 1))),
       ball := reset (getCentreX (setPositionX ((WINDOW_WIDTH - PADDLE_WIDTH) * 0.5) (paddle g)))
                 (getTopY (setPositionX ((WINDOW_WIDTH - PADDLE_WIDTH) * 0.5) (paddle g))
                    - BALL_RADIUS - 1) (ball g),
       state := BallOnPaddle\<rparr>"
  by (simp add: advanceLevel_def Let_def resetBallOnPaddle_def createBricks_def)

lemma session_inv_restartGame:
  "previousState g = MainMenu \<or> previousState g = Paused \<Longrightarrow> session_inv (restartGame g)"
  by (simp add: restartGame_upd session_inv_def intact_none brickGrid_positive
      destroyedPoints_none brickGrid_points brickGrid_maxHitPoints)

lemma session_inv_advanceLevel:
  assumes "session_inv g" "state g = LevelComplete"
  shows "session_inv (advanceLevel g)"
proof -
  from assms have z: "intact (bricks g) = 0" by (simp add: session_inv_def)
  then have all: "\<forall>b\<in>set (bricks g). destroyed b" by (simp add: intact_zero)
  have dp: "destroyedPoints (bricks g) = levelTotal (level g)"
    using assms(1) by (simp add: destroyedPoints_all [OF all] levelTotal_def session_inv_def)
  have l: "1 \<le> level g" using assms(1) by (simp add: session_inv_def)
  have up: "[1..level g] = [1..level g - 1] @ [level g]"
    using l by (simp add: upto_rec2)
  show ?thesis using assms(1) l
    by (simp add: advanceLevel_upd session_inv_def intact_none brickGrid_positive
      destroyedPoints_none brickGrid_points brickGrid_maxHitPoints up dp)
qed

lemma handleWallCollisions_upd:
  "handleWallCollisions g =
     g\<lparr>ball := ball (handleWallCollisions g), lives := lives (handleWallCollisions g),
       state := state (handleWallCollisions g)\<rparr>"
  by (simp add: handleWallCollisions_def resetBallOnPaddle_def Let_def)

lemma handleWallCollisions_state:
  "state (handleWallCollisions g) = state g \<or> state (handleWallCollisions g) = GameOver
     \<or> state (handleWallCollisions g) = BallOnPaddle"
  by (simp add: handleWallCollisions_def resetBallOnPaddle_def Let_def)

lemma handlePaddleCollision_upd:
  "handlePaddleCollision g = g\<lparr>ball := ball (handlePaddleCollision g)\<rparr>"
  by (simp add: handlePaddleCollision_def Let_def)

lemma strike_intact:
  "int (intact (map (\<lambda>b. if struck c r b then hit b else b) bs))
     = int (intact bs) - int (length (filter (\<lambda>b. struck c r b \<and> destroyed (hit b)) bs))"
  by (induction bs) (auto simp: intact_def struck_def isDestroyed_def)

lemma strike_destroyedPoints:
  "destroyedPoints (map (\<lambda>b. if struck c r b then hit b else b) bs)
     = destroyedPoints bs
       + sum_list (map (\<lambda>b. if struck c r b \<and> destroyed (hit b) then points b else 0) bs)"
  by (induction bs) (auto simp: destroyedPoints_def struck_def isDestroyed_def)

lemma strike_points:
  "map points (map (\<lambda>b. if struck c r b then hit b else b) bs) = map points bs"
  by (induction bs) auto

lemma strike_maxHitPoints:
  "map maxHitPoints (map (\<lambda>b. if struck c r b then hit b else b) bs) = map maxHitPoints bs"
  by (induction bs) auto

lemma session_inv_cong:
  assumes "session_inv g"
    and "bricksRemaining g' = bricksRemaining g" "bricks g' = bricks g" "level g' = level g"
    and "score g' = score g" "previousState g' = previousState g"
    and "state g' = LevelComplete \<longrightarrow> state g = LevelComplete"
  shows "session_inv g'"
  using assms by (auto simp: session_inv_def)

lemma session_inv_handleWall:
  assumes "session_inv g" shows "session_inv (handleWallCollisions g)"
  using handleWallCollisions_state [of g]
  by (intro session_inv_cong [OF assms]; subst handleWallCollisions_upd) auto

lemma session_inv_handlePaddle:
  assumes "session_inv g" shows "session_inv (handlePaddleCollision g)"
  by (rule session_inv_cong [OF assms]; subst handlePaddleCollision_upd; simp)

lemma session_inv_handleBrick:
  assumes "session_inv g" shows "session_inv (handleBrickCollisions g)"
proof -
  let ?c = "ball_pos (ball g)" and ?r = "radius (ball g)"
  let ?bs = "map (\<lambda>b. if struck ?c ?r b then hit b else b) (bricks g)"
  let ?n = "int (length (filter (\<lambda>b. struck ?c ?r b \<and> destroyed (hit b)) (bricks g)))"
  let ?s = "sum_list (map (\<lambda>b. if struck ?c ?r b \<and> destroyed (hit b) then points b else 0)
                          (bricks g))"
  have 1: "bricksRemaining g - ?n = int (intact ?bs)"
    using assms by (simp add: strike_intact session_inv_def)
  have 2: "score g + ?s = sum_list (map levelTotal [1..level g - 1]) + destroyedPoints ?bs"
    using assms by (simp add: strike_destroyedPoints session_inv_def)
  have 3: "state g = LevelComplete \<longrightarrow> bricksRemaining g - ?n \<le> 0"
    using assms by (auto simp: session_inv_def)
  have 4: "map points ?bs = gridPoints (level g)" "map maxHitPoints ?bs = gridHitPoints (level g)"
    using assms by (simp_all only: strike_points strike_maxHitPoints session_inv_def)
  have 5: "1 \<le> level g" "previousState g = MainMenu \<or> previousState g = Paused"
    using assms by (simp_all add: session_inv_def)
  show ?thesis
    unfolding session_inv_def handleBrickCollisions_eq
    using 1 2 3 4 5 by simp
qed

lemma session_inv_update:
  assumes "session_inv g" shows "session_inv (update k dt g)"
proof -
  let ?g1 = "g\<lparr>paddle := Paddle_update k dt WINDOW_WIDTH (paddle g)\<rparr>"
  let ?g2 = "?g1\<lparr>ball := Ball_update dt (ball ?g1)\<rparr>"
  let ?g5 = "handleBrickCollisions (handlePaddleCollision (handleWallCollisions ?g2))"
  have "session_inv ?g2" using assms by (auto simp: session_inv_def)
  then have i5: "session_inv ?g5"
    by (intro session_inv_handleBrick session_inv_handlePaddle session_inv_handleWall)
  have a: "session_inv (?g5\<lparr>state := Victory\<rparr>)"
    using i5 by (auto simp: session_inv_def)
  have b: "bricksRemaining ?g5 \<le> 0 \<Longrightarrow>
      session_inv (?g5\<lparr>state := LevelComplete, levelCompleteTimer := LEVEL_COMPLETE_DELAY\<rparr>)"
    using i5 by (auto simp: session_inv_def)
  have c: "session_inv (?g1\<lparr>ball := reset (getCentreX (paddle ?g1))
              (getTopY (paddle ?g1) - BALL_RADIUS - 1) (ball ?g1)\<rparr>)"
    using assms by (auto simp: session_inv_def)
  show ?thesis
    unfolding update_def Let_def
    using a b c i5 by (simp del: Game.simps add: Let_def)
qed

lemma session_inv_keyPressed:
  assumes "session_inv g" shows "session_inv (keyPressed rnd key g)"
proof (cases key)
  case Space
  have r: "session_inv (restartGame g)"
    using assms by (intro session_inv_restartGame) (simp add: session_inv_def)
  have l: "session_inv (g\<lparr>ball := launch rnd (ballSpeed g) (ball g), state := Playing\<rparr>)"
    using assms by (auto simp: session_inv_def)
  show ?thesis using r l assms by (simp add: keyPressed_def Space)
next
  case Escape
  then show ?thesis using assms by (auto simp: keyPressed_def session_inv_def)
next
  case KeyP
  then show ?thesis using assms by (auto simp: keyPressed_def session_inv_def)
next
  case KeyH
  then show ?thesis using assms by (auto simp: keyPressed_def session_inv_def)
next
  case OtherKey
  then show ?thesis using assms by (simp add: keyPressed_def)
qed

lemma session_inv_processEvents:
  "session_inv g \<Longrightarrow> session_inv (processEvents rnd evs g)"
proof (induction rnd evs g rule: processEvents.induct)
  case (1 rnd g)
  then show ?case by simp
next
  case (2 rnd evs g)
  then show ?case by (auto simp: session_inv_def)
next
  case (3 rnd key evs g)
  then show ?case by (simp add: Let_def session_inv_keyPressed)
next
  case (4 rnd evs g)
  then show ?case by simp
qed

lemma session_inv_runStep:
  assumes "session_inv g" shows "session_inv (runStep inp g)"
proof -
  let ?g1 = "processEvents (randValue inp) (events inp) g"
  let ?dt = "min (elapsed inp) 0.05"
  let ?g2 = "?g1\<lparr>levelCompleteTimer := levelCompleteTimer ?g1 - ?dt\<rparr>"
  have i1: "session_inv ?g1" using assms by (rule session_inv_processEvents)
  have u: "session_inv (update (keyboard inp) ?dt ?g1)" using i1 by (rule session_inv_update)
  have i2: "session_inv ?g2" using i1 by (auto simp: session_inv_def)
  have a: "state ?g1 = LevelComplete \<Longrightarrow> session_inv (advanceLevel ?g2)"
    using i2 by (intro session_inv_advanceLevel) simp_all
  show ?thesis
    unfolding runStep_def Let_def
    using i1 u i2 a by (cases "state ?g1") (simp_all del: Game.simps)
qed

lemma Game_new_True_inv: "session_inv (Game_new True)"
  by (simp add: Game_new_def Let_def resetBallOnPaddle_def createBricks_def session_inv_def
      intact_none brickGrid_positive destroyedPoints_none brickGrid_points brickGrid_maxHitPoints)

lemma Game_new_False:
  "\<not> window_open (Game_new False) \<and> bricks (Game_new False) = []
   \<and> score (Game_new False) = 0 \<and> level (Game_new False) = 1
   \<and> bricksRemaining (Game_new False) = 0"
  by (simp add: Game_new_def Let_def)

lemma reachable_inv: "reachable g \<Longrightarrow> session_inv g \<or> g = Game_new False"
proof (induction rule: reachable.induct)
  case (init fontLoaded)
  then show ?case using Game_new_True_inv by (cases fontLoaded) simp_all
next
  case (step g inp)
  then show ?case using Game_new_False session_inv_runStep by auto
qed

subsection \<open>Evaluating the sample frame\<close>

lemma pair_brick0:
  "brickAt 0 42 0 0 =
     \<lparr> brick_shape = \<lparr> shape_x = 42, shape_y = 60, shape_w = 68, shape_h = 22,
                       fillColor = \<lparr>col_r = 220, col_g = 45, col_b = 45\<rparr>,
                       outlineThickness = 1.5 \<rparr>,
       baseColor = \<lparr>col_r = 220, col_g = 45, col_b = 45\<rparr>, hitPoints = 1,
       maxHitPoints = 1, points = 60, destroyed = False \<rparr>"
  by (simp add: brickAt_def Brick_new_def updateColor_def tables_defs Let_def constants_defs)

lemma pair_brick1:
  "brickAt 0 42 0 (Suc 0) =
     \<lparr> brick_shape = \<lparr> shape_x = 114, shape_y = 60, shape_w = 68, shape_h = 22,
                       fillColor = \<lparr>col_r = 220, col_g = 45, col_b = 45\<rparr>,
                       outlineThickness = 1.5 \<rparr>,
       baseColor = \<lparr>col_r = 220, col_g = 45, col_b = 45\<rparr>, hitPoints = 1,
       maxHitPoints = 1, points = 60, destroyed = False \<rparr>"
  by (simp add: brickAt_def Brick_new_def updateColor_def tables_defs Let_def constants_defs)

lemma pairGame_fields:
  "bricks pairGame = [brickAt 0 42 0 0, brickAt 0 42 0 (Suc 0)]"
  "score pairGame = 0" "bricksRemaining pairGame = 2" "ballSpeed pairGame = 320"
  by (simp_all add: pairGame_def)

lemma pairGame_ball:
  "ball pairGame = \<lparr> ball_pos = \<lparr>vec_x = 110, vec_y = 88.5\<rparr>,
                      velocity = \<lparr>vec_x = 192, vec_y = - 256\<rparr>, radius = 8, moving = True \<rparr>"
  by (simp add: pairGame_def)

lemma pair_struck0: "struck (ball_pos (ball pairGame)) (radius (ball pairGame)) (brickAt 0 42 0 0)"
  by (simp add: pairGame_def pair_brick0 struck_def isDestroyed_def intersects_def distSqTo_def
      closest_def Brick_getBounds_def getGlobalBounds_def Let_def)

lemma pair_struck1:
  "struck (ball_pos (ball pairGame)) (radius (ball pairGame)) (brickAt 0 42 0 (Suc 0))"
  by (simp add: pairGame_def pair_brick1 struck_def isDestroyed_def intersects_def distSqTo_def
      closest_def Brick_getBounds_def getGlobalBounds_def Let_def)

lemma pair_hit0: "destroyed (hit (brickAt 0 42 0 0)) \<and> points (brickAt 0 42 0 0) = 60"
  by (simp add: pair_brick0 hit_def)

lemma pair_hit1:
  "destroyed (hit (brickAt 0 42 0 (Suc 0))) \<and> points (brickAt 0 42 0 (Suc 0)) = 60"
  by (simp add: pair_brick1 hit_def)

lemma pairGame_bricks:
  "bricks (handleBrickCollisions pairGame) = [hit (brickAt 0 42 0 0), hit (brickAt 0 42 0 (Suc 0))]"
  by (simp add: handleBrickCollisions_eq pairGame_fields pair_struck0 pair_struck1)

lemma pairGame_counters:
  "score (handleBrickCollisions pairGame) = 120
   \<and> bricksRemaining (handleBrickCollisions pairGame) = 0"
  by (simp add: handleBrickCollisions_eq pairGame_fields pair_struck0 pair_struck1
      pair_hit0 pair_hit1)

subsection \<open>Bricks remaining\<close>

lemma zip_map_self: "zip xs (map f xs) = map (\<lambda>x. (x, f x)) xs"
  by (induction xs) simp_all

lemma struck_transition:
  "(\<not> destroyed b \<and> destroyed (if struck c r b then hit b else b))
     \<longleftrightarrow> (struck c r b \<and> destroyed (hit b))"
  by (auto simp: struck_def isDestroyed_def)

lemma handleBrickCollisions_transitions:
  "length (bricks (handleBrickCollisions h)) = length (bricks h)
   \<and> bricksRemaining (handleBrickCollisions h)
       = bricksRemaining h
         - int (length (filter (\<lambda>(b, b'). \<not> destroyed b \<and> destroyed b')
                               (zip (bricks h) (bricks (handleBrickCollisions h)))))
   \<and> score (handleBrickCollisions h)
       = score h
         + sum_list (map (\<lambda>(b, b'). if \<not> destroyed b \<and> destroyed b' then points b else 0)
                         (zip (bricks h) (bricks (handleBrickCollisions h))))"
  by (simp add: handleBrickCollisions_eq zip_map_self filter_map comp_def struck_transition)

text \<open>
  C9. In every state a session reaches, \<open>bricksRemaining\<close> is the number of
  bricks in storage that are not destroyed; so it is never negative, and it
  is 0 exactly when every brick is destroyed. \<open>createBricks\<close> sets it to the
  size of the grid, \<open>BRICK_ROWS * BRICK_COLS\<close>, with no brick destroyed.
  \<open>handleBrickCollisions\<close> keeps the number of bricks, lowers
  \<open>bricksRemaining\<close> by the number of bricks that went from not destroyed to
  destroyed in the call, and adds the points of exactly these bricks to the
  score.
\<close>

theorem bricksRemaining_counts_intact:
  "(reachable g \<longrightarrow>
       bricksRemaining g = int (length (filter (\<lambda>b. \<not> destroyed b) (bricks g)))
     \<and> 0 \<le> bricksRemaining g
     \<and> (bricksRemaining g = 0 \<longleftrightarrow> (\<forall>b\<in>set (bricks g). destroyed b)))
   \<and> bricksRemaining (createBricks h) = int (BRICK_ROWS * BRICK_COLS)
   \<and> length (bricks (createBricks h)) = BRICK_ROWS * BRICK_COLS
   \<and> (\<forall>b\<in>set (bricks (createBricks h)). \<not> destroyed b)
   \<and> length (bricks (handleBrickCollisions h)) = length (bricks h)
   \<and> bricksRemaining (handleBrickCollisions h)
       = bricksRemaining h
         - int (length (filter (\<lambda>(b, b'). \<not> destroyed b \<and> destroyed b')
                               (zip (bricks h) (bricks (handleBrickCollisions h)))))
   \<and> score (handleBrickCollisions h)
       = score h
         + sum_list (map (\<lambda>(b, b'). if \<not> destroyed b \<and> destroyed b' then points b else 0)
                         (zip (bricks h) (bricks (handleBrickCollisions h))))"
proof -
  have r: "bricksRemaining g = int (length (filter (\<lambda>b. \<not> destroyed b) (bricks g)))
     \<and> 0 \<le> bricksRemaining g
     \<and> (bricksRemaining g = 0 \<longleftrightarrow> (\<forall>b\<in>set (bricks g). destroyed b))" if "reachable g"
  proof -
    have eq: "bricksRemaining g = int (intact (bricks g))"
      using reachable_inv [OF that] Game_new_False
      by (auto simp: session_inv_def intact_def)
    show ?thesis
      using eq intact_zero [of "bricks g"] by (simp add: intact_def)
  qed
  have c: "bricksRemaining (createBricks h) = int (BRICK_ROWS * BRICK_COLS)
     \<and> length (bricks (createBricks h)) = BRICK_ROWS * BRICK_COLS
     \<and> (\<forall>b\<in>set (bricks (createBricks h)). \<not> destroyed b)"
    by (simp add: createBricks_def Let_def length_brickGrid brickGrid_positive)
  show ?thesis
    using r c handleBrickCollisions_transitions [of h] by blast
qed

text \<open>
  The constructed game has all 60 bricks intact; the sample frame destroys
  its two bricks, so none remains and every brick in storage is destroyed.
\<close>

theorem bricksRemaining_counts_intact_witness:
  "reachable (Game_new True)
   \<and> bricksRemaining (Game_new True) = 60
   \<and> length (filter (\<lambda>b. \<not> destroyed b) (bricks (Game_new True))) = 60
   \<and> bricksRemaining pairGame = 2
   \<and> bricksRemaining (handleBrickCollisions pairGame) = 0
   \<and> length (filter (\<lambda>(b, b'). \<not> destroyed b \<and> destroyed b')
               (zip (bricks pairGame) (bricks (handleBrickCollisions pairGame)))) = 2
   \<and> list_all (\<lambda>b. \<not> destroyed b) (bricks (createBricks pairGame))"
proof -
  have a: "reachable (Game_new True)" by (rule reachable.init)
  have b: "bricksRemaining (Game_new True) = 60"
    by (simp add: Game_new_def Let_def resetBallOnPaddle_def createBricks_def length_brickGrid
        BRICK_ROWS_def BRICK_COLS_def)
  have c: "bricksRemaining pairGame = 2" by (simp add: pairGame_fields)
  show ?thesis
    using a b c pairGame_counters bricksRemaining_counts_intact [of "Game_new True" pairGame]
    by (simp add: list_all_iff)
qed

subsection \<open>Score\<close>

lemma Game_new_True_fields:
  "bricks (Game_new True) = brickGrid 1" "score (Game_new True) = 0" "level (Game_new True) = 1"
  by (simp_all add: Game_new_def Let_def resetBallOnPaddle_def createBricks_def)

lemma brickGrid_nonempty: "brickGrid lvl \<noteq> []"
  using length_brickGrid [of lvl] by (auto simp: BRICK_ROWS_def BRICK_COLS_def)

lemma upt_rows: "[0..<6] = [0, 1, 2, 3, 4, 5::nat]"
  by code_simp

lemma upt_cols: "[0..<10] = [0, 1, 2, 3, 4, 5, 6, 7, 8, 9::nat]"
  by code_simp

lemma levelTotal_value: "levelTotal lvl = 2100 * (1 + max 0 (lvl - 1))"
  by (simp add: levelTotal_def gridPoints_def tables_defs BRICK_ROWS_def BRICK_COLS_def
      upt_rows upt_cols)

subsection \<open>Walls and the bottom boundary\<close>

lemma hWC_bottom:
  assumes "vec_y (ball_pos (ball g)) - radius (ball g) > WINDOW_HEIGHT"
  shows "handleWallCollisions g =
     (if lives g - 1 \<le> 0
      then g\<lparr>ball := ball (handleWallCollisions g), lives := 0, state := GameOver\<rparr>
      else g\<lparr>ball := reset (getCentreX (paddle g)) (getTopY (paddle g) - BALL_RADIUS - 1) (ball g),
             lives := lives g - 1, state := BallOnPaddle\<rparr>)"
  using assms
  by (simp add: handleWallCollisions_def resetBallOnPaddle_def Let_def reset_def setPosition_def
      setVelocityX_def setVelocityY_def)

lemma frameWith_fields:
  "ball (frameWith pos vel) = \<lparr>ball_pos = pos, velocity = vel, radius = 8, moving = True\<rparr>"
  "lives (frameWith pos vel) = 3" "state (frameWith pos vel) = Playing"
  "paddle (frameWith pos vel) = Paddle_new 340 555 120 14 500"
  by (simp_all add: frameWith_def pairGame_def)

text \<open>
  C5. When the top edge of the ball is below the window
  (\<open>y - radius > WINDOW_HEIGHT\<close>), \<open>handleWallCollisions\<close> takes one life
  from a player who has one. With exactly one life the lives become 0 and the
  state \<open>GameOver\<close>. With more than one the state becomes
  \<open>BallOnPaddle\<close> and the ball is put at x = centre of the paddle,
  y = top of the paddle - \<open>BALL_RADIUS\<close> - 1, with velocity zero and not
  moving. The paddle is not touched.
\<close>

theorem life_loss_boundary:
  assumes "vec_y (ball_pos (ball g)) - radius (ball g) > WINDOW_HEIGHT"
  shows "(1 \<le> lives g \<longrightarrow> lives (handleWallCollisions g) = lives g - 1)
       \<and> (lives g = 1 \<longrightarrow>
             lives (handleWallCollisions g) = 0 \<and> state (handleWallCollisions g) = GameOver)
       \<and> (lives g > 1 \<longrightarrow>
             state (handleWallCollisions g) = BallOnPaddle
           \<and> ball_pos (ball (handleWallCollisions g))
               = \<lparr>vec_x = getCentreX (paddle g), vec_y = getTopY (paddle g) - BALL_RADIUS - 1\<rparr>
           \<and> velocity (ball (handleWallCollisions g)) = \<lparr>vec_x = 0, vec_y = 0\<rparr>
           \<and> \<not> moving (ball (handleWallCollisions g))
           \<and> radius (ball (handleWallCollisions g)) = radius (ball g))
       \<and> paddle (handleWallCollisions g) = paddle g"
  by (subst (1 2 3 4 5 6 7 8 9) hWC_bottom [OF assms]) (auto simp: reset_def)

text \<open>
  The sample frame with the ball centre at y = 609 (top edge at 601): with 3
  lives the ball goes back to (400, 546) above the paddle and 2 lives remain;
  with 1 life the game is over.
\<close>

theorem life_loss_boundary_witness:
  "vec_y (ball_pos (ball (frameWith \<lparr>vec_x = 100, vec_y = 609\<rparr> \<lparr>vec_x = 192, vec_y = 256\<rparr>)))
     - radius (ball (frameWith \<lparr>vec_x = 100, vec_y = 609\<rparr> \<lparr>vec_x = 192, vec_y = 256\<rparr>))
     > WINDOW_HEIGHT
   \<and> lives (frameWith \<lparr>vec_x = 100, vec_y = 609\<rparr> \<lparr>vec_x = 192, vec_y = 256\<rparr>) > 1
   \<and> lives (handleWallCollisions (frameWith \<lparr>vec_x = 100, vec_y = 609\<rparr> \<lparr>vec_x = 192, vec_y = 256\<rparr>)) = 2
   \<and> state (handleWallCollisions (frameWith \<lparr>vec_x = 100, vec_y = 609\<rparr> \<lparr>vec_x = 192, vec_y = 256\<rparr>))
       = BallOnPaddle
   \<and> ball_pos (ball (handleWallCollisions (frameWith \<lparr>vec_x = 100, vec_y = 609\<rparr> \<lparr>vec_x = 192, vec_y = 256\<rparr>)))
       = \<lparr>vec_x = 400, vec_y = 546\<rparr>
   \<and> lives ((frameWith \<lparr>vec_x = 100, vec_y = 609\<rparr> \<lparr>vec_x = 192, vec_y = 256\<rparr>)\<lparr>lives := 1\<rparr>) = 1
   \<and> lives (handleWallCollisions
         ((frameWith \<lparr>vec_x = 100, vec_y = 609\<rparr> \<lparr>vec_x = 192, vec_y = 256\<rparr>)\<lparr>lives := 1\<rparr>)) = 0
   \<and> state (handleWallCollisions
         ((frameWith \<lparr>vec_x = 100, vec_y = 609\<rparr> \<lparr>vec_x = 192, vec_y = 256\<rparr>)\<lparr>lives := 1\<rparr>)) = GameOver"
proof -
  let ?g = "frameWith \<lparr>vec_x = 100, vec_y = 609\<rparr> \<lparr>vec_x = 192, vec_y = 256\<rparr>"
  have h: "vec_y (ball_pos (ball ?g)) - radius (ball ?g) > WINDOW_HEIGHT"
    by (simp add: frameWith_fields WINDOW_HEIGHT_def)
  have h1: "vec_y (ball_pos (ball (?g\<lparr>lives := 1\<rparr>))) - radius (ball (?g\<lparr>lives := 1\<rparr>)) > WINDOW_HEIGHT"
    by (simp add: frameWith_fields WINDOW_HEIGHT_def)
  show ?thesis
    using h life_loss_boundary [OF h] life_loss_boundary [OF h1]
    by (simp add: frameWith_fields getCentreX_def getTopY_def Paddle_new_def BALL_RADIUS_def)
qed

lemma hWC_no_bottom:
  assumes "\<not> vec_y (ball_pos (ball g)) - radius (ball g) > WINDOW_HEIGHT"
  shows "lives (handleWallCollisions g) = lives g \<and> state (handleWallCollisions g) = state g"
  using assms by (simp add: handleWallCollisions_def Let_def)

lemma hWC_vx:
  assumes "\<not> vec_y (ball_pos (ball g)) - radius (ball g) > WINDOW_HEIGHT"
  shows "vec_x (velocity (ball (handleWallCollisions g))) =
     (if vec_x (ball_pos (ball g)) + radius (ball g) > WINDOW_WIDTH then - \<bar>vec_x (velocity (ball g))\<bar>
      else if vec_x (ball_pos (ball g)) - radius (ball g) < 0 then \<bar>vec_x (velocity (ball g))\<bar>
      else vec_x (velocity (ball g)))"
  using assms
  by (simp add: handleWallCollisions_def Let_def setPosition_def setVelocityX_def setVelocityY_def)

lemma hWC_vy:
  assumes "\<not> vec_y (ball_pos (ball g)) - radius (ball g) > WINDOW_HEIGHT"
  shows "vec_y (velocity (ball (handleWallCollisions g))) =
     (if vec_y (ball_pos (ball g)) - radius (ball g) < 0 then \<bar>vec_y (velocity (ball g))\<bar>
      else vec_y (velocity (ball g)))"
  using assms
  by (simp add: handleWallCollisions_def Let_def setPosition_def setVelocityX_def setVelocityY_def)

lemma hWC_pos:
  assumes "\<not> vec_y (ball_pos (ball g)) - radius (ball g) > WINDOW_HEIGHT"
  shows "ball_pos (ball (handleWallCollisions g)) =
     (if vec_y (ball_pos (ball g)) - radius (ball g) < 0
      then \<lparr>vec_x = vec_x (ball_pos (ball g)), vec_y = radius (ball g)\<rparr>
      else if vec_x (ball_pos (ball g)) + radius (ball g) > WINDOW_WIDTH
      then \<lparr>vec_x = WINDOW_WIDTH - radius (ball g), vec_y = vec_y (ball_pos (ball g))\<rparr>
      else if vec_x (ball_pos (ball g)) - radius (ball g) < 0
      then \<lparr>vec_x = radius (ball g), vec_y = vec_y (ball_pos (ball g))\<rparr>
      else ball_pos (ball g))"
  using assms
  by (simp add: handleWallCollisions_def Let_def setPosition_def setVelocityX_def setVelocityY_def)

text \<open>
  C10. While the top edge of the ball is not below the window
  (\<open>y - radius \<le> WINDOW_HEIGHT\<close>) no life is lost and the state stays. The
  left wall answers as soon as \<open>x - radius < 0\<close> (horizontal velocity forced
  to \<open>|vx|\<close>), the right wall as soon as \<open>x + radius > WINDOW_WIDTH\<close> (forced
  to \<open>-|vx|\<close>), the top wall as soon as \<open>y - radius < 0\<close> (vertical velocity
  forced to \<open>|vy|\<close>, y set to the radius); the left and right walls also
  put the ball on the wall unless the top wall answers in the same call. A
  ball that touches or overlaps the bottom edge (\<open>y + radius \<ge> WINDOW_HEIGHT\<close>)
  keeps its vertical velocity and its height. A life is taken once
  \<open>y - radius > WINDOW_HEIGHT\<close>.
\<close>

theorem bottom_triggers_later:
  "(\<not> vec_y (ball_pos (ball g)) - radius (ball g) > WINDOW_HEIGHT \<longrightarrow>
        lives (handleWallCollisions g) = lives g \<and> state (handleWallCollisions g) = state g
      \<and> (vec_x (ball_pos (ball g)) - radius (ball g) < 0
            \<and> \<not> vec_x (ball_pos (ball g)) + radius (ball g) > WINDOW_WIDTH \<longrightarrow>
            vec_x (velocity (ball (handleWallCollisions g))) = \<bar>vec_x (velocity (ball g))\<bar>
          \<and> (\<not> vec_y (ball_pos (ball g)) - radius (ball g) < 0 \<longrightarrow>
                vec_x (ball_pos (ball (handleWallCollisions g))) = radius (ball g)))
      \<and> (vec_x (ball_pos (ball g)) + radius (ball g) > WINDOW_WIDTH \<longrightarrow>
            vec_x (velocity (ball (handleWallCollisions g))) = - \<bar>vec_x (velocity (ball g))\<bar>
          \<and> (\<not> vec_y (ball_pos (ball g)) - radius (ball g) < 0 \<longrightarrow>
                vec_x (ball_pos (ball (handleWallCollisions g))) = WINDOW_WIDTH - radius (ball g)))
      \<and> (vec_y (ball_pos (ball g)) - radius (ball g) < 0 \<longrightarrow>
            vec_y (velocity (ball (handleWallCollisions g))) = \<bar>vec_y (velocity (ball g))\<bar>
          \<and> vec_y (ball_pos (ball (handleWallCollisions g))) = radius (ball g))
      \<and> (vec_y (ball_pos (ball g)) + radius (ball g) \<ge> WINDOW_HEIGHT
            \<and> 2 * radius (ball g) \<le> WINDOW_HEIGHT \<longrightarrow>
            vec_y (velocity (ball (handleWallCollisions g))) = vec_y (velocity (ball g))
          \<and> vec_y (ball_pos (ball (handleWallCollisions g))) = vec_y (ball_pos (ball g))))
   \<and> (vec_y (ball_pos (ball g)) - radius (ball g) > WINDOW_HEIGHT \<and> 1 \<le> lives g \<longrightarrow>
        lives (handleWallCollisions g) = lives g - 1)"
proof -
  have b: "lives (handleWallCollisions g) = lives g - 1"
    if "vec_y (ball_pos (ball g)) - radius (ball g) > WINDOW_HEIGHT" "1 \<le> lives g"
    using that by (subst hWC_bottom) auto
  have a: "vec_y (ball_pos (ball g)) + radius (ball g) \<ge> WINDOW_HEIGHT
            \<and> 2 * radius (ball g) \<le> WINDOW_HEIGHT \<longrightarrow> \<not> vec_y (ball_pos (ball g)) - radius (ball g) < 0"
    by auto
  show ?thesis
    using b a hWC_no_bottom [of g] hWC_vx [of g] hWC_vy [of g] hWC_pos [of g]
    by (simp add: WINDOW_HEIGHT_def)
qed

text \<open>
  A ball at (5, 596) overlaps the left wall and the bottom edge: it is
  turned to the right and put at x = 8, keeps its downward velocity, and no
  life is lost. At y = 609 a life is lost.
\<close>

theorem bottom_triggers_later_witness:
  "\<not> vec_y (ball_pos (ball (frameWith \<lparr>vec_x = 5, vec_y = 596\<rparr> \<lparr>vec_x = - 192, vec_y = 256\<rparr>)))
       - radius (ball (frameWith \<lparr>vec_x = 5, vec_y = 596\<rparr> \<lparr>vec_x = - 192, vec_y = 256\<rparr>))
       > WINDOW_HEIGHT
   \<and> vec_y (ball_pos (ball (frameWith \<lparr>vec_x = 5, vec_y = 596\<rparr> \<lparr>vec_x = - 192, vec_y = 256\<rparr>)))
       + radius (ball (frameWith \<lparr>vec_x = 5, vec_y = 596\<rparr> \<lparr>vec_x = - 192, vec_y = 256\<rparr>))
       \<ge> WINDOW_HEIGHT
   \<and> lives (handleWallCollisions (frameWith \<lparr>vec_x = 5, vec_y = 596\<rparr> \<lparr>vec_x = - 192, vec_y = 256\<rparr>)) = 3
   \<and> state (handleWallCollisions (frameWith \<lparr>vec_x = 5, vec_y = 596\<rparr> \<lparr>vec_x = - 192, vec_y = 256\<rparr>))
       = Playing
   \<and> velocity (ball (handleWallCollisions (frameWith \<lparr>vec_x = 5, vec_y = 596\<rparr> \<lparr>vec_x = - 192, vec_y = 256\<rparr>)))
       = \<lparr>vec_x = 192, vec_y = 256\<rparr>
   \<and> ball_pos (ball (handleWallCollisions (frameWith \<lparr>vec_x = 5, vec_y = 596\<rparr> \<lparr>vec_x = - 192, vec_y = 256\<rparr>)))
       = \<lparr>vec_x = 8, vec_y = 596\<rparr>
   \<and> vec_y (ball_pos (ball (frameWith \<lparr>vec_x = 100, vec_y = 609\<rparr> \<lparr>vec_x = 192, vec_y = 256\<rparr>)))
       - radius (ball (frameWith \<lparr>vec_x = 100, vec_y = 609\<rparr> \<lparr>vec_x = 192, vec_y = 256\<rparr>))
       > WINDOW_HEIGHT
   \<and> lives (handleWallCollisions (frameWith \<lparr>vec_x = 100, vec_y = 609\<rparr> \<lparr>vec_x = 192, vec_y = 256\<rparr>)) = 2"
proof -
  let ?g = "frameWith \<lparr>vec_x = 5, vec_y = 596\<rparr> \<lparr>vec_x = - 192, vec_y = 256\<rparr>"
  let ?h = "frameWith \<lparr>vec_x = 100, vec_y = 609\<rparr> \<lparr>vec_x = 192, vec_y = 256\<rparr>"
  have eq: "\<And>v w :: Vector2f. v = w \<longleftrightarrow> vec_x v = vec_x w \<and> vec_y v = vec_y w"
    by auto
  show ?thesis
    using bottom_triggers_later [of ?g] bottom_triggers_later [of ?h]
    by (simp add: frameWith_fields WINDOW_HEIGHT_def WINDOW_WIDTH_def eq)
qed

subsection \<open>Level progression\<close>

lemma concat_grid_length:
  "length (concat (map (\<lambda>row. map (f row) [0..<C]) [0..<R])) = R * C"
  by (induction R) simp_all

lemma concat_grid_nth:
  "row < R \<Longrightarrow> col < C \<Longrightarrow>
     concat (map (\<lambda>row. map (f row) [0..<C]) [0..<R]) ! (row * C + col) = f row col"
proof (induction R)
  case 0
  then show ?case by simp
next
  case (Suc R)
  show ?case
  proof (cases "row < R")
    case True
    have "row * C + col < R * C"
    proof -
      have "row * C + col < row * C + C" using Suc.prems by simp
      also have "\<dots> = Suc row * C" by simp
      also have "\<dots> \<le> R * C" using True by (intro mult_le_mono1) simp
      finally show ?thesis .
    qed
    then show ?thesis using Suc True
      by (simp add: nth_append concat_grid_length)
  next
    case False
    then have "row = R" using Suc.prems by simp
    then show ?thesis using Suc.prems
      by (simp add: nth_append concat_grid_length)
  qed
qed

lemma brickGrid_nth:
  "row < BRICK_ROWS \<Longrightarrow> col < BRICK_COLS \<Longrightarrow>
     brickGrid lvl ! (row * BRICK_COLS + col) =
       brickAt (max 0 (lvl - 1))
         ((WINDOW_WIDTH - (real BRICK_COLS * BRICK_WIDTH + real (BRICK_COLS - 1) * BRICK_PADDING)) * 0.5)
         row col"
  by (simp add: brickGrid_def Let_def concat_grid_nth)

lemma keyPressed_LevelComplete:
  "state g = LevelComplete \<Longrightarrow> keyPressed rnd key g = g \<or> keyPressed rnd key g = g\<lparr>window_open := False\<rparr>"
  by (cases key) (simp_all add: keyPressed_def)

lemma processEvents_LevelComplete:
  "state g = LevelComplete \<Longrightarrow>
     processEvents rnd evs g = g \<or> processEvents rnd evs g = g\<lparr>window_open := False\<rparr>"
proof (induction rnd evs g rule: processEvents.induct)
  case (1 rnd g)
  then show ?case by simp
next
  case (2 rnd evs g)
  then show ?case by simp
next
  case (3 rnd key evs g)
  then show ?case
    using keyPressed_LevelComplete [of g rnd key] by (auto simp: Let_def)
next
  case (4 rnd evs g)
  then show ?case by simp
qed

lemma runStep_LevelComplete:
  assumes "state g = LevelComplete"
  shows "\<exists>w. runStep inp g =
     (let g2 = g\<lparr>window_open := w, levelCompleteTimer := levelCompleteTimer g - min (elapsed inp) 0.05\<rparr>
      in if levelCompleteTimer g2 \<le> 0 then advanceLevel g2 else g2)"
proof -
  from processEvents_LevelComplete [OF assms, of "randValue inp" "events inp"]
  show ?thesis
  proof
    assume e: "processEvents (randValue inp) (events inp) g = g"
    show ?thesis
      by (rule exI [of _ "window_open g"]) (simp add: runStep_def e assms Let_def)
  next
    assume e: "processEvents (randValue inp) (events inp) g = g\<lparr>window_open := False\<rparr>"
    show ?thesis
      by (rule exI [of _ False]) (simp add: runStep_def e assms Let_def)
  qed
qed

lemma handleWallCollisions_keeps [simp]:
  "level (handleWallCollisions g) = level g" "score (handleWallCollisions g) = score g"
  "bricks (handleWallCollisions g) = bricks g"
  "bricksRemaining (handleWallCollisions g) = bricksRemaining g"
  "ballSpeed (handleWallCollisions g) = ballSpeed g" "paddle (handleWallCollisions g) = paddle g"
  by (subst handleWallCollisions_upd, simp)+

lemma handlePaddleCollision_keeps [simp]:
  "level (handlePaddleCollision g) = level g" "score (handlePaddleCollision g) = score g"
  "bricks (handlePaddleCollision g) = bricks g"
  "bricksRemaining (handlePaddleCollision g) = bricksRemaining g"
  "ballSpeed (handlePaddleCollision g) = ballSpeed g" "paddle (handlePaddleCollision g) = paddle g"
  "lives (handlePaddleCollision g) = lives g" "state (handlePaddleCollision g) = state g"
  by (subst handlePaddleCollision_upd, simp)+

lemma handleBrickCollisions_keeps [simp]:
  "level (handleBrickCollisions g) = level g"
  "ballSpeed (handleBrickCollisions g) = ballSpeed g" "paddle (handleBrickCollisions g) = paddle g"
  "lives (handleBrickCollisions g) = lives g" "state (handleBrickCollisions g) = state g"
  by (simp_all add: handleBrickCollisions_eq)

lemma update_level_check:
  assumes "state g \<noteq> BallOnPaddle"
  shows "level (update k dt g) = level g
     \<and> (bricksRemaining (update k dt g) \<le> 0 \<longrightarrow>
          (if level g \<ge> MAX_LEVELS then state (update k dt g) = Victory
           else state (update k dt g) = LevelComplete
              \<and> levelCompleteTimer (update k dt g) = LEVEL_COMPLETE_DELAY))
     \<and> (\<not> bricksRemaining (update k dt g) \<le> 0 \<and> state g = Playing \<longrightarrow>
          state (update k dt g) \<in> {Playing, GameOver, BallOnPaddle})"
proof -
  let ?g1 = "g\<lparr>paddle := Paddle_update k dt WINDOW_WIDTH (paddle g)\<rparr>"
  let ?g2 = "?g1\<lparr>ball := Ball_update dt (ball ?g1)\<rparr>"
  let ?g3 = "handleWallCollisions ?g2"
  let ?g5 = "handleBrickCollisions (handlePaddleCollision ?g3)"
  have l5: "level ?g5 = level g" by simp
  have s5: "state ?g5 = state ?g3" by simp
  have s3: "state ?g3 = state g \<or> state ?g3 = GameOver \<or> state ?g3 = BallOnPaddle"
    using handleWallCollisions_state [of ?g2] by simp
  have u: "update k dt g =
      (if bricksRemaining ?g5 \<le> 0
       then (if level ?g5 \<ge> MAX_LEVELS then ?g5\<lparr>state := Victory\<rparr>
             else ?g5\<lparr>state := LevelComplete, levelCompleteTimer := LEVEL_COMPLETE_DELAY\<rparr>)
       else ?g5)"
    using assms by (simp add: update_def Let_def)
  show ?thesis
    using l5 s5 s3 by (subst (1 2 3 4 5 6 7) u) (auto simp del: Game.simps)
qed

lemma advanceLevel_bricks:
  "row < BRICK_ROWS \<Longrightarrow> col < BRICK_COLS \<Longrightarrow> 0 \<le> level g \<Longrightarrow>
   (let b = bricks (advanceLevel g) ! (row * BRICK_COLS + col)
    in \<not> destroyed b \<and> hitPoints b = ROW_BASE_HIT_POINTS ! row + (level (advanceLevel g) - 1)
       \<and> maxHitPoints b = hitPoints b)"
  by (simp add: advanceLevel_upd brickGrid_nth brickAt_fresh Let_def)

lemma runStep_LevelComplete_if:
  assumes "state g = LevelComplete"
  shows "\<exists>w. runStep inp g =
     (if levelCompleteTimer g - min (elapsed inp) 0.05 \<le> 0
      then advanceLevel (g\<lparr>window_open := w,
             levelCompleteTimer := levelCompleteTimer g - min (elapsed inp) 0.05\<rparr>)
      else g\<lparr>window_open := w,
             levelCompleteTimer := levelCompleteTimer g - min (elapsed inp) 0.05\<rparr>)"
  using runStep_LevelComplete [OF assms, of inp] unfolding Let_def by simp

lemma tick_props:
  assumes lv: "1 \<le> level h" and st: "state h = LevelComplete"
    and e: "g' = (if levelCompleteTimer h - d \<le> 0
                 then advanceLevel (h\<lparr>window_open := w, levelCompleteTimer := levelCompleteTimer h - d\<rparr>)
                 else h\<lparr>window_open := w, levelCompleteTimer := levelCompleteTimer h - d\<rparr>)"
  shows "(levelCompleteTimer h - d \<le> 0 \<longrightarrow>
            level g' = level h + 1
          \<and> ballSpeed g' = min (ballSpeed h + BALL_SPEED_STEP) BALL_MAX_SPEED
          \<and> shape_x (paddle_shape (paddle g')) = (WINDOW_WIDTH - PADDLE_WIDTH) * 0.5
          \<and> length (bricks g') = BRICK_ROWS * BRICK_COLS
          \<and> bricksRemaining g' = int (BRICK_ROWS * BRICK_COLS)
          \<and> (\<forall>row<BRICK_ROWS. \<forall>col<BRICK_COLS.
                let b = bricks g' ! (row * BRICK_COLS + col)
                in \<not> destroyed b
                   \<and> hitPoints b = ROW_BASE_HIT_POINTS ! row + (level g' - 1)
                   \<and> maxHitPoints b = hitPoints b)
          \<and> state g' = BallOnPaddle
          \<and> \<not> moving (ball g')
          \<and> score g' = score h \<and> lives g' = lives h)
     \<and> (\<not> levelCompleteTimer h - d \<le> 0 \<longrightarrow>
            state g' = LevelComplete \<and> level g' = level h
          \<and> levelCompleteTimer g' = levelCompleteTimer h - d
          \<and> bricks g' = bricks h)"
proof -
  let ?g2 = "h\<lparr>window_open := w, levelCompleteTimer := levelCompleteTimer h - d\<rparr>"
  have b: "\<forall>row<BRICK_ROWS. \<forall>col<BRICK_COLS.
                let b = bricks (advanceLevel ?g2) ! (row * BRICK_COLS + col)
                in \<not> destroyed b
                   \<and> hitPoints b = ROW_BASE_HIT_POINTS ! row + (level (advanceLevel ?g2) - 1)
                   \<and> maxHitPoints b = hitPoints b"
    using lv by (intro allI impI advanceLevel_bricks) simp_all
  have o: "level (advanceLevel ?g2) = level h + 1
          \<and> ballSpeed (advanceLevel ?g2) = min (ballSpeed h + BALL_SPEED_STEP) BALL_MAX_SPEED
          \<and> shape_x (paddle_shape (paddle (advanceLevel ?g2))) = (WINDOW_WIDTH - PADDLE_WIDTH) * 0.5
          \<and> length (bricks (advanceLevel ?g2)) = BRICK_ROWS * BRICK_COLS
          \<and> bricksRemaining (advanceLevel ?g2) = int (BRICK_ROWS * BRICK_COLS)
          \<and> state (advanceLevel ?g2) = BallOnPaddle
          \<and> \<not> moving (ball (advanceLevel ?g2))
          \<and> score (advanceLevel ?g2) = score h \<and> lives (advanceLevel ?g2) = lives h"
    by (simp add: advanceLevel_upd length_brickGrid setPositionX_def reset_def)
  show ?thesis
  proof (cases "levelCompleteTimer h - d \<le> 0")
    case True
    then have "g' = advanceLevel ?g2" by (simp add: e)
    then show ?thesis using True b o by (simp del: Game.simps)
  next
    case False
    then have "g' = ?g2" by (simp add: e)
    then show ?thesis using False st by simp
  qed
qed

lemma handleWallCollisions_inside:
  assumes "\<not> vec_x (ball_pos (ball g)) - radius (ball g) < 0"
    and "\<not> vec_x (ball_pos (ball g)) + radius (ball g) > WINDOW_WIDTH"
    and "\<not> vec_y (ball_pos (ball g)) - radius (ball g) < 0"
    and "\<not> vec_y (ball_pos (ball g)) - radius (ball g) > WINDOW_HEIGHT"
  shows "handleWallCollisions g = g"
  using assms by (simp add: handleWallCollisions_def Let_def)

lemma handlePaddleCollision_upward:
  "vec_y (velocity (ball g)) \<le> 0 \<Longrightarrow> handlePaddleCollision g = g"
  by (simp add: handlePaddleCollision_def)

lemma handleBrickCollisions_pair:
  assumes "bricks g = [b0, b1]"
    and "struck (ball_pos (ball g)) (radius (ball g)) b0"
    and "struck (ball_pos (ball g)) (radius (ball g)) b1"
    and "destroyed (hit b0)" and "destroyed (hit b1)"
  shows "bricksRemaining (handleBrickCollisions g) = bricksRemaining g - 2
     \<and> score (handleBrickCollisions g) = score g + points b0 + points b1
     \<and> bricks (handleBrickCollisions g) = [hit b0, hit b1]
     \<and> ball (handleBrickCollisions g)
         = ball (resolveHit (ball_pos (ball g)) (radius (ball g)) (Brick_getBounds b0) g)"
  using assms by (simp add: handleBrickCollisions_eq)

lemma update_free_flight:
  assumes "state g \<noteq> BallOnPaddle"
    and "g2 = g\<lparr>paddle := Paddle_update k dt WINDOW_WIDTH (paddle g), ball := Ball_update dt (ball g)\<rparr>"
    and "handleWallCollisions g2 = g2" and "handlePaddleCollision g2 = g2"
  shows "update k dt g =
      (if bricksRemaining (handleBrickCollisions g2) \<le> 0
       then (if level g \<ge> MAX_LEVELS then (handleBrickCollisions g2)\<lparr>state := Victory\<rparr>
             else (handleBrickCollisions g2)\<lparr>state := LevelComplete,
                    levelCompleteTimer := LEVEL_COMPLETE_DELAY\<rparr>)
       else handleBrickCollisions g2)"
proof -
  have "g\<lparr>paddle := Paddle_update k dt WINDOW_WIDTH (paddle g), ball := Ball_update dt (ball g)\<rparr> = g2"
    using assms(2) by simp
  moreover have "level g2 = level g" using assms(2) by simp
  ultimately show ?thesis
    using assms(1,3,4) by (simp add: update_def Let_def)
qed

lemma movedPair_ball:
  "ball_pos (ball movedPair) = \<lparr>vec_x = 111.92, vec_y = 85.94\<rparr>"
  "velocity (ball movedPair) = \<lparr>vec_x = 192, vec_y = - 256\<rparr>"
  "radius (ball movedPair) = 8"
  by (simp_all add: movedPair_def pairGame_def Ball_update_def)

lemma movedPair_fields:
  "bricks movedPair = [brickAt 0 42 0 0, brickAt 0 42 0 (Suc 0)]"
  "score movedPair = 0" "bricksRemaining movedPair = 2" "level movedPair = 1"
  "ballSpeed movedPair = 320"
  by (simp_all add: movedPair_def pairGame_def)

lemma movedPair_struck:
  "struck (ball_pos (ball movedPair)) (radius (ball movedPair)) (brickAt 0 42 0 0)"
  "struck (ball_pos (ball movedPair)) (radius (ball movedPair)) (brickAt 0 42 0 (Suc 0))"
  by (simp_all add: movedPair_ball pair_brick0 pair_brick1 struck_def isDestroyed_def
      intersects_def distSqTo_def closest_def Brick_getBounds_def getGlobalBounds_def Let_def)

lemma movedPair_cleared:
  "bricksRemaining (handleBrickCollisions movedPair) = 0
   \<and> score (handleBrickCollisions movedPair) = 120"
  using handleBrickCollisions_pair [OF movedPair_fields(1) movedPair_struck]
    pair_hit0 pair_hit1
  by (simp add: movedPair_fields)

lemma pairGame_update:
  "update noKeys (1 / 100) pairGame =
     (handleBrickCollisions movedPair)\<lparr>state := LevelComplete,
        levelCompleteTimer := LEVEL_COMPLETE_DELAY\<rparr>"
proof -
  have 1: "state pairGame \<noteq> BallOnPaddle" by (simp add: pairGame_def)
  have 3: "handleWallCollisions movedPair = movedPair"
    by (rule handleWallCollisions_inside) (simp_all add: movedPair_ball constants_defs)
  have 4: "handlePaddleCollision movedPair = movedPair"
    by (rule handlePaddleCollision_upward) (simp add: movedPair_ball)
  have 5: "level pairGame = 1" by (simp add: pairGame_def)
  show ?thesis
    by (subst update_free_flight [OF 1 movedPair_def 3 4])
       (simp add: movedPair_cleared 5 MAX_LEVELS_def)
qed

lemma expiringGame_fields:
  "state expiringGame = LevelComplete" "level expiringGame = 1" "ballSpeed expiringGame = 320"
  "levelCompleteTimer expiringGame = 0.03"
  by (simp_all add: expiringGame_def pairGame_update movedPair_fields)

text \<open>
  C4. In a frame that starts in \<open>Playing\<close>, \<open>update\<close> keeps the level;
  if \<open>bricksRemaining\<close> is at most 0 after the frame's collisions, the state
  becomes \<open>LevelComplete\<close> with the countdown set to
  \<open>LEVEL_COMPLETE_DELAY\<close> when the level is below \<open>MAX_LEVELS\<close>, and
  \<open>Victory\<close> otherwise; while bricks remain it becomes neither. In an
  iteration of the run loop that starts in \<open>LevelComplete\<close> at a level of
  at least 1: if the countdown minus the frame time (capped at 0.05 s) is at
  most 0, the level grows by exactly 1, the ball speed by \<open>BALL_SPEED_STEP\<close>
  capped at \<open>BALL_MAX_SPEED\<close>, the paddle is centred, the grid has
  \<open>BRICK_ROWS * BRICK_COLS\<close> bricks, the brick at each row and column is
  not destroyed and has hit points = maximal hit points = row base + (new
  level - 1), the ball rests, score and lives stay, and the state is
  \<open>BallOnPaddle\<close>; otherwise only the countdown goes down.
\<close>

theorem level_progression:
  "(state g = Playing \<longrightarrow>
       level (update k dt g) = level g
     \<and> (bricksRemaining (update k dt g) \<le> 0 \<and> level g < MAX_LEVELS \<longrightarrow>
           state (update k dt g) = LevelComplete
         \<and> levelCompleteTimer (update k dt g) = LEVEL_COMPLETE_DELAY)
     \<and> (bricksRemaining (update k dt g) \<le> 0 \<and> level g \<ge> MAX_LEVELS \<longrightarrow>
           state (update k dt g) = Victory)
     \<and> (0 < bricksRemaining (update k dt g) \<longrightarrow>
           state (update k dt g) \<noteq> LevelComplete \<and> state (update k dt g) \<noteq> Victory))
   \<and> (state h = LevelComplete \<and> 1 \<le> level h \<longrightarrow>
       (levelCompleteTimer h - min (elapsed inp) 0.05 \<le> 0 \<longrightarrow>
            level (runStep inp h) = level h + 1
          \<and> ballSpeed (runStep inp h) = min (ballSpeed h + BALL_SPEED_STEP) BALL_MAX_SPEED
          \<and> shape_x (paddle_shape (paddle (runStep inp h))) = (WINDOW_WIDTH - PADDLE_WIDTH) * 0.5
          \<and> length (bricks (runStep inp h)) = BRICK_ROWS * BRICK_COLS
          \<and> bricksRemaining (runStep inp h) = int (BRICK_ROWS * BRICK_COLS)
          \<and> (\<forall>row<BRICK_ROWS. \<forall>col<BRICK_COLS.
                let b = bricks (runStep inp h) ! (row * BRICK_COLS + col)
                in \<not> destroyed b
                   \<and> hitPoints b = ROW_BASE_HIT_POINTS ! row + (level (runStep inp h) - 1)
                   \<and> maxHitPoints b = hitPoints b)
          \<and> state (runStep inp h) = BallOnPaddle
          \<and> \<not> moving (ball (runStep inp h))
          \<and> score (runStep inp h) = score h \<and> lives (runStep inp h) = lives h)
     \<and> (\<not> levelCompleteTimer h - min (elapsed inp) 0.05 \<le> 0 \<longrightarrow>
            state (runStep inp h) = LevelComplete \<and> level (runStep inp h) = level h
          \<and> levelCompleteTimer (runStep inp h) = levelCompleteTimer h - min (elapsed inp) 0.05
          \<and> bricks (runStep inp h) = bricks h))"
proof -
  have u: "state g = Playing \<longrightarrow>
       level (update k dt g) = level g
     \<and> (bricksRemaining (update k dt g) \<le> 0 \<and> level g < MAX_LEVELS \<longrightarrow>
           state (update k dt g) = LevelComplete
         \<and> levelCompleteTimer (update k dt g) = LEVEL_COMPLETE_DELAY)
     \<and> (bricksRemaining (update k dt g) \<le> 0 \<and> level g \<ge> MAX_LEVELS \<longrightarrow>
           state (update k dt g) = Victory)
     \<and> (0 < bricksRemaining (update k dt g) \<longrightarrow>
           state (update k dt g) \<noteq> LevelComplete \<and> state (update k dt g) \<noteq> Victory)"
    using update_level_check [of g k dt] by auto
  show ?thesis
  proof (cases "state h = LevelComplete \<and> 1 \<le> level h")
    case True
    then obtain w where e: "runStep inp h =
       (if levelCompleteTimer h - min (elapsed inp) 0.05 \<le> 0
        then advanceLevel (h\<lparr>window_open := w,
               levelCompleteTimer := levelCompleteTimer h - min (elapsed inp) 0.05\<rparr>)
        else h\<lparr>window_open := w,
               levelCompleteTimer := levelCompleteTimer h - min (elapsed inp) 0.05\<rparr>)"
      using runStep_LevelComplete_if [of h inp] by blast
    from True have lv: "1 \<le> level h" and st: "state h = LevelComplete" by simp_all
    show ?thesis
      using u tick_props [OF lv st e] by blast
  next
    case False
    then show ?thesis using u by blast
  qed
qed

text \<open>
  The sample frame destroys the last two bricks at level 1 and enters
  \<open>LevelComplete\<close> with a countdown of 2 s; when the countdown has run
  down, the next iteration starts level 2 with 60 bricks of 2 hit points in
  the top row and ball speed 355.
\<close>

theorem level_progression_witness:
  "state pairGame = Playing \<and> level pairGame < MAX_LEVELS
   \<and> bricksRemaining pairGame = 2
   \<and> bricksRemaining (update noKeys (1 / 100) pairGame) \<le> 0
   \<and> state (update noKeys (1 / 100) pairGame) = LevelComplete
   \<and> levelCompleteTimer (update noKeys (1 / 100) pairGame) = 2
   \<and> state expiringGame = LevelComplete \<and> 1 \<le> level expiringGame
   \<and> levelCompleteTimer expiringGame - min (elapsed fullFrame) 0.05 \<le> 0
   \<and> level (runStep fullFrame expiringGame) = 2
   \<and> ballSpeed (runStep fullFrame expiringGame) = 355
   \<and> bricksRemaining (runStep fullFrame expiringGame) = 60
   \<and> state (runStep fullFrame expiringGame) = BallOnPaddle
   \<and> hitPoints (bricks (runStep fullFrame expiringGame) ! (0 * BRICK_COLS + 0)) = 2"
proof -
  have a: "state pairGame = Playing \<and> level pairGame < MAX_LEVELS \<and> bricksRemaining pairGame = 2"
    by (simp add: pairGame_def MAX_LEVELS_def)
  have b: "bricksRemaining (update noKeys (1 / 100) pairGame) \<le> 0"
    by (simp add: pairGame_update movedPair_cleared)
  have c: "levelCompleteTimer expiringGame - min (elapsed fullFrame) 0.05 \<le> 0"
    by (simp add: expiringGame_fields fullFrame_def)
  have d: "state expiringGame = LevelComplete \<and> 1 \<le> level expiringGame"
    by (simp add: expiringGame_fields)
  note t = level_progression [of pairGame noKeys "1 / 100" expiringGame fullFrame]
  have u: "state (update noKeys (1 / 100) pairGame) = LevelComplete
         \<and> levelCompleteTimer (update noKeys (1 / 100) pairGame) = LEVEL_COMPLETE_DELAY"
    using t a b by blast
  have r: "level (runStep fullFrame expiringGame) = level expiringGame + 1
          \<and> ballSpeed (runStep fullFrame expiringGame)
              = min (ballSpeed expiringGame + BALL_SPEED_STEP) BALL_MAX_SPEED
          \<and> bricksRemaining (runStep fullFrame expiringGame) = int (BRICK_ROWS * BRICK_COLS)
          \<and> state (runStep fullFrame expiringGame) = BallOnPaddle"
    using t c d by blast
  have q: "\<forall>row<BRICK_ROWS. \<forall>col<BRICK_COLS.
       let b = bricks (runStep fullFrame expiringGame) ! (row * BRICK_COLS + col)
       in \<not> destroyed b
          \<and> hitPoints b = ROW_BASE_HIT_POINTS ! row + (level (runStep fullFrame expiringGame) - 1)
          \<and> maxHitPoints b = hitPoints b"
    using t c d by blast
  have q0: "hitPoints (bricks (runStep fullFrame expiringGame) ! (0 * BRICK_COLS + 0))
      = ROW_BASE_HIT_POINTS ! 0 + (level (runStep fullFrame expiringGame) - 1)"
    using q [rule_format, of 0 0] by (simp add: BRICK_ROWS_def BRICK_COLS_def Let_def)
  show ?thesis
    using a b c d u r q0
    by (simp add: expiringGame_fields constants_defs tables_defs)
qed

subsection \<open>Speed of the ball\<close>

lemma threshold_pos: "(0::real) < 0.0001"
  by simp

lemma ratio_one:
  fixes x c :: real
  assumes "c * c = x" "0 < c"
  shows "x / (c * c) = 1"
proof -
  have nz: "c * c \<noteq> 0" using assms(2) by simp
  show ?thesis unfolding assms(1) [symmetric] using nz by (rule divide_self)
qed

lemma getSpeed_nonneg: "0 \<le> getSpeed b"
  by (simp add: getSpeed_def)

lemma getSpeed_sq: "getSpeed b * getSpeed b = vec_x (velocity b) * vec_x (velocity b) + vec_y (velocity b) * vec_y (velocity b)"
  by (simp add: getSpeed_def)

lemma sqrt_scaled:
  fixes a b c s :: real
  assumes "c = sqrt (a * a + b * b)" "0 < c" "0 \<le> s"
  shows "sqrt ((a / c * s) * (a / c * s) + (b / c * s) * (b / c * s)) = s"
proof -
  have cc: "c * c = a * a + b * b" using assms(1) by simp
  have "(a / c * s) * (a / c * s) + (b / c * s) * (b / c * s)
      = (a * a / (c * c) + b * b / (c * c)) * (s * s)"
    by (simp add: algebra_simps)
  also have "\<dots> = (a * a + b * b) / (c * c) * (s * s)"
    by (simp add: add_divide_distrib)
  also have "\<dots> = s * s"
  proof -
    have one: "(a * a + b * b) / (c * c) = 1" using cc assms(2) by (rule ratio_one)
    show ?thesis unfolding one by simp
  qed
  finally show ?thesis using assms(3) by (simp add: real_sqrt_mult_self)
qed

lemma normaliseSpeed_speed:
  assumes "0.0001 \<le> getSpeed b" "0 \<le> s"
  shows "getSpeed (normaliseSpeed s b) = s"
proof -
  have pos: "0 < getSpeed b" using assms(1) threshold_pos by linarith
  have n: "\<not> getSpeed b < 0.0001" using assms(1) by simp
  show ?thesis
    using n sqrt_scaled [OF _ pos assms(2), of "vec_x (velocity b)" "vec_y (velocity b)"]
    by (simp add: normaliseSpeed_def Let_def getSpeed_def)
qed

lemma normaliseSpeed_same:
  assumes "getSpeed b = s" "0.0001 \<le> s"
  shows "normaliseSpeed s b = b"
proof -
  have "vec_x (velocity b) / s * s = vec_x (velocity b)" "vec_y (velocity b) / s * s = vec_y (velocity b)"
    using assms(2) by simp_all
  then show ?thesis using assms by (simp add: normaliseSpeed_def Let_def)
qed

lemma normalOf_unit:
  "vec_x (normalOf rect c) * vec_x (normalOf rect c) + vec_y (normalOf rect c) * vec_y (normalOf rect c) = 1"
proof (cases "sqrt (distSqTo rect c) > 0.0001")
  case True
  let ?dx = "vec_x c - vec_x (closest rect c)" and ?dy = "vec_y c - vec_y (closest rect c)"
  let ?d = "sqrt (distSqTo rect c)"
  have d: "?d * ?d = ?dx * ?dx + ?dy * ?dy"
    by (simp add: distSqTo_def Let_def)
  have pos: "0 < ?d" using True threshold_pos by linarith
  have "?dx / ?d * (?dx / ?d) + ?dy / ?d * (?dy / ?d) = (?dx * ?dx + ?dy * ?dy) / (?d * ?d)"
    by (simp add: add_divide_distrib)
  also have "\<dots> = 1" using d pos by (rule ratio_one)
  finally show ?thesis using True by (simp add: normalOf_def Let_def)
next
  case False
  then show ?thesis by (simp add: normalOf_def Let_def)
qed

lemma reflectBall_speed:
  assumes "vec_x n * vec_x n + vec_y n * vec_y n = 1"
  shows "getSpeed (ball (reflectBall n g)) = getSpeed (ball g)"
proof -
  let ?vx = "vec_x (velocity (ball g))" and ?vy = "vec_y (velocity (ball g))"
  let ?d = "?vx * vec_x n + ?vy * vec_y n"
  have "(?vx - 2 * ?d * vec_x n) * (?vx - 2 * ?d * vec_x n) + (?vy - 2 * ?d * vec_y n) * (?vy - 2 * ?d * vec_y n)
      = ?vx * ?vx + ?vy * ?vy - 4 * ?d * ?d + 4 * ?d * ?d * (vec_x n * vec_x n + vec_y n * vec_y n)"
    by (simp add: algebra_simps)
  also have "\<dots> = ?vx * ?vx + ?vy * ?vy" by (simp add: assms)
  finally show ?thesis
    by (simp add: reflectBall_def Let_def getSpeed_def setVelocityX_def setVelocityY_def)
qed

lemma resolveHit_speed:
  assumes "getSpeed (ball g) = ballSpeed g" "0.0001 \<le> ballSpeed g"
  shows "getSpeed (ball (resolveHit c r rect g)) = ballSpeed g"
proof -
  let ?g1 = "reflectBall (normalOf rect c) g"
  have s1: "getSpeed (ball ?g1) = ballSpeed g"
    using reflectBall_speed [OF normalOf_unit] assms(1) by simp
  have bs: "ballSpeed ?g1 = ballSpeed g" by (simp add: reflectBall_def Let_def)
  have "ball (resolveHit c r rect g) = normaliseSpeed (ballSpeed g) (setPosition
      (vec_x c + vec_x (normalOf rect c) * (r - sqrt (distSqTo rect c) + 0.5))
      (vec_y c + vec_y (normalOf rect c) * (r - sqrt (distSqTo rect c) + 0.5)) (ball ?g1))"
    by (simp add: resolveHit_def Let_def bs)
  moreover have "getSpeed (setPosition x y (ball ?g1)) = ballSpeed g" for x y
    using s1 by (simp add: getSpeed_def setPosition_def)
  ultimately show ?thesis
    using assms(2) by (simp add: normaliseSpeed_speed)
qed

lemma handleBrickCollisions_speed:
  assumes "getSpeed (ball g) = ballSpeed g" "0.0001 \<le> ballSpeed g"
  shows "getSpeed (ball (handleBrickCollisions g)) = ballSpeed g"
  using assms resolveHit_speed [OF assms]
  by (simp add: handleBrickCollisions_eq split: option.splits)

lemma speed_of_polar:
  fixes s a :: real
  assumes "0 \<le> s"
  shows "sqrt (s * sin a * (s * sin a) + - s * cos a * (- s * cos a)) = s"
proof -
  have "(s * sin a)\<^sup>2 + (s * cos a)\<^sup>2 = s\<^sup>2 * ((sin a)\<^sup>2 + (cos a)\<^sup>2)"
    by (simp only: power_mult_distrib distrib_left)
  also have "\<dots> = s\<^sup>2" by simp
  finally have "s * sin a * (s * sin a) + - s * cos a * (- s * cos a) = s\<^sup>2"
    by (simp add: power2_eq_square)
  then show ?thesis using assms by simp
qed

lemma vec_update_both: "v\<lparr>vec_x := a, vec_y := b\<rparr> = \<lparr>vec_x = a, vec_y = b\<rparr>"
  by (cases v) simp

lemma handlePaddleCollision_hit:
  assumes "vec_y (velocity (ball g)) > 0"
    and "contains (expandedBounds (paddle g) (radius (ball g))) (ball_pos (ball g))"
  shows "ball (handlePaddleCollision g) =
     normaliseSpeed (ballSpeed g)
       ((ball g)\<lparr>ball_pos := \<lparr>vec_x = vec_x (ball_pos (ball g)),
                               vec_y = rect_top (Paddle_getBounds (paddle g)) - radius (ball g) - 0.5\<rparr>,
                 velocity := \<lparr>vec_x = getSpeed (ball g)
                                 * sin (hitOffsetOf (paddle g) (vec_x (ball_pos (ball g))) * MAX_ANGLE_RAD),
                               vec_y = - getSpeed (ball g)
                                 * cos (hitOffsetOf (paddle g) (vec_x (ball_pos (ball g))) * MAX_ANGLE_RAD)\<rparr>\<rparr>)"
  using assms
  by (simp add: handlePaddleCollision_def Let_def setPosition_def setVelocityX_def
      setVelocityY_def getSpeed_def vec_update_both)

lemma handlePaddleCollision_miss:
  "vec_y (velocity (ball g)) \<le> 0
     \<or> \<not> contains (expandedBounds (paddle g) (radius (ball g))) (ball_pos (ball g))
   \<Longrightarrow> handlePaddleCollision g = g"
  by (auto simp: handlePaddleCollision_def Let_def)

lemma handlePaddleCollision_velocity:
  assumes "vec_y (velocity (ball g)) > 0"
    and "contains (expandedBounds (paddle g) (radius (ball g))) (ball_pos (ball g))"
    and "0.0001 \<le> getSpeed (ball g)"
  shows "velocity (ball (handlePaddleCollision g)) =
     \<lparr>vec_x = ballSpeed g * sin (hitOffsetOf (paddle g) (vec_x (ball_pos (ball g))) * MAX_ANGLE_RAD),
      vec_y = - ballSpeed g * cos (hitOffsetOf (paddle g) (vec_x (ball_pos (ball g))) * MAX_ANGLE_RAD)\<rparr>"
proof -
  let ?a = "hitOffsetOf (paddle g) (vec_x (ball_pos (ball g))) * MAX_ANGLE_RAD"
  let ?s = "getSpeed (ball g)"
  let ?b = "(ball g)\<lparr>ball_pos := \<lparr>vec_x = vec_x (ball_pos (ball g)),
                               vec_y = rect_top (Paddle_getBounds (paddle g)) - radius (ball g) - 0.5\<rparr>,
                 velocity := \<lparr>vec_x = ?s * sin ?a, vec_y = - ?s * cos ?a\<rparr>\<rparr>"
  have sp: "getSpeed ?b = ?s"
    using speed_of_polar [OF getSpeed_nonneg, of "ball g" ?a] by (simp add: getSpeed_def)
  have pos: "?s \<noteq> 0" using assms(3) threshold_pos by linarith
  have n: "\<not> ?s < 0.0001" using assms(3) by simp
  have "velocity (normaliseSpeed (ballSpeed g) ?b)
      = \<lparr>vec_x = ?s * sin ?a / ?s * ballSpeed g, vec_y = - ?s * cos ?a / ?s * ballSpeed g\<rparr>"
    unfolding normaliseSpeed_def Let_def sp using n by simp
  also have "\<dots> = \<lparr>vec_x = ballSpeed g * sin ?a, vec_y = - ballSpeed g * cos ?a\<rparr>"
    using pos by simp
  finally show ?thesis
    by (simp only: handlePaddleCollision_hit [OF assms(1,2)])
qed

lemma handlePaddleCollision_speed:
  assumes "getSpeed (ball g) = ballSpeed g" "0.0001 \<le> ballSpeed g"
  shows "getSpeed (ball (handlePaddleCollision g)) = ballSpeed g"
proof (cases "vec_y (velocity (ball g)) > 0
    \<and> contains (expandedBounds (paddle g) (radius (ball g))) (ball_pos (ball g))")
  case True
  have nn: "0 \<le> ballSpeed g" using assms(2) threshold_pos by linarith
  have "velocity (ball (handlePaddleCollision g)) =
     \<lparr>vec_x = ballSpeed g * sin (hitOffsetOf (paddle g) (vec_x (ball_pos (ball g))) * MAX_ANGLE_RAD),
      vec_y = - ballSpeed g * cos (hitOffsetOf (paddle g) (vec_x (ball_pos (ball g))) * MAX_ANGLE_RAD)\<rparr>"
    using True assms by (intro handlePaddleCollision_velocity) simp_all
  then show ?thesis
    using speed_of_polar [OF nn] by (simp add: getSpeed_def)
next
  case False
  then have "handlePaddleCollision g = g" by (intro handlePaddleCollision_miss) auto
  then show ?thesis using assms(1) by simp
qed

lemma handleWallCollisions_speed:
  "(vec_y (ball_pos (ball g)) - radius (ball g) > WINDOW_HEIGHT \<and> lives g > 1 \<longrightarrow>
        \<not> moving (ball (handleWallCollisions g)) \<and> getSpeed (ball (handleWallCollisions g)) = 0)
   \<and> (\<not> (vec_y (ball_pos (ball g)) - radius (ball g) > WINDOW_HEIGHT \<and> lives g > 1) \<longrightarrow>
        getSpeed (ball (handleWallCollisions g)) = getSpeed (ball g)
      \<and> moving (ball (handleWallCollisions g)) = moving (ball g))"
  by (simp add: handleWallCollisions_def resetBallOnPaddle_def Let_def reset_def setPosition_def
      setVelocityX_def setVelocityY_def getSpeed_def)

lemma normaliseSpeed_moving [simp]: "moving (normaliseSpeed s b) = moving b"
  by (simp add: normaliseSpeed_def Let_def)

lemma resolveHit_moving [simp]: "moving (ball (resolveHit c r rect g)) = moving (ball g)"
  by (simp add: resolveHit_def reflectBall_def Let_def setPosition_def setVelocityX_def
      setVelocityY_def)

lemma handleBrickCollisions_moving [simp]:
  "moving (ball (handleBrickCollisions g)) = moving (ball g)"
  by (simp add: handleBrickCollisions_eq split: option.splits)

lemma handlePaddleCollision_moving [simp]:
  "moving (ball (handlePaddleCollision g)) = moving (ball g)"
  by (simp add: handlePaddleCollision_def Let_def setPosition_def setVelocityX_def
      setVelocityY_def)

lemma Ball_update_speed [simp]: "getSpeed (Ball_update dt b) = getSpeed b"
  by (simp add: Ball_update_def getSpeed_def)

lemma handleWallCollisions_moving_speed:
  "moving (ball (handleWallCollisions g)) \<longrightarrow>
     getSpeed (ball (handleWallCollisions g)) = getSpeed (ball g)"
  using handleWallCollisions_speed [of g] by blast

lemma update_ball:
  "ball (update k dt g) =
     (if state g = BallOnPaddle
      then reset (getCentreX (Paddle_update k dt WINDOW_WIDTH (paddle g)))
             (getTopY (Paddle_update k dt WINDOW_WIDTH (paddle g)) - BALL_RADIUS - 1) (ball g)
      else ball (handleBrickCollisions (handlePaddleCollision (handleWallCollisions
             (g\<lparr>paddle := Paddle_update k dt WINDOW_WIDTH (paddle g),
                ball := Ball_update dt (ball g)\<rparr>)))))"
  by (simp add: update_def Let_def)

lemma update_ballSpeed [simp]: "ballSpeed (update k dt g) = ballSpeed g"
  by (simp add: update_def Let_def)

lemma update_speed:
  assumes "getSpeed (ball g) = ballSpeed g" "0.0001 \<le> ballSpeed g"
  shows "moving (ball (update k dt g)) \<longrightarrow> getSpeed (ball (update k dt g)) = ballSpeed g"
proof (cases "state g = BallOnPaddle")
  case True
  then show ?thesis by (simp add: update_ball reset_def)
next
  case False
  let ?g2 = "g\<lparr>paddle := Paddle_update k dt WINDOW_WIDTH (paddle g), ball := Ball_update dt (ball g)\<rparr>"
  let ?g3 = "handleWallCollisions ?g2"
  let ?g4 = "handlePaddleCollision ?g3"
  have b: "ball (update k dt g) = ball (handleBrickCollisions ?g4)"
    using False by (simp add: update_ball)
  show ?thesis
  proof
    assume m: "moving (ball (update k dt g))"
    then have m3: "moving (ball ?g3)" by (simp add: b)
    then have "getSpeed (ball ?g3) = getSpeed (ball ?g2)"
      using handleWallCollisions_moving_speed [of ?g2] by blast
    then have s3: "getSpeed (ball ?g3) = ballSpeed ?g3" using assms(1) by simp
    have t3: "0.0001 \<le> ballSpeed ?g3" using assms(2) by simp
    have s4: "getSpeed (ball ?g4) = ballSpeed ?g4"
      using handlePaddleCollision_speed [OF s3 t3] by simp
    have t4: "0.0001 \<le> ballSpeed ?g4" using assms(2) by simp
    have "getSpeed (ball (handleBrickCollisions ?g4)) = ballSpeed ?g4"
      by (rule handleBrickCollisions_speed [OF s4 t4])
    then show "getSpeed (ball (update k dt g)) = ballSpeed g" by (simp add: b)
  qed
qed

lemma launch_speed:
  assumes "0 \<le> s" "\<not> moving b"
  shows "getSpeed (launch rnd s b) = s \<and> moving (launch rnd s b)"
proof -
  have "sqrt (s * cos a * (s * cos a) + s * sin a * (s * sin a)) = s" for a
  proof -
    have "(s * cos a)\<^sup>2 + (s * sin a)\<^sup>2 = s\<^sup>2 * ((cos a)\<^sup>2 + (sin a)\<^sup>2)"
      by (simp only: power_mult_distrib distrib_left)
    also have "\<dots> = s\<^sup>2" by simp
    finally have "s * cos a * (s * cos a) + s * sin a * (s * sin a) = s\<^sup>2"
      by (simp add: power2_eq_square)
    then show ?thesis using assms(1) by simp
  qed
  then show ?thesis using assms(2)
    by (simp add: launch_def Let_def getSpeed_def)
qed

lemma update_moving: "moving (ball (update k dt g)) \<longrightarrow> moving (ball g)"
proof (cases "state g = BallOnPaddle")
  case True
  then show ?thesis by (simp add: update_ball reset_def)
next
  case False
  let ?g2 = "g\<lparr>paddle := Paddle_update k dt WINDOW_WIDTH (paddle g), ball := Ball_update dt (ball g)\<rparr>"
  have "moving (ball (handleWallCollisions ?g2)) \<longrightarrow> moving (ball ?g2)"
    using handleWallCollisions_speed [of ?g2] by blast
  moreover have "moving (ball ?g2) = moving (ball g)" by (simp add: Ball_update_def)
  ultimately show ?thesis using False by (simp add: update_ball)
qed

lemma speed_inv_threshold: "speed_inv g \<Longrightarrow> 0.0001 \<le> ballSpeed g"
  by (simp add: speed_inv_def BALL_INITIAL_SPEED_def)

lemma speed_inv_update:
  assumes "speed_inv g" shows "speed_inv (update k dt g)"
proof -
  have "getSpeed (ball (update k dt g)) = ballSpeed g" if m: "moving (ball (update k dt g))"
  proof -
    from m have "moving (ball g)" using update_moving [of k dt g] by blast
    then have s: "getSpeed (ball g) = ballSpeed g" using assms by (simp add: speed_inv_def)
    show ?thesis
      using update_speed [OF s speed_inv_threshold [OF assms], of k dt] m by blast
  qed
  then show ?thesis using assms by (simp add: speed_inv_def)
qed

lemma speed_inv_restartGame: "speed_inv (restartGame g)"
  by (simp add: restartGame_upd speed_inv_def reset_def constants_defs)

lemma speed_inv_advanceLevel: "speed_inv g \<Longrightarrow> speed_inv (advanceLevel g)"
  by (simp add: advanceLevel_upd speed_inv_def reset_def constants_defs)

lemma speed_inv_keyPressed:
  assumes "speed_inv g" shows "speed_inv (keyPressed rnd key g)"
proof (cases key)
  case Space
  have nn: "0 \<le> ballSpeed g" using assms by (simp add: speed_inv_def BALL_INITIAL_SPEED_def)
  have l: "speed_inv (g\<lparr>ball := launch rnd (ballSpeed g) (ball g), state := Playing\<rparr>)"
  proof (cases "moving (ball g)")
    case True
    then show ?thesis using assms by (simp add: speed_inv_def launch_def)
  next
    case False
    then show ?thesis using assms launch_speed [OF nn False, of rnd]
      by (simp add: speed_inv_def)
  qed
  show ?thesis using l assms speed_inv_restartGame [of g] by (simp add: keyPressed_def Space)
next
  case Escape
  then show ?thesis using assms by (auto simp: keyPressed_def speed_inv_def)
next
  case KeyP
  then show ?thesis using assms by (auto simp: keyPressed_def speed_inv_def)
next
  case KeyH
  then show ?thesis using assms by (auto simp: keyPressed_def speed_inv_def)
next
  case OtherKey
  then show ?thesis using assms by (simp add: keyPressed_def)
qed

lemma speed_inv_processEvents:
  "speed_inv g \<Longrightarrow> speed_inv (processEvents rnd evs g)"
proof (induction rnd evs g rule: processEvents.induct)
  case (1 rnd g)
  then show ?case by simp
next
  case (2 rnd evs g)
  then show ?case by (auto simp: speed_inv_def)
next
  case (3 rnd key evs g)
  then show ?case by (simp add: Let_def speed_inv_keyPressed)
next
  case (4 rnd evs g)
  then show ?case by simp
qed

lemma speed_inv_runStep:
  assumes "speed_inv g" shows "speed_inv (runStep inp g)"
proof -
  let ?g1 = "processEvents (randValue inp) (events inp) g"
  let ?dt = "min (elapsed inp) 0.05"
  let ?g2 = "?g1\<lparr>levelCompleteTimer := levelCompleteTimer ?g1 - ?dt\<rparr>"
  have i1: "speed_inv ?g1" using assms by (rule speed_inv_processEvents)
  have u: "speed_inv (update (keyboard inp) ?dt ?g1)" using i1 by (rule speed_inv_update)
  have i2: "speed_inv ?g2" using i1 by (auto simp: speed_inv_def)
  have a: "speed_inv (advanceLevel ?g2)" using i2 by (rule speed_inv_advanceLevel)
  show ?thesis
    unfolding runStep_def Let_def
    using i1 u i2 a by (cases "state ?g1") (simp_all del: Game.simps)
qed

lemma reachable_speed: "reachable g \<Longrightarrow> speed_inv g"
proof (induction rule: reachable.induct)
  case (init fontLoaded)
  show ?case
    by (cases fontLoaded)
       (simp_all add: Game_new_def Let_def resetBallOnPaddle_def createBricks_def speed_inv_def
          reset_def Ball_new_def constants_defs)
next
  case (step g inp)
  then show ?case by (simp add: speed_inv_runStep)
qed

lemma sqrt_102400: "sqrt 102400 = 320"
  by (rule real_sqrt_unique) simp_all

lemma pairGame_speed: "getSpeed (ball pairGame) = 320"
  by (simp add: pairGame_def getSpeed_def sqrt_102400)

lemma pairGame_walls: "handleWallCollisions pairGame = pairGame"
  by (rule handleWallCollisions_inside) (simp_all add: pairGame_def constants_defs)

subsection \<open>Paddle deflection\<close>

text \<open>
  Bounds on \<open>pi\<close> from Machin's formula and the alternating series of
  \<open>arctan\<close>, to compare the constant of the code with 75 degrees.
\<close>

lemma arctan_partial_sums:
  fixes x :: real
  assumes "0 \<le> x" "x \<le> 1"
  shows "(\<Sum>i<2 * n. (- 1) ^ i * (1 / real (i * 2 + 1) * x ^ (i * 2 + 1))) \<le> arctan x"
    and "arctan x \<le> (\<Sum>i<2 * n + 1. (- 1) ^ i * (1 / real (i * 2 + 1) * x ^ (i * 2 + 1)))"
proof -
  let ?a = "\<lambda>n. 1 / real (n * 2 + 1) * x ^ (n * 2 + 1)"
  have abs: "\<bar>x\<bar> \<le> 1" using assms by simp
  have z: "?a \<longlonglongrightarrow> 0" by (rule zeroseq_arctan_series [OF abs])
  have p: "\<And>n. 0 \<le> ?a n" using assms(1) by simp
  have m: "\<And>n. ?a (Suc n) \<le> ?a n"
  proof -
    fix n
    have 1: "x ^ (Suc n * 2 + 1) \<le> x ^ (n * 2 + 1)"
      using assms by (intro power_decreasing) simp_all
    have 2: "1 / real (Suc n * 2 + 1) \<le> 1 / real (n * 2 + 1)"
      by (intro divide_left_mono) simp_all
    show "?a (Suc n) \<le> ?a n"
      using 1 2 assms(1) by (intro mult_mono) simp_all
  qed
  have s: "arctan x = (\<Sum>k. (- 1) ^ k * ?a k)" by (rule arctan_series [OF abs])
  show "(\<Sum>i<2 * n. (- 1) ^ i * ?a i) \<le> arctan x"
    unfolding s by (rule summable_Leibniz'(2) [where a = ?a, OF z p m])
  show "arctan x \<le> (\<Sum>i<2 * n + 1. (- 1) ^ i * ?a i)"
    unfolding s by (rule summable_Leibniz'(4) [where a = ?a, OF z p m])
qed

lemma arctan_fifth_bounds:
  "6679449362 / 33837890625 \<le> arctan (1 / 5 :: real)"
  "arctan (1 / 5 :: real) \<le> 2170821043343 / 10997314453125"
  using arctan_partial_sums(1) [of "1 / 5" 3] arctan_partial_sums(2) [of "1 / 5" 3]
  by (simp_all add: numeral_eq_Suc lessThan_Suc)

lemma arctan_239_bounds:
  "171362 / 40955757 \<le> arctan (1 / 239 :: real)"
  "arctan (1 / 239 :: real) \<le> 48941844013 / 11697168977985"
  using arctan_partial_sums(1) [of "1 / 239" 1] arctan_partial_sums(2) [of "1 / 239" 1]
  by (simp_all add: numeral_eq_Suc lessThan_Suc)

lemma pi_bounds: "3.14159265 < pi" "pi < 3.14159266"
proof -
  have m: "pi = 16 * arctan (1 / 5) - 4 * arctan (1 / 239)"
    using machin by simp
  show "3.14159265 < pi" "pi < 3.14159266"
    using arctan_fifth_bounds arctan_239_bounds unfolding m by simp_all
qed

lemma MAX_ANGLE_RAD_close: "\<bar>MAX_ANGLE_RAD - 75 * (pi / 180)\<bar> < 1 / 10 ^ 8"
  using pi_bounds by (simp add: MAX_ANGLE_RAD_def abs_less_iff)

lemma hitOffsetOf_range: "- 1 \<le> hitOffsetOf p x \<and> hitOffsetOf p x \<le> 1"
  by (simp add: hitOffsetOf_def Let_def)

lemma frameWith_speed: "getSpeed (ball (frameWith pos \<lparr>vec_x = 192, vec_y = 256\<rparr>)) = 320"
  by (simp add: frameWith_fields getSpeed_def sqrt_102400)

lemma frameWith_ballSpeed: "ballSpeed (frameWith pos vel) = 320"
  by (simp add: frameWith_def pairGame_def)

lemma sample_expandedBounds:
  "expandedBounds (Paddle_new 340 555 120 14 500) 8
     = \<lparr>rect_left = 330.5, rect_top = 545.5, rect_width = 139, rect_height = 33\<rparr>"
  by (simp add: expandedBounds_def Paddle_getBounds_def getGlobalBounds_def Paddle_new_def Let_def)

text \<open>
  C3. \<open>handlePaddleCollision\<close> changes nothing unless the vertical
  velocity is strictly positive (downward) and the ball centre lies in the
  paddle rectangle grown by the radius. On a hit the ball keeps its x and is
  put at y = top of the paddle bounds - radius - 0.5, so its lower edge is
  above the paddle; with \<open>hitOffset = clamp((ballX - paddleCentreX) /
  (paddleWidth / 2), -1, 1)\<close> and \<open>angle = hitOffset * MAX_ANGLE_RAD\<close> the
  velocity is set to \<open>speed * (sin angle, - cos angle)\<close> and passed to
  \<open>normaliseSpeed\<close>; for a ball at least as fast as the threshold 0.0001
  of \<open>normaliseSpeed\<close> the result is \<open>ballSpeed * (sin angle, - cos angle)\<close>.
  So \<open>hitOffset = 0\<close> gives horizontal velocity 0 and negative (upward)
  vertical velocity, and \<open>hitOffset = 1\<close>, \<open>-1\<close> give the angles
  \<open>MAX_ANGLE_RAD\<close>, \<open>- MAX_ANGLE_RAD\<close> from straight up, where
  \<open>MAX_ANGLE_RAD = 75 * (3.14159265 / 180)\<close> is within \<open>10^-8\<close> of 75
  degrees.
\<close>

theorem paddle_deflection:
  "(vec_y (velocity (ball g)) \<le> 0 \<longrightarrow> handlePaddleCollision g = g)
   \<and> (\<not> contains (expandedBounds (paddle g) (radius (ball g))) (ball_pos (ball g)) \<longrightarrow>
         handlePaddleCollision g = g)
   \<and> (vec_y (velocity (ball g)) > 0
        \<and> contains (expandedBounds (paddle g) (radius (ball g))) (ball_pos (ball g)) \<longrightarrow>
         ball_pos (ball (handlePaddleCollision g))
           = \<lparr>vec_x = vec_x (ball_pos (ball g)),
              vec_y = rect_top (Paddle_getBounds (paddle g)) - radius (ball g) - 0.5\<rparr>
       \<and> vec_y (ball_pos (ball (handlePaddleCollision g))) + radius (ball g)
           < rect_top (Paddle_getBounds (paddle g))
       \<and> ball (handlePaddleCollision g) =
           normaliseSpeed (ballSpeed g)
             ((ball g)\<lparr>ball_pos := \<lparr>vec_x = vec_x (ball_pos (ball g)),
                                     vec_y = rect_top (Paddle_getBounds (paddle g)) - radius (ball g) - 0.5\<rparr>,
                       velocity := \<lparr>vec_x = getSpeed (ball g)
                                       * sin (hitOffsetOf (paddle g) (vec_x (ball_pos (ball g))) * MAX_ANGLE_RAD),
                                     vec_y = - getSpeed (ball g)
                                       * cos (hitOffsetOf (paddle g) (vec_x (ball_pos (ball g))) * MAX_ANGLE_RAD)\<rparr>\<rparr>)
       \<and> (0.0001 \<le> getSpeed (ball g) \<longrightarrow>
             velocity (ball (handlePaddleCollision g))
               = \<lparr>vec_x = ballSpeed g
                    * sin (hitOffsetOf (paddle g) (vec_x (ball_pos (ball g))) * MAX_ANGLE_RAD),
                  vec_y = - ballSpeed g
                    * cos (hitOffsetOf (paddle g) (vec_x (ball_pos (ball g))) * MAX_ANGLE_RAD)\<rparr>
           \<and> (hitOffsetOf (paddle g) (vec_x (ball_pos (ball g))) = 0 \<and> 0 < ballSpeed g \<longrightarrow>
                 vec_x (velocity (ball (handlePaddleCollision g))) = 0
               \<and> vec_y (velocity (ball (handlePaddleCollision g))) < 0)
           \<and> (hitOffsetOf (paddle g) (vec_x (ball_pos (ball g))) = 1 \<longrightarrow>
                 velocity (ball (handlePaddleCollision g))
                   = \<lparr>vec_x = ballSpeed g * sin MAX_ANGLE_RAD,
                      vec_y = - ballSpeed g * cos MAX_ANGLE_RAD\<rparr>)
           \<and> (hitOffsetOf (paddle g) (vec_x (ball_pos (ball g))) = - 1 \<longrightarrow>
                 velocity (ball (handlePaddleCollision g))
                   = \<lparr>vec_x = ballSpeed g * sin (- MAX_ANGLE_RAD),
                      vec_y = - ballSpeed g * cos (- MAX_ANGLE_RAD)\<rparr>)))
   \<and> hitOffsetOf (paddle g) x
       = max (- 1) (min 1 ((x - getCentreX (paddle g)) / (getWidth (paddle g) * 0.5)))
   \<and> MAX_ANGLE_RAD = 75 * (3.14159265 / 180)
   \<and> \<bar>MAX_ANGLE_RAD - 75 * (pi / 180)\<bar> < 1 / 10 ^ 8"
proof -
  let ?h = "hitOffsetOf (paddle g) (vec_x (ball_pos (ball g)))"
  have miss: "vec_y (velocity (ball g)) \<le> 0
      \<or> \<not> contains (expandedBounds (paddle g) (radius (ball g))) (ball_pos (ball g))
     \<longrightarrow> handlePaddleCollision g = g"
    using handlePaddleCollision_miss [of g] by blast
  have hit: "ball (handlePaddleCollision g) =
           normaliseSpeed (ballSpeed g)
             ((ball g)\<lparr>ball_pos := \<lparr>vec_x = vec_x (ball_pos (ball g)),
                                     vec_y = rect_top (Paddle_getBounds (paddle g)) - radius (ball g) - 0.5\<rparr>,
                       velocity := \<lparr>vec_x = getSpeed (ball g) * sin (?h * MAX_ANGLE_RAD),
                                     vec_y = - getSpeed (ball g) * cos (?h * MAX_ANGLE_RAD)\<rparr>\<rparr>)"
    if "vec_y (velocity (ball g)) > 0"
      "contains (expandedBounds (paddle g) (radius (ball g))) (ball_pos (ball g))"
    using that by (rule handlePaddleCollision_hit)
  have pos: "ball_pos (ball (handlePaddleCollision g))
           = \<lparr>vec_x = vec_x (ball_pos (ball g)),
              vec_y = rect_top (Paddle_getBounds (paddle g)) - radius (ball g) - 0.5\<rparr>"
    if "vec_y (velocity (ball g)) > 0"
      "contains (expandedBounds (paddle g) (radius (ball g))) (ball_pos (ball g))"
    unfolding hit [OF that] by (simp add: normaliseSpeed_def Let_def)
  have vel: "velocity (ball (handlePaddleCollision g))
               = \<lparr>vec_x = ballSpeed g * sin (?h * MAX_ANGLE_RAD),
                  vec_y = - ballSpeed g * cos (?h * MAX_ANGLE_RAD)\<rparr>"
    if "vec_y (velocity (ball g)) > 0"
      "contains (expandedBounds (paddle g) (radius (ball g))) (ball_pos (ball g))"
      "0.0001 \<le> getSpeed (ball g)"
    using that by (rule handlePaddleCollision_velocity)
  have off: "hitOffsetOf (paddle g) x
       = max (- 1) (min 1 ((x - getCentreX (paddle g)) / (getWidth (paddle g) * 0.5)))"
    by (simp add: hitOffsetOf_def Let_def)
  have c: "MAX_ANGLE_RAD = 75 * (3.14159265 / 180)" by (simp add: MAX_ANGLE_RAD_def)
  show ?thesis
    apply (intro conjI impI)
    subgoal using miss by blast
    subgoal using miss by blast
    subgoal using pos by blast
    subgoal using pos by simp
    subgoal using hit by blast
    subgoal using vel by blast
    subgoal using vel by simp
    subgoal using vel by simp
    subgoal using vel by simp
    subgoal using vel by simp
    subgoal by (rule off)
    subgoal by (rule c)
    subgoal by (rule MAX_ANGLE_RAD_close)
    done
qed

text \<open>
  A ball of speed 320 coming down on the paddle (centre x = 400, bounds top
  553.5): at x = 400 the offset is 0, the ball is put at (400, 545) and
  leaves straight up with velocity (0, -320); at x = 465 the offset is
  clamped to 1 and the ball leaves at \<open>MAX_ANGLE_RAD\<close>; a ball going up is
  left alone.
\<close>

theorem paddle_deflection_witness:
  "vec_y (velocity (ball (frameWith \<lparr>vec_x = 400, vec_y = 550\<rparr> \<lparr>vec_x = 192, vec_y = 256\<rparr>))) > 0
   \<and> contains (expandedBounds (paddle (frameWith \<lparr>vec_x = 400, vec_y = 550\<rparr> \<lparr>vec_x = 192, vec_y = 256\<rparr>))
                  (radius (ball (frameWith \<lparr>vec_x = 400, vec_y = 550\<rparr> \<lparr>vec_x = 192, vec_y = 256\<rparr>))))
               (ball_pos (ball (frameWith \<lparr>vec_x = 400, vec_y = 550\<rparr> \<lparr>vec_x = 192, vec_y = 256\<rparr>)))
   \<and> 0.0001 \<le> getSpeed (ball (frameWith \<lparr>vec_x = 400, vec_y = 550\<rparr> \<lparr>vec_x = 192, vec_y = 256\<rparr>))
   \<and> hitOffsetOf (paddle (frameWith \<lparr>vec_x = 400, vec_y = 550\<rparr> \<lparr>vec_x = 192, vec_y = 256\<rparr>)) 400 = 0
   \<and> ball_pos (ball (handlePaddleCollision (frameWith \<lparr>vec_x = 400, vec_y = 550\<rparr> \<lparr>vec_x = 192, vec_y = 256\<rparr>)))
       = \<lparr>vec_x = 400, vec_y = 545\<rparr>
   \<and> velocity (ball (handlePaddleCollision (frameWith \<lparr>vec_x = 400, vec_y = 550\<rparr> \<lparr>vec_x = 192, vec_y = 256\<rparr>)))
       = \<lparr>vec_x = 0, vec_y = - 320\<rparr>
   \<and> hitOffsetOf (paddle (frameWith \<lparr>vec_x = 465, vec_y = 550\<rparr> \<lparr>vec_x = 192, vec_y = 256\<rparr>)) 465 = 1
   \<and> velocity (ball (handlePaddleCollision (frameWith \<lparr>vec_x = 465, vec_y = 550\<rparr> \<lparr>vec_x = 192, vec_y = 256\<rparr>)))
       = \<lparr>vec_x = 320 * sin MAX_ANGLE_RAD, vec_y = - 320 * cos MAX_ANGLE_RAD\<rparr>
   \<and> handlePaddleCollision (frameWith \<lparr>vec_x = 400, vec_y = 550\<rparr> \<lparr>vec_x = 192, vec_y = - 256\<rparr>)
       = frameWith \<lparr>vec_x = 400, vec_y = 550\<rparr> \<lparr>vec_x = 192, vec_y = - 256\<rparr>"
proof -
  let ?v = "\<lparr>vec_x = 192, vec_y = 256\<rparr>"
  let ?g0 = "frameWith \<lparr>vec_x = 400, vec_y = 550\<rparr> ?v"
  let ?g1 = "frameWith \<lparr>vec_x = 465, vec_y = 550\<rparr> ?v"
  let ?g2 = "frameWith \<lparr>vec_x = 400, vec_y = 550\<rparr> \<lparr>vec_x = 192, vec_y = - 256\<rparr>"
  have a0: "vec_y (velocity (ball ?g0)) > 0" and a1: "vec_y (velocity (ball ?g1)) > 0"
    and a2: "vec_y (velocity (ball ?g2)) \<le> 0"
    by (simp_all add: frameWith_fields)
  have b0: "contains (expandedBounds (paddle ?g0) (radius (ball ?g0))) (ball_pos (ball ?g0))"
    by (simp add: frameWith_fields sample_expandedBounds contains_def)
  have b1: "contains (expandedBounds (paddle ?g1) (radius (ball ?g1))) (ball_pos (ball ?g1))"
    by (simp add: frameWith_fields sample_expandedBounds contains_def)
  have c0: "0.0001 \<le> getSpeed (ball ?g0)" and c1: "0.0001 \<le> getSpeed (ball ?g1)"
    by (simp_all add: frameWith_speed)
  have h0: "hitOffsetOf (paddle ?g0) 400 = 0"
    by (simp add: frameWith_fields hitOffsetOf_def getCentreX_def getWidth_def Paddle_new_def)
  have h1: "hitOffsetOf (paddle ?g1) 465 = 1"
    by (simp add: frameWith_fields hitOffsetOf_def getCentreX_def getWidth_def Paddle_new_def)
  have x0: "vec_x (ball_pos (ball ?g0)) = 400" and x1: "vec_x (ball_pos (ball ?g1)) = 465"
    by (simp_all add: frameWith_fields)
  have top: "rect_top (Paddle_getBounds (paddle ?g0)) - radius (ball ?g0) - 0.5 = 545"
    by (simp add: frameWith_fields Paddle_getBounds_def getGlobalBounds_def Paddle_new_def)
  note t0 = paddle_deflection [of ?g0 400]
  note t1 = paddle_deflection [of ?g1 465]
  note t2 = paddle_deflection [of ?g2 0]
  have p0: "ball_pos (ball (handlePaddleCollision ?g0))
      = \<lparr>vec_x = vec_x (ball_pos (ball ?g0)),
         vec_y = rect_top (Paddle_getBounds (paddle ?g0)) - radius (ball ?g0) - 0.5\<rparr>"
    using t0 a0 b0 by blast
  have v0: "velocity (ball (handlePaddleCollision ?g0))
      = \<lparr>vec_x = ballSpeed ?g0
           * sin (hitOffsetOf (paddle ?g0) (vec_x (ball_pos (ball ?g0))) * MAX_ANGLE_RAD),
         vec_y = - ballSpeed ?g0
           * cos (hitOffsetOf (paddle ?g0) (vec_x (ball_pos (ball ?g0))) * MAX_ANGLE_RAD)\<rparr>"
    using t0 a0 b0 c0 by blast
  have v1: "velocity (ball (handlePaddleCollision ?g1))
      = \<lparr>vec_x = ballSpeed ?g1
           * sin (hitOffsetOf (paddle ?g1) (vec_x (ball_pos (ball ?g1))) * MAX_ANGLE_RAD),
         vec_y = - ballSpeed ?g1
           * cos (hitOffsetOf (paddle ?g1) (vec_x (ball_pos (ball ?g1))) * MAX_ANGLE_RAD)\<rparr>"
    using t1 a1 b1 c1 by blast
  have m2: "handlePaddleCollision ?g2 = ?g2"
    using t2 a2 by blast
  have p0': "ball_pos (ball (handlePaddleCollision ?g0)) = \<lparr>vec_x = 400, vec_y = 545\<rparr>"
    unfolding p0 top x0 by simp
  have v0': "velocity (ball (handlePaddleCollision ?g0)) = \<lparr>vec_x = 0, vec_y = - 320\<rparr>"
    unfolding v0 x0 h0 by (simp add: frameWith_ballSpeed)
  have v1': "velocity (ball (handlePaddleCollision ?g1))
      = \<lparr>vec_x = 320 * sin MAX_ANGLE_RAD, vec_y = - 320 * cos MAX_ANGLE_RAD\<rparr>"
    unfolding v1 x1 h1 by (simp add: frameWith_ballSpeed)
  show ?thesis
    using a0 b0 c0 h0 h1 p0' v0' v1' m2 by blast
qed

subsection \<open>Brick collisions\<close>

lemma sqrt_small: "sqrt (1 / 268435456) = 1 / 16384"
  by (rule real_sqrt_unique) (simp_all add: power2_eq_square)

lemma sqrt_25: "sqrt 25 = 5"
  by (rule real_sqrt_unique) simp_all

lemma brick0_bounds:
  "Brick_getBounds (brickAt 0 42 0 0)
     = \<lparr>rect_left = 40.5, rect_top = 58.5, rect_width = 71, rect_height = 25\<rparr>"
  by (simp add: pair_brick0 Brick_getBounds_def getGlobalBounds_def)

lemma graze_normalOf:
  "normalOf (Brick_getBounds (brickAt 0 42 0 0)) (ball_pos (ball grazeGame))
     = \<lparr>vec_x = 0, vec_y = - 1\<rparr>"
  by (simp add: brick0_bounds grazeGame_def normalOf_def distSqTo_def closest_def Let_def sqrt_small)

lemma graze_specNormal:
  "specNormal (Brick_getBounds (brickAt 0 42 0 0)) (ball_pos (ball grazeGame))
     = \<lparr>vec_x = 1, vec_y = 0\<rparr>"
  by (simp add: brick0_bounds grazeGame_def specNormal_def closest_def Let_def sqrt_small)

lemma graze_struck:
  "struck (ball_pos (ball grazeGame)) (radius (ball grazeGame)) (brickAt 0 42 0 0)"
  by (simp add: grazeGame_def pair_brick0 struck_def isDestroyed_def intersects_def distSqTo_def
      closest_def Brick_getBounds_def getGlobalBounds_def Let_def)

lemma grazeGame_fields:
  "bricks grazeGame = [brickAt 0 42 0 0]" "ballSpeed grazeGame = 320"
  "velocity (ball grazeGame) = \<lparr>vec_x = - 192, vec_y = - 256\<rparr>"
  by (simp_all add: grazeGame_def)

lemma resolveHit_ball:
  "ball (resolveHit c r rect g) =
     normaliseSpeed (ballSpeed g)
       ((ball g)\<lparr>ball_pos :=
                   \<lparr>vec_x = vec_x c + vec_x (normalOf rect c) * (r - sqrt (distSqTo rect c) + 0.5),
                    vec_y = vec_y c + vec_y (normalOf rect c) * (r - sqrt (distSqTo rect c) + 0.5)\<rparr>,
                 velocity :=
                   \<lparr>vec_x = vec_x (velocity (ball g))
                       - 2 * (vec_x (velocity (ball g)) * vec_x (normalOf rect c)
                              + vec_y (velocity (ball g)) * vec_y (normalOf rect c))
                         * vec_x (normalOf rect c),
                    vec_y = vec_y (velocity (ball g))
                       - 2 * (vec_x (velocity (ball g)) * vec_x (normalOf rect c)
                              + vec_y (velocity (ball g)) * vec_y (normalOf rect c))
                         * vec_y (normalOf rect c)\<rparr>\<rparr>)"
  (is "_ = ?rhs")
proof -
  have "resolveHit c r rect g = g\<lparr>ball := normaliseSpeed (ballSpeed g)
      (setPosition (vec_x c + vec_x (normalOf rect c) * (r - sqrt (distSqTo rect c) + 0.5))
                   (vec_y c + vec_y (normalOf rect c) * (r - sqrt (distSqTo rect c) + 0.5))
                   (ball (reflectBall (normalOf rect c) g)))\<rparr>"
    by (simp add: resolveHit_def reflectBall_def Let_def)
  then have "ball (resolveHit c r rect g) = normaliseSpeed (ballSpeed g)
      (setPosition (vec_x c + vec_x (normalOf rect c) * (r - sqrt (distSqTo rect c) + 0.5))
                   (vec_y c + vec_y (normalOf rect c) * (r - sqrt (distSqTo rect c) + 0.5))
                   (ball (reflectBall (normalOf rect c) g)))"
    by simp
  also have "\<dots> = ?rhs"
    by (rule arg_cong [where f = "normaliseSpeed (ballSpeed g)"], rule Ball.equality)
       (simp_all add: reflectBall_def Let_def setPosition_def setVelocityX_def
          setVelocityY_def vec_update_both algebra_simps)
  finally show ?thesis .
qed

lemma graze_velocity:
  "velocity (ball (handleBrickCollisions grazeGame)) = \<lparr>vec_x = - 192, vec_y = 256\<rparr>"
proof -
  have f: "find (struck (ball_pos (ball grazeGame)) (radius (ball grazeGame))) (bricks grazeGame)
      = Some (brickAt 0 42 0 0)"
    by (simp add: grazeGame_fields graze_struck)
  have b: "ball (handleBrickCollisions grazeGame)
      = ball (resolveHit (ball_pos (ball grazeGame)) (radius (ball grazeGame))
               (Brick_getBounds (brickAt 0 42 0 0)) grazeGame)"
    by (simp add: handleBrickCollisions_eq f)
  let ?b = "(ball grazeGame)\<lparr>ball_pos := \<lparr>vec_x = 111.50006103515625, vec_y = 61.50006103515625\<rparr>,
                              velocity := \<lparr>vec_x = - 192, vec_y = 256\<rparr>\<rparr>"
  have r: "ball (handleBrickCollisions grazeGame) = normaliseSpeed 320 ?b"
    unfolding b resolveHit_ball graze_normalOf
    by (simp add: grazeGame_def brick0_bounds distSqTo_def closest_def Let_def sqrt_small)
  have s: "getSpeed ?b = 320"
    by (simp add: getSpeed_def sqrt_102400)
  have "normaliseSpeed 320 ?b = ?b"
    by (rule normaliseSpeed_same [OF s]) simp
  then show ?thesis by (simp add: r)
qed

text \<open>
  C2, as stated, fails in the frame \<open>grazeGame\<close>: the only brick is struck,
  the ball centre is outside its rectangle, and the claim's reflection about
  the unit vector from the nearest point, (1, 0), turns the velocity
  (-192, -256) into (192, -256); the code takes the distance \<open>2^-14\<close> for
  zero, reflects about (0, -1) and leaves the velocity (-192, 256).
\<close>

theorem first_brick_normal_counterexample:
  "struck (ball_pos (ball grazeGame)) (radius (ball grazeGame)) (brickAt 0 42 0 0)
   \<and> bricks grazeGame = [brickAt 0 42 0 0]
   \<and> closest (Brick_getBounds (brickAt 0 42 0 0)) (ball_pos (ball grazeGame))
       \<noteq> ball_pos (ball grazeGame)
   \<and> specReflect (velocity (ball grazeGame))
        (specNormal (Brick_getBounds (brickAt 0 42 0 0)) (ball_pos (ball grazeGame)))
       = \<lparr>vec_x = 192, vec_y = - 256\<rparr>
   \<and> velocity (ball (handleBrickCollisions grazeGame)) = \<lparr>vec_x = - 192, vec_y = 256\<rparr>
   \<and> velocity (ball (handleBrickCollisions grazeGame))
       \<noteq> specReflect (velocity (ball grazeGame))
            (specNormal (Brick_getBounds (brickAt 0 42 0 0)) (ball_pos (ball grazeGame)))"
proof -
  have c: "closest (Brick_getBounds (brickAt 0 42 0 0)) (ball_pos (ball grazeGame))
       \<noteq> ball_pos (ball grazeGame)"
    by (simp add: brick0_bounds grazeGame_def closest_def)
  have s: "specReflect (velocity (ball grazeGame))
        (specNormal (Brick_getBounds (brickAt 0 42 0 0)) (ball_pos (ball grazeGame)))
       = \<lparr>vec_x = 192, vec_y = - 256\<rparr>"
    unfolding graze_specNormal by (simp add: specReflect_def grazeGame_fields)
  show ?thesis
    using graze_struck c s graze_velocity by (simp add: grazeGame_fields)
qed

lemma normalOf_cases:
  "(sqrt (distSqTo rect c) > 0.0001 \<longrightarrow>
      normalOf rect c = \<lparr>vec_x = (vec_x c - vec_x (closest rect c)) / sqrt (distSqTo rect c),
                         vec_y = (vec_y c - vec_y (closest rect c)) / sqrt (distSqTo rect c)\<rparr>)
   \<and> (\<not> sqrt (distSqTo rect c) > 0.0001 \<longrightarrow> normalOf rect c = \<lparr>vec_x = 0, vec_y = - 1\<rparr>)"
  by (simp add: normalOf_def Let_def)

lemma normalOf_inside: "closest rect c = c \<Longrightarrow> normalOf rect c = \<lparr>vec_x = 0, vec_y = - 1\<rparr>"
  by (simp add: normalOf_def distSqTo_def Let_def)

lemma struck_iff:
  "struck c r b \<longleftrightarrow> \<not> destroyed b \<and> distSqTo (Brick_getBounds b) c < r * r"
  by (auto simp: struck_def isDestroyed_def intersects_def)

text \<open>
  C2, amended. In one call of \<open>handleBrickCollisions\<close>, with the ball centre
  and radius read before the loop: every brick that is not destroyed and whose
  nearest point to the centre is closer than the radius (squared distance
  below the squared radius) is replaced by its \<open>hit()\<close>, and every other
  brick is left as it is. If there is no such brick the ball is unchanged;
  otherwise the ball is the result of one reflection and push-out at the
  first such brick in storage order: the velocity becomes
  \<open>v - 2 (v . n) n\<close> and the position \<open>centre + n * (radius - dist + 0.5)\<close>,
  followed by \<open>normaliseSpeed\<close>. The normal \<open>n\<close> is the unit vector from the
  nearest point to the centre when their distance exceeds 0.0001, and (0, -1)
  otherwise, in particular when the centre is inside the rectangle; it always
  has length 1. With two struck bricks in storage both are hit and the ball
  is reflected once, at the first.
\<close>

theorem single_reflection_full_damage:
  "bricks (handleBrickCollisions g)
     = map (\<lambda>b. if struck (ball_pos (ball g)) (radius (ball g)) b then hit b else b) (bricks g)
   \<and> (struck c r b \<longleftrightarrow> \<not> destroyed b \<and> distSqTo (Brick_getBounds b) c < r * r)
   \<and> distSqTo rect c
       = (vec_x c - vec_x (closest rect c)) * (vec_x c - vec_x (closest rect c))
         + (vec_y c - vec_y (closest rect c)) * (vec_y c - vec_y (closest rect c))
   \<and> closest rect c
       = \<lparr>vec_x = max (rect_left rect) (min (vec_x c) (rect_left rect + rect_width rect)),
          vec_y = max (rect_top rect) (min (vec_y c) (rect_top rect + rect_height rect))\<rparr>
   \<and> ball (handleBrickCollisions g)
       = (case find (struck (ball_pos (ball g)) (radius (ball g))) (bricks g) of
            None \<Rightarrow> ball g
          | Some b \<Rightarrow> ball (resolveHit (ball_pos (ball g)) (radius (ball g)) (Brick_getBounds b) g))
   \<and> ball (resolveHit c r rect g)
       = normaliseSpeed (ballSpeed g)
           ((ball g)\<lparr>ball_pos :=
                       \<lparr>vec_x = vec_x c + vec_x (normalOf rect c) * (r - sqrt (distSqTo rect c) + 0.5),
                        vec_y = vec_y c + vec_y (normalOf rect c) * (r - sqrt (distSqTo rect c) + 0.5)\<rparr>,
                     velocity :=
                       \<lparr>vec_x = vec_x (velocity (ball g))
                           - 2 * (vec_x (velocity (ball g)) * vec_x (normalOf rect c)
                                  + vec_y (velocity (ball g)) * vec_y (normalOf rect c))
                             * vec_x (normalOf rect c),
                        vec_y = vec_y (velocity (ball g))
                           - 2 * (vec_x (velocity (ball g)) * vec_x (normalOf rect c)
                                  + vec_y (velocity (ball g)) * vec_y (normalOf rect c))
                             * vec_y (normalOf rect c)\<rparr>\<rparr>)
   \<and> (sqrt (distSqTo rect c) > 0.0001 \<longrightarrow>
         normalOf rect c = \<lparr>vec_x = (vec_x c - vec_x (closest rect c)) / sqrt (distSqTo rect c),
                            vec_y = (vec_y c - vec_y (closest rect c)) / sqrt (distSqTo rect c)\<rparr>)
   \<and> (\<not> sqrt (distSqTo rect c) > 0.0001 \<longrightarrow> normalOf rect c = \<lparr>vec_x = 0, vec_y = - 1\<rparr>)
   \<and> (closest rect c = c \<longrightarrow> normalOf rect c = \<lparr>vec_x = 0, vec_y = - 1\<rparr>)
   \<and> vec_x (normalOf rect c) * vec_x (normalOf rect c)
       + vec_y (normalOf rect c) * vec_y (normalOf rect c) = 1
   \<and> (bricks g = [b0, b1]
        \<and> struck (ball_pos (ball g)) (radius (ball g)) b0
        \<and> struck (ball_pos (ball g)) (radius (ball g)) b1 \<longrightarrow>
         bricks (handleBrickCollisions g) = [hit b0, hit b1]
       \<and> ball (handleBrickCollisions g)
           = ball (resolveHit (ball_pos (ball g)) (radius (ball g)) (Brick_getBounds b0) g))"
proof -
  have 1: "bricks (handleBrickCollisions g)
     = map (\<lambda>b. if struck (ball_pos (ball g)) (radius (ball g)) b then hit b else b) (bricks g)"
    by (simp add: handleBrickCollisions_eq)
  have 2: "distSqTo rect c
       = (vec_x c - vec_x (closest rect c)) * (vec_x c - vec_x (closest rect c))
         + (vec_y c - vec_y (closest rect c)) * (vec_y c - vec_y (closest rect c))"
    by (simp add: distSqTo_def Let_def)
  have 3: "closest rect c
       = \<lparr>vec_x = max (rect_left rect) (min (vec_x c) (rect_left rect + rect_width rect)),
          vec_y = max (rect_top rect) (min (vec_y c) (rect_top rect + rect_height rect))\<rparr>"
    by (simp add: closest_def)
  have 4: "ball (handleBrickCollisions g)
       = (case find (struck (ball_pos (ball g)) (radius (ball g))) (bricks g) of
            None \<Rightarrow> ball g
          | Some b \<Rightarrow> ball (resolveHit (ball_pos (ball g)) (radius (ball g)) (Brick_getBounds b) g))"
    by (simp add: handleBrickCollisions_eq)
  have 5: "bricks g = [b0, b1]
        \<and> struck (ball_pos (ball g)) (radius (ball g)) b0
        \<and> struck (ball_pos (ball g)) (radius (ball g)) b1 \<longrightarrow>
         bricks (handleBrickCollisions g) = [hit b0, hit b1]
       \<and> ball (handleBrickCollisions g)
           = ball (resolveHit (ball_pos (ball g)) (radius (ball g)) (Brick_getBounds b0) g)"
    by (simp add: handleBrickCollisions_eq)
  show ?thesis
    apply (intro conjI)
    subgoal by (rule 1)
    subgoal by (rule struck_iff)
    subgoal by (rule 2)
    subgoal by (rule 3)
    subgoal by (rule 4)
    subgoal by (rule resolveHit_ball)
    subgoal using normalOf_cases [of rect c] by blast
    subgoal using normalOf_cases [of rect c] by blast
    subgoal using normalOf_inside [of rect c] by blast
    subgoal by (rule normalOf_unit)
    subgoal by (rule 5)
    done
qed

lemma pair_normalOf:
  "normalOf (Brick_getBounds (brickAt 0 42 0 0)) (ball_pos (ball pairGame))
     = \<lparr>vec_x = 0, vec_y = 1\<rparr>"
  by (simp add: brick0_bounds pairGame_def normalOf_def distSqTo_def closest_def Let_def sqrt_25)

lemma pairGame_resolved:
  "ball (resolveHit (ball_pos (ball pairGame)) (radius (ball pairGame))
           (Brick_getBounds (brickAt 0 42 0 0)) pairGame)
     = \<lparr> ball_pos = \<lparr>vec_x = 110, vec_y = 92\<rparr>,
         velocity = \<lparr>vec_x = 192, vec_y = 256\<rparr>, radius = 8, moving = True \<rparr>"
proof -
  let ?b = "\<lparr> ball_pos = \<lparr>vec_x = 110, vec_y = 92\<rparr>,
         velocity = \<lparr>vec_x = 192, vec_y = 256\<rparr>, radius = 8, moving = True \<rparr>"
  have r: "ball (resolveHit (ball_pos (ball pairGame)) (radius (ball pairGame))
           (Brick_getBounds (brickAt 0 42 0 0)) pairGame) = normaliseSpeed 320 ?b"
    unfolding resolveHit_ball pair_normalOf
    by (simp add: pairGame_def brick0_bounds distSqTo_def closest_def Let_def sqrt_25)
  have s: "getSpeed ?b = 320"
    by (simp add: getSpeed_def sqrt_102400)
  have "normaliseSpeed 320 ?b = ?b"
    by (rule normaliseSpeed_same [OF s]) simp
  then show ?thesis by (simp add: r)
qed

text \<open>
  The sample frame: the ball overlaps both bricks, both are hit, and the
  ball is reflected once at the first (normal (0, 1), nearest point 5 below
  the brick): velocity (192, -256) becomes (192, 256), position (110, 92).
\<close>

theorem single_reflection_full_damage_witness:
  "bricks pairGame = [brickAt 0 42 0 0, brickAt 0 42 0 (Suc 0)]
   \<and> struck (ball_pos (ball pairGame)) (radius (ball pairGame)) (brickAt 0 42 0 0)
   \<and> struck (ball_pos (ball pairGame)) (radius (ball pairGame)) (brickAt 0 42 0 (Suc 0))
   \<and> bricks (handleBrickCollisions pairGame) = [hit (brickAt 0 42 0 0), hit (brickAt 0 42 0 (Suc 0))]
   \<and> velocity (ball pairGame) = \<lparr>vec_x = 192, vec_y = - 256\<rparr>
   \<and> ball (handleBrickCollisions pairGame)
       = \<lparr> ball_pos = \<lparr>vec_x = 110, vec_y = 92\<rparr>,
           velocity = \<lparr>vec_x = 192, vec_y = 256\<rparr>, radius = 8, moving = True \<rparr>
   \<and> sqrt (distSqTo (Brick_getBounds (brickAt 0 42 0 0)) (ball_pos (ball pairGame))) > 0.0001
   \<and> normalOf (Brick_getBounds (brickAt 0 42 0 0)) (ball_pos (ball pairGame))
       = \<lparr>vec_x = 0, vec_y = 1\<rparr>"
proof -
  note t = single_reflection_full_damage [of pairGame "ball_pos (ball pairGame)"
      "radius (ball pairGame)" "brickAt 0 42 0 0" "Brick_getBounds (brickAt 0 42 0 0)"
      "brickAt 0 42 0 0" "brickAt 0 42 0 (Suc 0)"]
  have a: "bricks pairGame = [brickAt 0 42 0 0, brickAt 0 42 0 (Suc 0)]"
    by (simp add: pairGame_fields)
  have d: "sqrt (distSqTo (Brick_getBounds (brickAt 0 42 0 0)) (ball_pos (ball pairGame))) > 0.0001"
    by (simp add: brick0_bounds pairGame_def distSqTo_def closest_def Let_def sqrt_25)
  have b: "bricks (handleBrickCollisions pairGame) = [hit (brickAt 0 42 0 0), hit (brickAt 0 42 0 (Suc 0))]
       \<and> ball (handleBrickCollisions pairGame)
           = ball (resolveHit (ball_pos (ball pairGame)) (radius (ball pairGame))
                     (Brick_getBounds (brickAt 0 42 0 0)) pairGame)"
    using t a pair_struck0 pair_struck1 by blast
  have v: "velocity (ball pairGame) = \<lparr>vec_x = 192, vec_y = - 256\<rparr>"
    by (simp add: pairGame_def)
  show ?thesis
    using a b d v pair_struck0 pair_struck1 pair_normalOf pairGame_resolved by simp
qed

subsection \<open>Paddle and bricks along a session\<close>

lemma entity_inv_cong:
  assumes "entity_inv g" "paddle g' = paddle g" "bricks g' = bricks g"
  shows "entity_inv g'"
  using assms by (simp add: entity_inv_def)

lemma entity_inv_fresh:
  assumes "paddle_width (paddle g) = PADDLE_WIDTH"
  shows "entity_inv (g\<lparr>paddle := setPositionX ((WINDOW_WIDTH - PADDLE_WIDTH) * 0.5) (paddle g),
                        bricks := brickGrid l\<rparr>)"
  using assms brickGrid_positive [of _ l]
  by (auto simp: entity_inv_def setPositionX_def constants_defs)

lemma entity_inv_restartGame: "entity_inv g \<Longrightarrow> entity_inv (restartGame g)"
  by (subst restartGame_upd, rule entity_inv_cong [OF entity_inv_fresh [of g 1]])
     (simp_all add: entity_inv_def)

lemma entity_inv_advanceLevel: "entity_inv g \<Longrightarrow> entity_inv (advanceLevel g)"
  by (subst advanceLevel_upd, rule entity_inv_cong [OF entity_inv_fresh [of g "level g + 1"]])
     (simp_all add: entity_inv_def)

lemma strike_positive:
  "(\<forall>b\<in>set bs. destroyed b \<or> 1 \<le> hitPoints b) \<Longrightarrow>
   (\<forall>b\<in>set (map (\<lambda>b. if struck c r b then hit b else b) bs). destroyed b \<or> 1 \<le> hitPoints b)"
  using hit_keeps_positive by auto

lemma Paddle_update_width [simp]: "paddle_width (Paddle_update k dt w p) = paddle_width p"
  by (simp add: Paddle_update_def Let_def)

lemma update_paddle [simp]: "paddle (update k dt g) = Paddle_update k dt WINDOW_WIDTH (paddle g)"
  by (simp add: update_def Let_def)

lemma update_bricks:
  "bricks (update k dt g) = bricks g
   \<or> (\<exists>c r. bricks (update k dt g) = map (\<lambda>b. if struck c r b then hit b else b) (bricks g))"
  by (auto simp: update_def Let_def handleBrickCollisions_eq)

lemma entity_inv_update:
  assumes "entity_inv g" shows "entity_inv (update k dt g)"
proof -
  have w: "paddle_width (paddle g) \<le> WINDOW_WIDTH"
    using assms by (simp add: entity_inv_def constants_defs)
  have p: "0 \<le> shape_x (paddle_shape (Paddle_update k dt WINDOW_WIDTH (paddle g)))
      \<and> shape_x (paddle_shape (Paddle_update k dt WINDOW_WIDTH (paddle g)))
          \<le> WINDOW_WIDTH - paddle_width (paddle g)"
    using w by (simp add: Paddle_update_def Let_def)
  have b0: "\<forall>b\<in>set (bricks g). destroyed b \<or> 1 \<le> hitPoints b"
    using assms by (simp add: entity_inv_def)
  have b: "\<forall>b\<in>set (bricks (update k dt g)). destroyed b \<or> 1 \<le> hitPoints b"
  proof -
    from update_bricks [of k dt g] show ?thesis
    proof
      assume "bricks (update k dt g) = bricks g"
      then show ?thesis using b0 by simp
    next
      assume "\<exists>c r. bricks (update k dt g)
          = map (\<lambda>b. if struck c r b then hit b else b) (bricks g)"
      then obtain c r where e: "bricks (update k dt g)
          = map (\<lambda>b. if struck c r b then hit b else b) (bricks g)" by blast
      show ?thesis unfolding e using b0 by (rule strike_positive)
    qed
  qed
  show ?thesis
    using assms p b by (simp add: entity_inv_def)
qed

lemma entity_inv_keyPressed:
  assumes "entity_inv g" shows "entity_inv (keyPressed rnd key g)"
  using assms entity_inv_restartGame [OF assms]
  by (cases key) (auto simp: keyPressed_def entity_inv_def)

lemma entity_inv_processEvents:
  "entity_inv g \<Longrightarrow> entity_inv (processEvents rnd evs g)"
proof (induction rnd evs g rule: processEvents.induct)
  case (1 rnd g)
  then show ?case by simp
next
  case (2 rnd evs g)
  then show ?case by (auto simp: entity_inv_def)
next
  case (3 rnd key evs g)
  then show ?case by (simp add: Let_def entity_inv_keyPressed)
next
  case (4 rnd evs g)
  then show ?case by simp
qed

lemma entity_inv_runStep:
  assumes "entity_inv g" shows "entity_inv (runStep inp g)"
proof -
  let ?g1 = "processEvents (randValue inp) (events inp) g"
  let ?dt = "min (elapsed inp) 0.05"
  let ?g2 = "?g1\<lparr>levelCompleteTimer := levelCompleteTimer ?g1 - ?dt\<rparr>"
  have i1: "entity_inv ?g1" using assms by (rule entity_inv_processEvents)
  have u: "entity_inv (update (keyboard inp) ?dt ?g1)" using i1 by (rule entity_inv_update)
  have i2: "entity_inv ?g2" using i1 by (auto simp: entity_inv_def)
  have a: "entity_inv (advanceLevel ?g2)" using i2 by (rule entity_inv_advanceLevel)
  show ?thesis
    unfolding runStep_def Let_def
    using i1 u i2 a by (cases "state ?g1") (simp_all del: Game.simps)
qed

lemma reachable_entity: "reachable g \<Longrightarrow> entity_inv g"
proof (induction rule: reachable.induct)
  case (init fontLoaded)
  show ?case
    using brickGrid_positive [of _ 1]
    by (cases fontLoaded)
       (auto simp: Game_new_def Let_def resetBallOnPaddle_def createBricks_def entity_inv_def
          Paddle_new_def constants_defs)
next
  case (step g inp)
  then show ?case by (simp add: entity_inv_runStep)
qed

text \<open>
  C7. Every brick in every state a session reaches is destroyed or has at
  least one hit point (the game builds its bricks with at least one). For a
  brick that is destroyed or has at least one hit point, and after any
  number \<open>n\<close> of \<open>hit()\<close> calls: the next call never raises the hit points;
  on a brick not yet destroyed it lowers them by exactly one and sets the
  destroyed flag exactly when they reach zero; once the brick is destroyed,
  any further \<open>m\<close> calls leave it unchanged, drawing it adds nothing to the
  window, and the collision loop passes over it without touching the game.
\<close>

theorem brick_hit_monotone_permanent:
  assumes "destroyed b \<or> 1 \<le> hitPoints b"
  shows "hitPoints ((hit ^^ Suc n) b) \<le> hitPoints ((hit ^^ n) b)
       \<and> (\<not> destroyed ((hit ^^ n) b) \<longrightarrow>
             hitPoints ((hit ^^ Suc n) b) = hitPoints ((hit ^^ n) b) - 1
           \<and> (destroyed ((hit ^^ Suc n) b) \<longleftrightarrow> hitPoints ((hit ^^ Suc n) b) = 0))
       \<and> (destroyed ((hit ^^ n) b) \<longrightarrow>
             (hit ^^ (m + n)) b = (hit ^^ n) b
           \<and> Brick_draw ((hit ^^ (m + n)) b) window = window
           \<and> brickBody ballCenter r ((hit ^^ (m + n)) b) g resolved
               = ((hit ^^ (m + n)) b, g, resolved))
       \<and> (reachable h \<longrightarrow> (\<forall>b'\<in>set (bricks h). destroyed b' \<or> 1 \<le> hitPoints b'))"
proof -
  let ?c = "(hit ^^ n) b"
  have ok: "destroyed ?c \<or> 1 \<le> hitPoints ?c"
    using assms by (rule hit_funpow_positive)
  have one: "hitPoints (hit ?c) \<le> hitPoints ?c \<and>
     (\<not> destroyed ?c \<longrightarrow>
        hitPoints (hit ?c) = hitPoints ?c - 1 \<and> (destroyed (hit ?c) \<longleftrightarrow> hitPoints (hit ?c) = 0))"
    using ok by (rule hit_once)
  have perm: "destroyed ?c \<Longrightarrow> (hit ^^ (m + n)) b = ?c"
    by (simp add: funpow_add hit_funpow_destroyed)
  have reach: "reachable h \<longrightarrow> (\<forall>b'\<in>set (bricks h). destroyed b' \<or> 1 \<le> hitPoints b')"
    using reachable_entity [of h] by (simp add: entity_inv_def)
  show ?thesis using one perm reach
    by (auto simp: Brick_draw_def brickBody_destroyed)
qed

lemma sample_brick_eval:
  "brickAt 1 42 0 0 =
     \<lparr> brick_shape = \<lparr> shape_x = 42, shape_y = 60, shape_w = 68, shape_h = 22,
                       fillColor = \<lparr>col_r = 220, col_g = 45, col_b = 45\<rparr>,
                       outlineThickness = 1.5 \<rparr>,
       baseColor = \<lparr>col_r = 220, col_g = 45, col_b = 45\<rparr>, hitPoints = 2,
       maxHitPoints = 2, points = 120, destroyed = False \<rparr>"
  by (simp add: brickAt_def Brick_new_def updateColor_def tables_defs Let_def constants_defs)

lemma sample_brick_hit2:
  "(hit ^^ 2) (brickAt 1 42 0 0) =
     \<lparr> brick_shape = \<lparr> shape_x = 42, shape_y = 60, shape_w = 68, shape_h = 22,
                       fillColor = \<lparr>col_r = 154, col_g = 31, col_b = 31\<rparr>,
                       outlineThickness = 1.5 \<rparr>,
       baseColor = \<lparr>col_r = 220, col_g = 45, col_b = 45\<rparr>, hitPoints = 0,
       maxHitPoints = 2, points = 120, destroyed = True \<rparr>"
  by (simp add: sample_brick_eval numeral_2_eq_2 hit_def updateColor_def Let_def)

text \<open>
  The level-2 brick of the top row: two hits destroy it (2, 1, 0 hit points),
  and three more change nothing.
\<close>

theorem brick_hit_monotone_permanent_witness:
  "(destroyed (brickAt 1 42 0 0) \<or> 1 \<le> hitPoints (brickAt 1 42 0 0))
   \<and> \<not> destroyed ((hit ^^ 1) (brickAt 1 42 0 0))
   \<and> hitPoints ((hit ^^ Suc 1) (brickAt 1 42 0 0)) = hitPoints ((hit ^^ 1) (brickAt 1 42 0 0)) - 1
   \<and> hitPoints ((hit ^^ Suc 1) (brickAt 1 42 0 0)) = 0
   \<and> destroyed ((hit ^^ Suc 1) (brickAt 1 42 0 0))
   \<and> destroyed ((hit ^^ 2) (brickAt 1 42 0 0))
   \<and> (hit ^^ (3 + 2)) (brickAt 1 42 0 0) = (hit ^^ 2) (brickAt 1 42 0 0)
   \<and> Brick_draw ((hit ^^ (3 + 2)) (brickAt 1 42 0 0)) [] = []"
proof -
  have h: "destroyed (brickAt 1 42 0 0) \<or> 1 \<le> hitPoints (brickAt 1 42 0 0)"
    by (simp add: sample_brick_eval)
  have a: "\<not> destroyed ((hit ^^ 1) (brickAt 1 42 0 0))"
    by (simp add: sample_brick_eval hit_def updateColor_def Let_def)
  have c: "destroyed ((hit ^^ 2) (brickAt 1 42 0 0))"
    by (simp add: sample_brick_hit2)
  show ?thesis
    using h a c
      brick_hit_monotone_permanent [OF h, of 1 0 "[]" undefined undefined undefined undefined
        "Game_new True"]
      brick_hit_monotone_permanent [OF h, of 2 3 "[]" undefined undefined undefined undefined
        "Game_new True"]
    by (simp add: sample_brick_hit2 numeral_2_eq_2 Brick_draw_def)
qed

text \<open>
  C6. After \<open>Paddle::update\<close> the left edge is
  \<open>clamp(old + intent * speed * dt, 0, boundaryWidth - width)\<close>; it is never
  negative, and never beyond \<open>boundaryWidth - width\<close> when the paddle is no
  wider than the boundary. \<open>Game::update\<close> calls it with \<open>WINDOW_WIDTH\<close>, and
  in every state a session reaches the paddle has width \<open>PADDLE_WIDTH\<close> and
  its left edge lies in \<open>[0, WINDOW_WIDTH - PADDLE_WIDTH]\<close>. The intent is \<open>-1\<close>, \<open>0\<close> or \<open>1\<close>; left and right
  held together give intent \<open>0\<close>, as no key does, and then a paddle inside the
  range does not move at all.
\<close>

theorem paddle_update_clamp:
  assumes "paddle_width p \<le> windowWidth"
  shows "shape_x (paddle_shape (Paddle_update k deltaTime windowWidth p))
           = max 0 (min (shape_x (paddle_shape p) + horizontalInput k * paddle_speed p * deltaTime)
                        (windowWidth - paddle_width p))
       \<and> 0 \<le> shape_x (paddle_shape (Paddle_update k deltaTime windowWidth p))
       \<and> shape_x (paddle_shape (Paddle_update k deltaTime windowWidth p))
           \<le> windowWidth - paddle_width p
       \<and> horizontalInput k \<in> {- 1, 0, 1}
       \<and> ((key_Left k \<or> key_A k) \<and> (key_Right k \<or> key_D k) \<longrightarrow>
             horizontalInput k = 0
           \<and> (0 \<le> shape_x (paddle_shape p) \<and> shape_x (paddle_shape p) \<le> windowWidth - paddle_width p
                \<longrightarrow> Paddle_update k deltaTime windowWidth p = p))
       \<and> (\<not> (key_Left k \<or> key_A k) \<and> \<not> (key_Right k \<or> key_D k) \<longrightarrow> horizontalInput k = 0)
       \<and> paddle (update k deltaTime g) = Paddle_update k deltaTime WINDOW_WIDTH (paddle g)
       \<and> (reachable h \<longrightarrow>
             paddle_width (paddle h) = PADDLE_WIDTH
           \<and> 0 \<le> shape_x (paddle_shape (paddle h))
           \<and> shape_x (paddle_shape (paddle h)) \<le> WINDOW_WIDTH - PADDLE_WIDTH)"
proof -
  have reach: "reachable h \<longrightarrow>
             paddle_width (paddle h) = PADDLE_WIDTH
           \<and> 0 \<le> shape_x (paddle_shape (paddle h))
           \<and> shape_x (paddle_shape (paddle h)) \<le> WINDOW_WIDTH - PADDLE_WIDTH"
    using reachable_entity [of h] by (simp add: entity_inv_def)
  show ?thesis
    using assms reach
    by (auto simp: Paddle_update_def Let_def horizontalInput_cases)
qed

text \<open>
  The game's paddle at its start position, both directions held for a
  20th of a second: it stays at 340.
\<close>

theorem paddle_update_clamp_witness:
  "paddle_width (Paddle_new 340 555 120 14 500) \<le> 800
   \<and> (key_Left \<lparr>key_Left = True, key_A = False, key_Right = False, key_D = True\<rparr>
        \<or> key_A \<lparr>key_Left = True, key_A = False, key_Right = False, key_D = True\<rparr>)
   \<and> (key_Right \<lparr>key_Left = True, key_A = False, key_Right = False, key_D = True\<rparr>
        \<or> key_D \<lparr>key_Left = True, key_A = False, key_Right = False, key_D = True\<rparr>)
   \<and> 0 \<le> shape_x (paddle_shape (Paddle_new 340 555 120 14 500))
   \<and> shape_x (paddle_shape (Paddle_new 340 555 120 14 500)) \<le> 800 - paddle_width (Paddle_new 340 555 120 14 500)
   \<and> Paddle_update \<lparr>key_Left = True, key_A = False, key_Right = False, key_D = True\<rparr> 0.05 800
        (Paddle_new 340 555 120 14 500) = Paddle_new 340 555 120 14 500
   \<and> shape_x (paddle_shape (Paddle_update \<lparr>key_Left = True, key_A = False, key_Right = False, key_D = True\<rparr>
        0.05 800 (Paddle_new 340 555 120 14 500))) \<le> 680
   \<and> reachable (Game_new True)
   \<and> shape_x (paddle_shape (paddle (Game_new True))) \<le> WINDOW_WIDTH - PADDLE_WIDTH"
proof -
  have r: "reachable (Game_new True)" by (rule reachable.init)
  have h: "paddle_width (Paddle_new 340 555 120 14 500) \<le> 800"
    by (simp add: Paddle_new_def)
  show ?thesis
    using h r paddle_update_clamp [OF h,
        of "\<lparr>key_Left = True, key_A = False, key_Right = False, key_D = True\<rparr>" "0.05"
          undefined "Game_new True"]
    by (simp add: Paddle_new_def)
qed

subsection \<open>Rescaling to the target speed\<close>

lemma resolveHit_rescales:
  assumes "0.0001 \<le> getSpeed (ball g)" "0 \<le> ballSpeed g"
  shows "getSpeed (ball (resolveHit c r rect g)) = ballSpeed g"
proof -
  let ?g1 = "reflectBall (normalOf rect c) g"
  have s1: "getSpeed (ball ?g1) = getSpeed (ball g)"
    by (rule reflectBall_speed [OF normalOf_unit])
  have bs: "ballSpeed ?g1 = ballSpeed g" by (simp add: reflectBall_def Let_def)
  have "ball (resolveHit c r rect g) = normaliseSpeed (ballSpeed g) (setPosition
      (vec_x c + vec_x (normalOf rect c) * (r - sqrt (distSqTo rect c) + 0.5))
      (vec_y c + vec_y (normalOf rect c) * (r - sqrt (distSqTo rect c) + 0.5)) (ball ?g1))"
    by (simp add: resolveHit_def Let_def bs)
  moreover have "getSpeed (setPosition x y (ball ?g1)) = getSpeed (ball g)" for x y
    using s1 by (simp add: getSpeed_def setPosition_def)
  ultimately show ?thesis
    using assms by (simp add: normaliseSpeed_speed)
qed

lemma find_struck_iff:
  "find P xs = None \<longleftrightarrow> \<not> list_ex P xs"
  by (induction xs) auto

lemma handleBrickCollisions_rescales:
  assumes "0.0001 \<le> getSpeed (ball g)" "0 \<le> ballSpeed g"
    and "list_ex (struck (ball_pos (ball g)) (radius (ball g))) (bricks g)"
  shows "getSpeed (ball (handleBrickCollisions g)) = ballSpeed g"
  using assms(3) resolveHit_rescales [OF assms(1,2)]
  by (simp add: handleBrickCollisions_eq find_struck_iff split: option.splits)

lemma sum_list_zero:
  fixes f :: "'a \<Rightarrow> int"
  shows "\<forall>x\<in>set xs. f x = 0 \<Longrightarrow> sum_list (map f xs) = 0"
  by (induction xs) simp_all

lemma handleBrickCollisions_untouched:
  assumes "\<not> list_ex (struck (ball_pos (ball g)) (radius (ball g))) (bricks g)"
  shows "handleBrickCollisions g = g"
proof -
  have n: "find (struck (ball_pos (ball g)) (radius (ball g))) (bricks g) = None"
    using assms by (simp add: find_struck_iff)
  have a: "\<forall>b\<in>set (bricks g). \<not> struck (ball_pos (ball g)) (radius (ball g)) b"
    using assms by (simp add: list_ex_iff)
  have m: "map (\<lambda>b. if struck (ball_pos (ball g)) (radius (ball g)) b then hit b else b) (bricks g)
      = bricks g"
    using a by (simp add: map_idI)
  have s: "sum_list (map (\<lambda>b. if struck (ball_pos (ball g)) (radius (ball g)) b \<and> destroyed (hit b)
                                then points b else 0) (bricks g)) = 0"
    using a by (intro sum_list_zero) simp
  have f: "filter (\<lambda>b. struck (ball_pos (ball g)) (radius (ball g)) b \<and> destroyed (hit b)) (bricks g) = []"
    using a by (simp add: filter_empty_conv)
  show ?thesis
    by (subst handleBrickCollisions_eq) (simp add: n m s f)
qed

lemma handlePaddleCollision_rescales:
  assumes "vec_y (velocity (ball g)) > 0"
    and "contains (expandedBounds (paddle g) (radius (ball g))) (ball_pos (ball g))"
    and "0.0001 \<le> getSpeed (ball g)" and "0 \<le> ballSpeed g"
  shows "getSpeed (ball (handlePaddleCollision g)) = ballSpeed g"
  using speed_of_polar [OF assms(4)]
  by (simp add: handlePaddleCollision_velocity [OF assms(1,2,3)] getSpeed_def)

lemma handleWallCollisions_signs:
  "moving (ball (handleWallCollisions g)) \<longrightarrow>
     \<bar>vec_x (velocity (ball (handleWallCollisions g)))\<bar> = \<bar>vec_x (velocity (ball g))\<bar>
   \<and> \<bar>vec_y (velocity (ball (handleWallCollisions g)))\<bar> = \<bar>vec_y (velocity (ball g))\<bar>"
  by (simp add: handleWallCollisions_def resetBallOnPaddle_def Let_def reset_def setPosition_def
      setVelocityX_def setVelocityY_def)


lemma tol_facts:
  fixes x t s :: real
  assumes "\<bar>x - s\<bar> \<le> t" "0.0001 + t \<le> s"
  shows "0.0001 \<le> x" "0 \<le> s" "0 \<le> t"
  using assms threshold_pos by linarith+

lemma handlePaddleCollision_tol:
  assumes "\<bar>getSpeed (ball g) - ballSpeed g\<bar> \<le> tol" "0.0001 + tol \<le> ballSpeed g"
  shows "\<bar>getSpeed (ball (handlePaddleCollision g)) - ballSpeed g\<bar> \<le> tol"
proof (cases "vec_y (velocity (ball g)) > 0
    \<and> contains (expandedBounds (paddle g) (radius (ball g))) (ball_pos (ball g))")
  case True
  then have "getSpeed (ball (handlePaddleCollision g)) = ballSpeed g"
    using tol_facts(1,2) [OF assms] by (intro handlePaddleCollision_rescales) simp_all
  then show ?thesis using tol_facts(3) [OF assms] by simp
next
  case False
  then have "handlePaddleCollision g = g" by (intro handlePaddleCollision_miss) auto
  then show ?thesis using assms(1) by simp
qed

lemma handleBrickCollisions_tol:
  assumes "\<bar>getSpeed (ball g) - ballSpeed g\<bar> \<le> tol" "0.0001 + tol \<le> ballSpeed g"
  shows "\<bar>getSpeed (ball (handleBrickCollisions g)) - ballSpeed g\<bar> \<le> tol"
proof (cases "list_ex (struck (ball_pos (ball g)) (radius (ball g))) (bricks g)")
  case True
  then have "getSpeed (ball (handleBrickCollisions g)) = ballSpeed g"
    using tol_facts(1,2) [OF assms] by (intro handleBrickCollisions_rescales) simp_all
  then show ?thesis using tol_facts(3) [OF assms] by simp
next
  case False
  then have "handleBrickCollisions g = g" by (rule handleBrickCollisions_untouched)
  then show ?thesis using assms(1) by simp
qed

lemma update_speed_tol:
  assumes "\<bar>getSpeed (ball g) - ballSpeed g\<bar> \<le> tol" "0.0001 + tol \<le> ballSpeed g"
  shows "moving (ball (update k dt g)) \<longrightarrow> \<bar>getSpeed (ball (update k dt g)) - ballSpeed g\<bar> \<le> tol"
proof (cases "state g = BallOnPaddle")
  case True
  then show ?thesis by (simp add: update_ball reset_def)
next
  case False
  let ?g2 = "g\<lparr>paddle := Paddle_update k dt WINDOW_WIDTH (paddle g), ball := Ball_update dt (ball g)\<rparr>"
  let ?g3 = "handleWallCollisions ?g2"
  let ?g4 = "handlePaddleCollision ?g3"
  have b: "ball (update k dt g) = ball (handleBrickCollisions ?g4)"
    using False by (simp add: update_ball)
  show ?thesis
  proof
    assume m: "moving (ball (update k dt g))"
    then have m3: "moving (ball ?g3)" by (simp add: b)
    then have "getSpeed (ball ?g3) = getSpeed (ball ?g2)"
      using handleWallCollisions_moving_speed [of ?g2] by blast
    then have s3: "\<bar>getSpeed (ball ?g3) - ballSpeed ?g3\<bar> \<le> tol" using assms(1) by simp
    have t3: "0.0001 + tol \<le> ballSpeed ?g3" using assms(2) by simp
    have s4: "\<bar>getSpeed (ball ?g4) - ballSpeed ?g4\<bar> \<le> tol"
      using handlePaddleCollision_tol [OF s3 t3] by simp
    have t4: "0.0001 + tol \<le> ballSpeed ?g4" using assms(2) by simp
    have "\<bar>getSpeed (ball (handleBrickCollisions ?g4)) - ballSpeed ?g4\<bar> \<le> tol"
      by (rule handleBrickCollisions_tol [OF s4 t4])
    then show "\<bar>getSpeed (ball (update k dt g)) - ballSpeed g\<bar> \<le> tol" by (simp add: b)
  qed
qed

lemma sqrt_90000: "sqrt 90000 = 300"
  by (rule real_sqrt_unique) simp_all

lemma sqrt_drift: "sqrt (192.0006 * 192.0006 + 256.0008 * 256.0008) = 320.001"
  by (rule real_sqrt_unique) (simp_all add: power2_eq_square)

lemma frameWith_bricks: "bricks (frameWith pos vel) = [brickAt 0 42 0 0, brickAt 0 42 0 (Suc 0)]"
  by (simp add: frameWith_def pairGame_def)

lemma frameWith_slow:
  "getSpeed (ball (frameWith pos \<lparr>vec_x = 180, vec_y = 240\<rparr>)) = 300"
  "getSpeed (ball (frameWith pos \<lparr>vec_x = 180, vec_y = - 240\<rparr>)) = 300"
  "getSpeed (ball (frameWith pos \<lparr>vec_x = - 180, vec_y = 240\<rparr>)) = 300"
  by (simp_all add: frameWith_fields getSpeed_def sqrt_90000)

lemma frameWith_drift:
  "getSpeed (ball (frameWith pos \<lparr>vec_x = 192.0006, vec_y = 256.0008\<rparr>)) = 320.001"
  using sqrt_drift by (simp add: frameWith_fields getSpeed_def)

text \<open>
  C1. \<open>handleWallCollisions\<close> preserves the magnitude of the velocity of a
  ball still in motion: it changes at most the sign of a component (a call
  that takes a life puts the ball to rest instead). \<open>normaliseSpeed\<close>
  turns any velocity of magnitude at least its threshold 0.0001 into one of
  the target magnitude. With a ball at least that fast and \<open>ballSpeed\<close> not
  negative, whatever the speed before the call: a paddle hit by
  \<open>handlePaddleCollision\<close> and a brick hit by \<open>handleBrickCollisions\<close>
  leave the ball with speed exactly \<open>ballSpeed\<close>; a call without a hit
  leaves the game as it is. Hence a speed within a tolerance \<open>tol\<close> of
  \<open>ballSpeed\<close> before a call is within \<open>tol\<close> of it after each of the
  three calls and after a whole \<open>update\<close>, and a speed equal to
  \<open>ballSpeed\<close> is equal to it afterwards. None of the calls changes
  \<open>ballSpeed\<close>. In every state a session reaches, a ball in motion has
  speed \<open>ballSpeed\<close>, and \<open>ballSpeed\<close> lies between
  \<open>BALL_INITIAL_SPEED\<close> and \<open>BALL_MAX_SPEED\<close>. (Exact arithmetic:
  rounding in the float operations is not part of the model.)
\<close>

theorem speed_invariance:
  "(moving (ball (handleWallCollisions g)) \<longrightarrow>
        getSpeed (ball (handleWallCollisions g)) = getSpeed (ball g)
      \<and> \<bar>vec_x (velocity (ball (handleWallCollisions g)))\<bar> = \<bar>vec_x (velocity (ball g))\<bar>
      \<and> \<bar>vec_y (velocity (ball (handleWallCollisions g)))\<bar> = \<bar>vec_y (velocity (ball g))\<bar>)
   \<and> (0.0001 \<le> getSpeed b \<and> 0 \<le> s \<longrightarrow> getSpeed (normaliseSpeed s b) = s)
   \<and> (0.0001 \<le> getSpeed (ball g) \<and> 0 \<le> ballSpeed g \<longrightarrow>
        (vec_y (velocity (ball g)) > 0
           \<and> contains (expandedBounds (paddle g) (radius (ball g))) (ball_pos (ball g)) \<longrightarrow>
             getSpeed (ball (handlePaddleCollision g)) = ballSpeed g)
      \<and> (list_ex (struck (ball_pos (ball g)) (radius (ball g))) (bricks g) \<longrightarrow>
             getSpeed (ball (handleBrickCollisions g)) = ballSpeed g))
   \<and> (\<not> (vec_y (velocity (ball g)) > 0
           \<and> contains (expandedBounds (paddle g) (radius (ball g))) (ball_pos (ball g))) \<longrightarrow>
        handlePaddleCollision g = g)
   \<and> (\<not> list_ex (struck (ball_pos (ball g)) (radius (ball g))) (bricks g) \<longrightarrow>
        handleBrickCollisions g = g)
   \<and> (\<bar>getSpeed (ball g) - ballSpeed g\<bar> \<le> tol \<and> 0.0001 + tol \<le> ballSpeed g \<longrightarrow>
        (moving (ball (handleWallCollisions g)) \<longrightarrow>
           \<bar>getSpeed (ball (handleWallCollisions g)) - ballSpeed g\<bar> \<le> tol)
      \<and> \<bar>getSpeed (ball (handlePaddleCollision g)) - ballSpeed g\<bar> \<le> tol
      \<and> \<bar>getSpeed (ball (handleBrickCollisions g)) - ballSpeed g\<bar> \<le> tol
      \<and> (moving (ball (update k dt g)) \<longrightarrow>
           \<bar>getSpeed (ball (update k dt g)) - ballSpeed g\<bar> \<le> tol))
   \<and> (getSpeed (ball g) = ballSpeed g \<and> 0.0001 \<le> ballSpeed g \<longrightarrow>
        (moving (ball (handleWallCollisions g)) \<longrightarrow>
           getSpeed (ball (handleWallCollisions g)) = ballSpeed g)
      \<and> getSpeed (ball (handlePaddleCollision g)) = ballSpeed g
      \<and> getSpeed (ball (handleBrickCollisions g)) = ballSpeed g
      \<and> (moving (ball (update k dt g)) \<longrightarrow> getSpeed (ball (update k dt g)) = ballSpeed g))
   \<and> ballSpeed (handleWallCollisions g) = ballSpeed g
   \<and> ballSpeed (handlePaddleCollision g) = ballSpeed g
   \<and> ballSpeed (handleBrickCollisions g) = ballSpeed g
   \<and> ballSpeed (update k dt g) = ballSpeed g
   \<and> (reachable h \<longrightarrow>
        (moving (ball h) \<longrightarrow> getSpeed (ball h) = ballSpeed h)
      \<and> BALL_INITIAL_SPEED \<le> ballSpeed h \<and> ballSpeed h \<le> BALL_MAX_SPEED)"
proof -
  have w: "moving (ball (handleWallCollisions g)) \<longrightarrow>
        getSpeed (ball (handleWallCollisions g)) = getSpeed (ball g)
      \<and> \<bar>vec_x (velocity (ball (handleWallCollisions g)))\<bar> = \<bar>vec_x (velocity (ball g))\<bar>
      \<and> \<bar>vec_y (velocity (ball (handleWallCollisions g)))\<bar> = \<bar>vec_y (velocity (ball g))\<bar>"
    using handleWallCollisions_moving_speed [of g] handleWallCollisions_signs [of g] by blast
  have n: "0.0001 \<le> getSpeed b \<and> 0 \<le> s \<longrightarrow> getSpeed (normaliseSpeed s b) = s"
    using normaliseSpeed_speed [of b s] by blast
  have p: "getSpeed (ball (handlePaddleCollision g)) = ballSpeed g"
    if "0.0001 \<le> getSpeed (ball g)" "0 \<le> ballSpeed g" "vec_y (velocity (ball g)) > 0"
      "contains (expandedBounds (paddle g) (radius (ball g))) (ball_pos (ball g))"
    using that by (intro handlePaddleCollision_rescales)
  have q: "getSpeed (ball (handleBrickCollisions g)) = ballSpeed g"
    if "0.0001 \<le> getSpeed (ball g)" "0 \<le> ballSpeed g"
      "list_ex (struck (ball_pos (ball g)) (radius (ball g))) (bricks g)"
    using that by (intro handleBrickCollisions_rescales)
  have pm: "\<not> (vec_y (velocity (ball g)) > 0
           \<and> contains (expandedBounds (paddle g) (radius (ball g))) (ball_pos (ball g))) \<longrightarrow>
        handlePaddleCollision g = g"
    using handlePaddleCollision_miss [of g] by auto
  have qm: "\<not> list_ex (struck (ball_pos (ball g)) (radius (ball g))) (bricks g) \<longrightarrow>
        handleBrickCollisions g = g"
    using handleBrickCollisions_untouched [of g] by blast
  have t: "(moving (ball (handleWallCollisions g)) \<longrightarrow>
           \<bar>getSpeed (ball (handleWallCollisions g)) - ballSpeed g\<bar> \<le> tol)
      \<and> \<bar>getSpeed (ball (handlePaddleCollision g)) - ballSpeed g\<bar> \<le> tol
      \<and> \<bar>getSpeed (ball (handleBrickCollisions g)) - ballSpeed g\<bar> \<le> tol
      \<and> (moving (ball (update k dt g)) \<longrightarrow>
           \<bar>getSpeed (ball (update k dt g)) - ballSpeed g\<bar> \<le> tol)"
    if a: "\<bar>getSpeed (ball g) - ballSpeed g\<bar> \<le> tol" "0.0001 + tol \<le> ballSpeed g"
    using a(1) handleWallCollisions_moving_speed [of g] handlePaddleCollision_tol [OF a]
      handleBrickCollisions_tol [OF a] update_speed_tol [OF a, of k dt]
    by simp
  have e: "(moving (ball (handleWallCollisions g)) \<longrightarrow>
           getSpeed (ball (handleWallCollisions g)) = ballSpeed g)
      \<and> getSpeed (ball (handlePaddleCollision g)) = ballSpeed g
      \<and> getSpeed (ball (handleBrickCollisions g)) = ballSpeed g
      \<and> (moving (ball (update k dt g)) \<longrightarrow> getSpeed (ball (update k dt g)) = ballSpeed g)"
    if a: "getSpeed (ball g) = ballSpeed g" "0.0001 \<le> ballSpeed g"
    using a(1) handleWallCollisions_moving_speed [of g] handlePaddleCollision_speed [OF a]
      handleBrickCollisions_speed [OF a] update_speed [OF a, of k dt]
    by simp
  have c: "ballSpeed (handleWallCollisions g) = ballSpeed g
      \<and> ballSpeed (handlePaddleCollision g) = ballSpeed g
      \<and> ballSpeed (handleBrickCollisions g) = ballSpeed g
      \<and> ballSpeed (update k dt g) = ballSpeed g"
    by simp
  have r: "reachable h \<longrightarrow>
            (moving (ball h) \<longrightarrow> getSpeed (ball h) = ballSpeed h)
          \<and> BALL_INITIAL_SPEED \<le> ballSpeed h \<and> ballSpeed h \<le> BALL_MAX_SPEED"
    using reachable_speed [of h] by (auto simp: speed_inv_def)
  show ?thesis using w n p q pm qm t e c r by blast
qed

text \<open>
  A ball of speed 300 at target speed 320: a paddle hit and a brick hit each
  bring it to 320, as \<open>normaliseSpeed\<close> alone does; the left wall turns
  it round and leaves it at 300. A ball of speed 320.001 is within 0.001 of
  the target after the paddle and the brick call. In the sample frame
  (velocity (192, -256), magnitude 320) the speed is 320 after each of the
  three calls and after the whole update.
\<close>

theorem speed_invariance_witness:
  "getSpeed (ball (frameWith \<lparr>vec_x = 400, vec_y = 550\<rparr> \<lparr>vec_x = 180, vec_y = 240\<rparr>)) = 300
   \<and> ballSpeed (frameWith \<lparr>vec_x = 400, vec_y = 550\<rparr> \<lparr>vec_x = 180, vec_y = 240\<rparr>) = 320
   \<and> vec_y (velocity (ball (frameWith \<lparr>vec_x = 400, vec_y = 550\<rparr> \<lparr>vec_x = 180, vec_y = 240\<rparr>))) > 0
   \<and> contains (expandedBounds (paddle (frameWith \<lparr>vec_x = 400, vec_y = 550\<rparr> \<lparr>vec_x = 180, vec_y = 240\<rparr>))
                  (radius (ball (frameWith \<lparr>vec_x = 400, vec_y = 550\<rparr> \<lparr>vec_x = 180, vec_y = 240\<rparr>))))
               (ball_pos (ball (frameWith \<lparr>vec_x = 400, vec_y = 550\<rparr> \<lparr>vec_x = 180, vec_y = 240\<rparr>)))
   \<and> getSpeed (ball (handlePaddleCollision
         (frameWith \<lparr>vec_x = 400, vec_y = 550\<rparr> \<lparr>vec_x = 180, vec_y = 240\<rparr>))) = 320
   \<and> getSpeed (normaliseSpeed 320
         (ball (frameWith \<lparr>vec_x = 400, vec_y = 550\<rparr> \<lparr>vec_x = 180, vec_y = 240\<rparr>))) = 320
   \<and> handleBrickCollisions (frameWith \<lparr>vec_x = 400, vec_y = 550\<rparr> \<lparr>vec_x = 180, vec_y = 240\<rparr>)
       = frameWith \<lparr>vec_x = 400, vec_y = 550\<rparr> \<lparr>vec_x = 180, vec_y = 240\<rparr>
   \<and> getSpeed (ball (frameWith \<lparr>vec_x = 110, vec_y = 90\<rparr> \<lparr>vec_x = 180, vec_y = - 240\<rparr>)) = 300
   \<and> list_ex (struck (ball_pos (ball (frameWith \<lparr>vec_x = 110, vec_y = 90\<rparr> \<lparr>vec_x = 180, vec_y = - 240\<rparr>)))
                      (radius (ball (frameWith \<lparr>vec_x = 110, vec_y = 90\<rparr> \<lparr>vec_x = 180, vec_y = - 240\<rparr>))))
              (bricks (frameWith \<lparr>vec_x = 110, vec_y = 90\<rparr> \<lparr>vec_x = 180, vec_y = - 240\<rparr>))
   \<and> getSpeed (ball (handleBrickCollisions
         (frameWith \<lparr>vec_x = 110, vec_y = 90\<rparr> \<lparr>vec_x = 180, vec_y = - 240\<rparr>))) = 320
   \<and> handlePaddleCollision (frameWith \<lparr>vec_x = 110, vec_y = 90\<rparr> \<lparr>vec_x = 180, vec_y = - 240\<rparr>)
       = frameWith \<lparr>vec_x = 110, vec_y = 90\<rparr> \<lparr>vec_x = 180, vec_y = - 240\<rparr>
   \<and> moving (ball (handleWallCollisions
         (frameWith \<lparr>vec_x = 5, vec_y = 300\<rparr> \<lparr>vec_x = - 180, vec_y = 240\<rparr>)))
   \<and> getSpeed (ball (handleWallCollisions
         (frameWith \<lparr>vec_x = 5, vec_y = 300\<rparr> \<lparr>vec_x = - 180, vec_y = 240\<rparr>))) = 300
   \<and> \<bar>vec_x (velocity (ball (handleWallCollisions
         (frameWith \<lparr>vec_x = 5, vec_y = 300\<rparr> \<lparr>vec_x = - 180, vec_y = 240\<rparr>))))\<bar> = 180
   \<and> \<bar>getSpeed (ball (frameWith \<lparr>vec_x = 400, vec_y = 550\<rparr> \<lparr>vec_x = 192.0006, vec_y = 256.0008\<rparr>))
        - ballSpeed (frameWith \<lparr>vec_x = 400, vec_y = 550\<rparr> \<lparr>vec_x = 192.0006, vec_y = 256.0008\<rparr>)\<bar>
       \<le> 1 / 1000
   \<and> \<bar>getSpeed (ball (handleBrickCollisions
          (frameWith \<lparr>vec_x = 400, vec_y = 550\<rparr> \<lparr>vec_x = 192.0006, vec_y = 256.0008\<rparr>))) - 320\<bar>
       \<le> 1 / 1000
   \<and> \<bar>getSpeed (ball (handlePaddleCollision
          (frameWith \<lparr>vec_x = 400, vec_y = 550\<rparr> \<lparr>vec_x = 192.0006, vec_y = 256.0008\<rparr>))) - 320\<bar>
       \<le> 1 / 1000
   \<and> getSpeed (ball pairGame) = ballSpeed pairGame \<and> 0.0001 \<le> ballSpeed pairGame
   \<and> moving (ball (handleWallCollisions pairGame))
   \<and> getSpeed (ball (handleWallCollisions pairGame)) = 320
   \<and> getSpeed (ball (handlePaddleCollision pairGame)) = 320
   \<and> getSpeed (ball (handleBrickCollisions pairGame)) = 320
   \<and> moving (ball (update noKeys (1 / 100) pairGame))
   \<and> getSpeed (ball (update noKeys (1 / 100) pairGame)) = 320
   \<and> reachable (Game_new True)
   \<and> BALL_INITIAL_SPEED \<le> ballSpeed (Game_new True)"
proof -
  let ?P = "frameWith \<lparr>vec_x = 400, vec_y = 550\<rparr> \<lparr>vec_x = 180, vec_y = 240\<rparr>"
  let ?B = "frameWith \<lparr>vec_x = 110, vec_y = 90\<rparr> \<lparr>vec_x = 180, vec_y = - 240\<rparr>"
  let ?W = "frameWith \<lparr>vec_x = 5, vec_y = 300\<rparr> \<lparr>vec_x = - 180, vec_y = 240\<rparr>"
  let ?D = "frameWith \<lparr>vec_x = 400, vec_y = 550\<rparr> \<lparr>vec_x = 192.0006, vec_y = 256.0008\<rparr>"
  have P1: "getSpeed (ball ?P) = 300" by (rule frameWith_slow)
  have P2: "ballSpeed ?P = 320" by (rule frameWith_ballSpeed)
  have P3: "vec_y (velocity (ball ?P)) > 0" by (simp add: frameWith_fields)
  have P4: "contains (expandedBounds (paddle ?P) (radius (ball ?P))) (ball_pos (ball ?P))"
    by (simp add: frameWith_fields sample_expandedBounds contains_def)
  have P5: "0.0001 \<le> getSpeed (ball ?P) \<and> 0 \<le> ballSpeed ?P" unfolding P1 P2 by simp
  have P6: "\<not> list_ex (struck (ball_pos (ball ?P)) (radius (ball ?P))) (bricks ?P)"
    by (simp add: frameWith_bricks frameWith_fields pair_brick0 pair_brick1 struck_def
        isDestroyed_def intersects_def distSqTo_def closest_def Brick_getBounds_def
        getGlobalBounds_def Let_def)
  have B1: "getSpeed (ball ?B) = 300" by (rule frameWith_slow)
  have B2: "ballSpeed ?B = 320" by (rule frameWith_ballSpeed)
  have B3: "list_ex (struck (ball_pos (ball ?B)) (radius (ball ?B))) (bricks ?B)"
    by (simp add: frameWith_bricks frameWith_fields pair_brick0 struck_def
        isDestroyed_def intersects_def distSqTo_def closest_def Brick_getBounds_def
        getGlobalBounds_def Let_def)
  have B4: "\<not> vec_y (velocity (ball ?B)) > 0" by (simp add: frameWith_fields)
  have B5: "0.0001 \<le> getSpeed (ball ?B) \<and> 0 \<le> ballSpeed ?B" unfolding B1 B2 by simp
  have W0: "\<not> (vec_y (ball_pos (ball ?W)) - radius (ball ?W) > WINDOW_HEIGHT \<and> lives ?W > 1)"
    by (simp add: frameWith_fields WINDOW_HEIGHT_def)
  have W1: "moving (ball (handleWallCollisions ?W))"
    using handleWallCollisions_speed [of ?W] W0 by (simp add: frameWith_fields)
  have W2: "getSpeed (ball ?W) = 300" by (rule frameWith_slow)
  have W3: "\<bar>vec_x (velocity (ball ?W))\<bar> = 180" by (simp add: frameWith_fields)
  have D1: "\<bar>getSpeed (ball ?D) - ballSpeed ?D\<bar> \<le> 1 / 1000"
    unfolding frameWith_drift frameWith_ballSpeed by simp
  have D2: "0.0001 + 1 / 1000 \<le> ballSpeed ?D" unfolding frameWith_ballSpeed by simp
  have a: "getSpeed (ball pairGame) = ballSpeed pairGame"
    by (simp add: pairGame_speed pairGame_fields)
  have b: "0.0001 \<le> ballSpeed pairGame" by (simp add: pairGame_fields)
  have c: "moving (ball (handleWallCollisions pairGame))"
    by (simp add: pairGame_walls pairGame_ball)
  have d: "moving (ball (update noKeys (1 / 100) pairGame))"
    by (simp add: pairGame_update movedPair_def pairGame_ball Ball_update_def)
  have e: "reachable (Game_new True)" by (rule reachable.init)
  note tP = speed_invariance [of ?P "ball ?P" 320 0 noKeys 0 "Game_new True"]
  note tB = speed_invariance [of ?B "ball ?B" 320 0 noKeys 0 "Game_new True"]
  note tW = speed_invariance [of ?W "ball ?W" 320 0 noKeys 0 "Game_new True"]
  note tD = speed_invariance [of ?D "ball ?D" 320 "1 / 1000" noKeys 0 "Game_new True"]
  note tG = speed_invariance [of pairGame "ball pairGame" 320 0 noKeys "1 / 100" "Game_new True"]
  have rP: "getSpeed (ball (handlePaddleCollision ?P)) = ballSpeed ?P"
    using tP P3 P4 P5 by blast
  have rN: "getSpeed (normaliseSpeed 320 (ball ?P)) = 320"
    using tP P5 by simp
  have rP2: "handleBrickCollisions ?P = ?P" using tP P6 by blast
  have rB: "getSpeed (ball (handleBrickCollisions ?B)) = ballSpeed ?B"
    using tB B3 B5 by blast
  have rB2: "handlePaddleCollision ?B = ?B" using tB B4 by blast
  have rW: "getSpeed (ball (handleWallCollisions ?W)) = getSpeed (ball ?W)
      \<and> \<bar>vec_x (velocity (ball (handleWallCollisions ?W)))\<bar> = \<bar>vec_x (velocity (ball ?W))\<bar>"
    using tW W1 by blast
  have rD: "\<bar>getSpeed (ball (handleBrickCollisions ?D)) - ballSpeed ?D\<bar> \<le> 1 / 1000
      \<and> \<bar>getSpeed (ball (handlePaddleCollision ?D)) - ballSpeed ?D\<bar> \<le> 1 / 1000"
    using tD D1 D2 by blast
  have rG: "getSpeed (ball (handleWallCollisions pairGame)) = ballSpeed pairGame
      \<and> getSpeed (ball (handlePaddleCollision pairGame)) = ballSpeed pairGame
      \<and> getSpeed (ball (handleBrickCollisions pairGame)) = ballSpeed pairGame
      \<and> getSpeed (ball (update noKeys (1 / 100) pairGame)) = ballSpeed pairGame"
    using tG a b c d by blast
  have rR: "BALL_INITIAL_SPEED \<le> ballSpeed (Game_new True)" using tG e by blast
  have g320: "ballSpeed pairGame = 320" by (simp add: pairGame_fields)
  have dD: "ballSpeed ?D = 320" by (rule frameWith_ballSpeed)
  show ?thesis
    unfolding P1
    using P1 P2 P3 P4 rP [unfolded P2] rN rP2 B1 B3 rB [unfolded B2] rB2 W1
      rW [unfolded W2 W3] D1 rD [unfolded dD] a b c d e rG [unfolded g320] rR
    by blast
qed

subsection \<open>Score of a collision pass\<close>

lemma sum_list_if_filter:
  fixes f :: "'a \<Rightarrow> int"
  shows "sum_list (map (\<lambda>x. if P x then f x else 0) xs) = sum_list (map f (filter P xs))"
  by (induction xs) simp_all

lemma handleBrickCollisions_score:
  "score (handleBrickCollisions g) =
     score g + sum_list (map points
       (filter (\<lambda>b. struck (ball_pos (ball g)) (radius (ball g)) b \<and> destroyed (hit b)) (bricks g)))"
  by (simp add: handleBrickCollisions_eq sum_list_if_filter)

lemma handleBrickCollisions_banks:
  "score (handleBrickCollisions g) - destroyedPoints (bricks (handleBrickCollisions g))
     = score g - destroyedPoints (bricks g)"
  by (simp add: handleBrickCollisions_eq strike_destroyedPoints)

lemma update_score:
  "score (update k dt g) =
     (if state g = BallOnPaddle then score g
      else score (handleBrickCollisions (handlePaddleCollision (handleWallCollisions
             (g\<lparr>paddle := Paddle_update k dt WINDOW_WIDTH (paddle g),
                ball := Ball_update dt (ball g)\<rparr>)))))"
  by (simp add: update_def Let_def)

lemma update_score_points:
  assumes "state g \<noteq> BallOnPaddle"
    and "g4 = handlePaddleCollision (handleWallCollisions
             (g\<lparr>paddle := Paddle_update k dt WINDOW_WIDTH (paddle g),
                ball := Ball_update dt (ball g)\<rparr>))"
  shows "score (update k dt g) =
     score g + sum_list (map points
       (filter (\<lambda>b. struck (ball_pos (ball g4)) (radius (ball g4)) b \<and> destroyed (hit b)) (bricks g)))"
proof -
  have s: "score g4 = score g" and b: "bricks g4 = bricks g"
    unfolding assms(2) by simp_all
  have "score (update k dt g) = score (handleBrickCollisions g4)"
    using assms(1) unfolding assms(2) by (simp add: update_score)
  then show ?thesis by (simp add: handleBrickCollisions_score s b)
qed

text \<open>
  C8. The brick \<open>createBricks\<close> builds at a row has as point value the
  row base value times its maximal hit points, which are the hit points it
  starts with. A loop iteration that destroys a brick adds exactly the point
  value of that brick to the score. One call of \<open>handleBrickCollisions\<close>
  adds to the score exactly the point values of the bricks it destroys (those
  it strikes whose \<open>hit()\<close> is destroyed), so the score minus the point
  values of the destroyed bricks in storage is the same before and after;
  \<open>handleWallCollisions\<close> and \<open>handlePaddleCollision\<close> leave the score
  alone; and a whole \<open>update\<close> adds the point values of the bricks its
  collision pass destroys, and nothing in the state \<open>BallOnPaddle\<close>. In
  every state a session reaches, the score is the total of the levels cleared
  before plus the point values of the bricks destroyed in the current grid,
  whose point values and maximal hit points are those of the grid of the
  level, row by row; so the score gained in a level is 0 while no brick is
  destroyed and is the sum over the whole grid of row base value times maximal
  hit points once every brick is destroyed.
\<close>

theorem score_is_sum_of_brick_values:
  "points (brickAt e gx row col) = ROW_POINTS ! row * maxHitPoints (brickAt e gx row col)
   \<and> maxHitPoints (brickAt e gx row col) = hitPoints (brickAt e gx row col)
   \<and> (struck c r brick \<and> destroyed (hit brick) \<longrightarrow>
         score (fst (snd (brickBody c r brick h resolved))) = score h + points brick)
   \<and> (reachable g \<longrightarrow>
         score g = sum_list (map levelTotal [1..level g - 1]) + destroyedPoints (bricks g)
       \<and> (bricks g \<noteq> [] \<longrightarrow>
             map points (bricks g) = gridPoints (level g)
           \<and> map maxHitPoints (bricks g) = gridHitPoints (level g)
           \<and> ((\<forall>b\<in>set (bricks g). \<not> destroyed b) \<longrightarrow>
                 score g = sum_list (map levelTotal [1..level g - 1]))
           \<and> ((\<forall>b\<in>set (bricks g). destroyed b) \<longrightarrow>
                 score g = sum_list (map levelTotal [1..level g - 1]) + levelTotal (level g))))
   \<and> score (handleBrickCollisions f) =
       score f + sum_list (map points
         (filter (\<lambda>b. struck (ball_pos (ball f)) (radius (ball f)) b \<and> destroyed (hit b)) (bricks f)))
   \<and> score (handleBrickCollisions f) - destroyedPoints (bricks (handleBrickCollisions f))
       = score f - destroyedPoints (bricks f)
   \<and> score (handleWallCollisions f) = score f
   \<and> score (handlePaddleCollision f) = score f
   \<and> (state f = BallOnPaddle \<longrightarrow> score (update k dt f) = score f)
   \<and> (state f \<noteq> BallOnPaddle \<longrightarrow>
        score (update k dt f) =
          score f + sum_list (map points
            (filter (\<lambda>b. struck
                 (ball_pos (ball (handlePaddleCollision (handleWallCollisions
                    (f\<lparr>paddle := Paddle_update k dt WINDOW_WIDTH (paddle f),
                       ball := Ball_update dt (ball f)\<rparr>)))))
                 (radius (ball (handlePaddleCollision (handleWallCollisions
                    (f\<lparr>paddle := Paddle_update k dt WINDOW_WIDTH (paddle f),
                       ball := Ball_update dt (ball f)\<rparr>))))) b
               \<and> destroyed (hit b)) (bricks f))))"
proof -
  have a: "points (brickAt e gx row col) = ROW_POINTS ! row * maxHitPoints (brickAt e gx row col)
     \<and> maxHitPoints (brickAt e gx row col) = hitPoints (brickAt e gx row col)"
    by (simp add: brickAt_fresh)
  have b: "struck c r brick \<and> destroyed (hit brick) \<longrightarrow>
      score (fst (snd (brickBody c r brick h resolved))) = score h + points brick"
    by (simp add: brickBody_eq)
  have s: "score g = sum_list (map levelTotal [1..level g - 1]) + destroyedPoints (bricks g)"
    if "reachable g"
    using reachable_inv [OF that] Game_new_False
    by (auto simp: session_inv_def destroyedPoints_def)
  have i: "session_inv g" if "reachable g" "bricks g \<noteq> []"
    using reachable_inv [OF that(1)] that(2) Game_new_False by auto
  have m: "map points (bricks g) = gridPoints (level g)
      \<and> map maxHitPoints (bricks g) = gridHitPoints (level g)"
    if "reachable g" "bricks g \<noteq> []"
    using i [OF that] by (simp add: session_inv_def)
  have n: "score g = sum_list (map levelTotal [1..level g - 1])"
    if "reachable g" "\<forall>b\<in>set (bricks g). \<not> destroyed b"
    using s [OF that(1)] destroyedPoints_none [OF that(2)] by simp
  have d: "score g = sum_list (map levelTotal [1..level g - 1]) + levelTotal (level g)"
    if "reachable g" "bricks g \<noteq> []" "\<forall>b\<in>set (bricks g). destroyed b"
    using s [OF that(1)] m [OF that(1,2)] destroyedPoints_all [OF that(3)]
    by (simp add: levelTotal_def)
  have old: "points (brickAt e gx row col) = ROW_POINTS ! row * maxHitPoints (brickAt e gx row col)
   \<and> maxHitPoints (brickAt e gx row col) = hitPoints (brickAt e gx row col)
   \<and> (struck c r brick \<and> destroyed (hit brick) \<longrightarrow>
         score (fst (snd (brickBody c r brick h resolved))) = score h + points brick)
   \<and> (reachable g \<longrightarrow>
         score g = sum_list (map levelTotal [1..level g - 1]) + destroyedPoints (bricks g)
       \<and> (bricks g \<noteq> [] \<longrightarrow>
             map points (bricks g) = gridPoints (level g)
           \<and> map maxHitPoints (bricks g) = gridHitPoints (level g)
           \<and> ((\<forall>b\<in>set (bricks g). \<not> destroyed b) \<longrightarrow>
                 score g = sum_list (map levelTotal [1..level g - 1]))
           \<and> ((\<forall>b\<in>set (bricks g). destroyed b) \<longrightarrow>
                 score g = sum_list (map levelTotal [1..level g - 1]) + levelTotal (level g))))"
    using a b s m n d by blast
  have u0: "state f = BallOnPaddle \<longrightarrow> score (update k dt f) = score f"
    by (simp add: update_score)
  have u1: "state f \<noteq> BallOnPaddle \<longrightarrow>
        score (update k dt f) =
          score f + sum_list (map points
            (filter (\<lambda>b. struck
                 (ball_pos (ball (handlePaddleCollision (handleWallCollisions
                    (f\<lparr>paddle := Paddle_update k dt WINDOW_WIDTH (paddle f),
                       ball := Ball_update dt (ball f)\<rparr>)))))
                 (radius (ball (handlePaddleCollision (handleWallCollisions
                    (f\<lparr>paddle := Paddle_update k dt WINDOW_WIDTH (paddle f),
                       ball := Ball_update dt (ball f)\<rparr>))))) b
               \<and> destroyed (hit b)) (bricks f)))"
    using update_score_points [OF _ refl, of f k dt] by blast
  have w: "score (handleWallCollisions f) = score f \<and> score (handlePaddleCollision f) = score f"
    by simp
  show ?thesis
    using old handleBrickCollisions_score [of f] handleBrickCollisions_banks [of f] u0 u1 w
    by blast
qed

text \<open>
  The constructed game is at level 1 with a full grid and score 0. In the
  sample frame the loop iteration on the first brick destroys it and raises
  the score from 0 to 60, its row base value times its one hit point; the
  whole collision pass destroys both bricks and raises the score from 0 to
  120, the point values of the destroyed bricks in storage; and so does the
  whole update of that frame.
\<close>

theorem score_is_sum_of_brick_values_witness:
  "reachable (Game_new True) \<and> bricks (Game_new True) \<noteq> []
   \<and> list_all (\<lambda>b. \<not> destroyed b) (bricks (Game_new True))
   \<and> score (Game_new True) = sum_list (map levelTotal [1..level (Game_new True) - 1])
   \<and> struck (ball_pos (ball pairGame)) (radius (ball pairGame)) (brickAt 0 42 0 0)
   \<and> destroyed (hit (brickAt 0 42 0 0))
   \<and> score (fst (snd (brickBody (ball_pos (ball pairGame)) (radius (ball pairGame))
                                  (brickAt 0 42 0 0) pairGame False))) = 0 + 60
   \<and> points (brickAt 0 42 0 0) = ROW_POINTS ! 0 * maxHitPoints (brickAt 0 42 0 0)
   \<and> score pairGame = 0
   \<and> filter (\<lambda>b. struck (ball_pos (ball pairGame)) (radius (ball pairGame)) b \<and> destroyed (hit b))
        (bricks pairGame) = [brickAt 0 42 0 0, brickAt 0 42 0 (Suc 0)]
   \<and> score (handleBrickCollisions pairGame) = 120
   \<and> list_all destroyed (bricks (handleBrickCollisions pairGame))
   \<and> destroyedPoints (bricks (handleBrickCollisions pairGame)) = 120
   \<and> state pairGame = Playing
   \<and> score (update noKeys (1 / 100) pairGame) = 120"
proof -
  have a: "reachable (Game_new True)" by (rule reachable.init)
  have b: "bricks (Game_new True) \<noteq> []"
    by (simp add: Game_new_True_fields brickGrid_nonempty)
  have c: "\<forall>b\<in>set (bricks (Game_new True)). \<not> destroyed b"
    by (simp add: Game_new_True_fields brickGrid_positive)
  have f: "filter (\<lambda>b. struck (ball_pos (ball pairGame)) (radius (ball pairGame)) b \<and> destroyed (hit b))
        (bricks pairGame) = [brickAt 0 42 0 0, brickAt 0 42 0 (Suc 0)]"
    using pair_struck0 pair_struck1 pair_hit0 pair_hit1 by (simp add: pairGame_fields)
  have s: "state pairGame = Playing" "state pairGame \<noteq> BallOnPaddle" by (simp_all add: pairGame_def)
  have d0: "destroyedPoints (bricks pairGame) = 0"
    by (simp add: pairGame_fields destroyedPoints_def pair_brick0 pair_brick1)
  have l: "list_all destroyed (bricks (handleBrickCollisions pairGame))"
    using pair_hit0 pair_hit1 by (simp add: pairGame_bricks)
  have m: "filter (\<lambda>b. struck (ball_pos (ball movedPair)) (radius (ball movedPair)) b \<and> destroyed (hit b))
        (bricks pairGame) = [brickAt 0 42 0 0, brickAt 0 42 0 (Suc 0)]"
    using movedPair_struck pair_hit0 pair_hit1 by (simp add: pairGame_fields)
  have w: "handlePaddleCollision (handleWallCollisions
             (pairGame\<lparr>paddle := Paddle_update noKeys (1 / 100) WINDOW_WIDTH (paddle pairGame),
                ball := Ball_update (1 / 100) (ball pairGame)\<rparr>)) = movedPair"
  proof -
    have 3: "handleWallCollisions movedPair = movedPair"
      by (rule handleWallCollisions_inside) (simp_all add: movedPair_ball constants_defs)
    have 4: "handlePaddleCollision movedPair = movedPair"
      by (rule handlePaddleCollision_upward) (simp add: movedPair_ball)
    show ?thesis unfolding movedPair_def [symmetric] 3 4 ..
  qed
  note t = score_is_sum_of_brick_values [of 0 42 0 0 "ball_pos (ball pairGame)"
        "radius (ball pairGame)" "brickAt 0 42 0 0" pairGame False "Game_new True" pairGame
        noKeys "1 / 100"]
  have r1: "score (handleBrickCollisions pairGame) = 120"
    using t pair_hit0 pair_hit1 unfolding f by (simp add: pairGame_fields)
  have r2: "destroyedPoints (bricks (handleBrickCollisions pairGame)) = 120"
    using t r1 d0 by (simp add: pairGame_fields)
  have r3: "score (update noKeys (1 / 100) pairGame) = 120"
    using t s pair_hit0 pair_hit1 unfolding w m by (simp add: pairGame_fields)
  show ?thesis
    using a b c f l r1 r2 r3 s(1) pair_struck0 pair_hit0 t
    by (simp add: pairGame_fields list_all_iff)
qed

end
